theory Spec2Isabelle
  imports Main "HOL-Library.Sublist"
begin

section \<open>Data model\<close>

text \<open>
  The appointment scheduler of the clinic backend: \<^verbatim>\<open>src/models/cita.js\<close> (the schema) and
  \<^verbatim>\<open>src/controllers/citas.js\<close> (the handlers), with the validator chains of
  \<^verbatim>\<open>src/routes/citas.js\<close>.

  An ObjectId is a natural number, a \<^verbatim>\<open>Date\<close> is its \<^verbatim>\<open>getTime()\<close> value (milliseconds, an
  integer), a string is a list of code units below 256. The \<^verbatim>\<open>createdAt\<close>/\<^verbatim>\<open>updatedAt\<close> stamps that
  \<^verbatim>\<open>timestamps: true\<close> lets mongoose maintain are read by no handler and are left out.
\<close>

type_synonym oid = nat
type_synonym instante = int

text \<open>\<^verbatim>\<open>estado\<close>: enum of the schema, in the schema's order.\<close>

datatype estado =
  Programada | Confirmada | EnCurso | Completada | Cancelada | Reprogramada | NoAsistio

text \<open>\<^verbatim>\<open>canceladoPor\<close>: enum \<^verbatim>\<open>['paciente', 'medico', 'sistema', 'no_aplica']\<close>.\<close>

datatype origen_cancelacion = PorPaciente | PorMedico | PorSistema | NoAplica

datatype canal = Email | SMS

datatype estado_envio = Enviado | Fallido | Recibido

record recordatorio =
  tipo :: canal
  fecha :: instante
  estado_envio :: estado_envio

record cita =
  cita_id :: oid
  paciente :: oid
  medico :: oid
  tratamiento :: oid
  fechaInicio :: instante
  fechaFin :: instante
  estado :: estado
  notas :: "string option"
  citaOriginal :: "oid option"
  recordatoriosEnviados :: "recordatorio list"
  canceladoPor :: origen_cancelacion
  motivoCancelacion :: "string option"

text \<open>The collaborating collections, with the fields the appointment handlers read.\<close>

datatype rol = RolAdministrador | RolMedico | RolSecretaria | RolPaciente

record user_doc =
  usr_id :: oid
  usr_nombre :: string
  usr_email :: string
  usr_telefono :: "string option"
  usr_rol :: rol
  usr_activo :: bool

record paciente_doc =
  pac_id :: oid
  pac_usuario :: oid
  recordatoriosSMS :: bool
  recordatoriosEmail :: bool

record tratamiento_doc =
  trat_id :: oid
  trat_activo :: bool
  profesionalesHabilitados :: "oid list"

text \<open>
  The state the handlers act on: the four collections and the lines written with
  \<^verbatim>\<open>console.error\<close>.
\<close>

record sistema =
  citas :: "cita list"
  pacientes :: "paciente_doc list"
  usuarios :: "user_doc list"
  tratamientos :: "tratamiento_doc list"
  consola :: "string list"

text \<open>\<^verbatim>\<open>req.user\<close>, set by the authentication middleware.\<close>

record usuario_sesion =
  rol :: rol
  userId :: oid

text \<open>
  What a handler cannot decide by itself: the clock, the identifier mongoose gives a new
  document, and whether each notification service rejects.
\<close>

record entorno =
  ahora :: instante
  nuevo_id :: oid
  email_falla :: bool
  sms_falla :: bool

text \<open>
  The failures of the handlers, named as the specification names them. In the source each
  is a status and a message:
  \<^item> \<open>NotFound\<close>: 404;
  \<^item> \<open>ValidationError\<close>: 400 from a validator chain, or 400 \<^verbatim>\<open>Estado no v\'alido\<close>;
  \<^item> \<open>InvalidAssignment\<close>: 400, the practitioner is not enabled for the treatment;
  \<^item> \<open>SchedulingConflict\<close>: 400, the practitioner already has an appointment at that time;
  \<^item> \<open>InvalidState\<close>: 400 \<^verbatim>\<open>No se puede actualizar/reprogramar/cancelar una cita en estado ...\<close>;
  \<^item> \<open>InvalidTransition\<close>: 400 \<^verbatim>\<open>No se puede cambiar el estado de una cita ...\<close>;
  \<^item> \<open>Forbidden\<close>: 403;
  \<^item> \<open>InternalError\<close>: 500, from the handler's \<^verbatim>\<open>catch\<close>.
\<close>

datatype error =
    NotFound | ValidationError | InvalidAssignment | SchedulingConflict
  | InvalidState | InvalidTransition | Forbidden | InternalError

text \<open>
  The success bodies. \<open>EstadoActualizado c sug\<close> and \<open>CitaCancelada c\<close> carry the document
  whose fields the handler serialises; \<open>CitaReprogramada i e n\<close> is
  \<^verbatim>\<open>{citaOriginal: {_id: i, estado: e}, nuevaCita: n}\<close>, where \<open>n\<close> is the new appointment
  as read back, paired with the document that \<^verbatim>\<open>.populate('citaOriginal')\<close> puts in its
  \<^verbatim>\<open>citaOriginal\<close>. The other \<^verbatim>\<open>populate\<close> calls of the responses join the patient, the
  practitioner and the treatment to their references; the model keeps the references.
\<close>

datatype respuesta =
    CitaCreada "cita option"
  | CitaActualizada "cita option"
  | EstadoActualizado cita bool
  | CitaReprogramada oid estado "(cita \<times> cita option) option"
  | CitaCancelada cita

type_synonym resultado = "(error + respuesta) \<times> sistema"

section \<open>Strings: the schema's setters and JavaScript's truthiness\<close>

text \<open>
  The code units that \<^verbatim>\<open>String.prototype.trim\<close> strips, as far as they are below 256: tab,
  line feed, vertical tab, form feed, carriage return, space and the no-break space
  U+00A0.
\<close>

definition es_espacio :: "char \<Rightarrow> bool" where
  "es_espacio c \<longleftrightarrow>
     c = CHR 0x09 \<or> c = CHR 0x0A \<or> c = CHR 0x0B \<or> c = CHR 0x0C \<or> c = CHR 0x0D \<or>
     c = CHR 0x20 \<or> c = CHR 0xA0"

text \<open>\<^verbatim>\<open>trim: true\<close> on \<^verbatim>\<open>notas\<close> and \<^verbatim>\<open>motivoCancelacion\<close>: the setter applies \<^verbatim>\<open>String.trim\<close>.\<close>

definition trim :: "string \<Rightarrow> string" where
  "trim s = rev (dropWhile es_espacio (rev (dropWhile es_espacio s)))"

text \<open>A possibly absent string in a condition: \<^verbatim>\<open>undefined\<close> and \<^verbatim>\<open>''\<close> are falsy.\<close>

definition verdadero :: "string option \<Rightarrow> bool" where
  "verdadero v = (case v of None \<Rightarrow> False | Some s \<Rightarrow> s \<noteq> [])"

text \<open>\<^verbatim>\<open>v || d\<close> on a possibly absent string.\<close>

definition o_defecto :: "string option \<Rightarrow> string \<Rightarrow> string" where
  "o_defecto v d = (case v of None \<Rightarrow> d | Some s \<Rightarrow> if s = [] then d else s)"

definition estadosValidos :: "(string \<times> estado) list" where
  "estadosValidos =
     [(''programada'', Programada), (''confirmada'', Confirmada), (''en_curso'', EnCurso),
      (''completada'', Completada), (''cancelada'', Cancelada),
      (''reprogramada'', Reprogramada), (''no_asistio'', NoAsistio)]"

text \<open>The string of a state in a request body, read against the enum.\<close>

definition estado_de_cadena :: "string \<Rightarrow> estado option" where
  "estado_de_cadena s = map_of estadosValidos s"

fun cadena_de_estado :: "estado \<Rightarrow> string" where
  "cadena_de_estado Programada = ''programada''"
| "cadena_de_estado Confirmada = ''confirmada''"
| "cadena_de_estado EnCurso = ''en_curso''"
| "cadena_de_estado Completada = ''completada''"
| "cadena_de_estado Cancelada = ''cancelada''"
| "cadena_de_estado Reprogramada = ''reprogramada''"
| "cadena_de_estado NoAsistio = ''no_asistio''"

definition origen_de_cadena :: "string \<Rightarrow> origen_cancelacion option" where
  "origen_de_cadena s =
     map_of [(''paciente'', PorPaciente), (''medico'', PorMedico),
             (''sistema'', PorSistema), (''no_aplica'', NoAplica)] s"

section \<open>The store\<close>

text \<open>\<^verbatim>\<open>Cita.findById\<close>.\<close>

definition findById :: "cita list \<Rightarrow> oid \<Rightarrow> cita option" where
  "findById cs i = find (\<lambda>c. cita_id c = i) cs"

text \<open>\<^verbatim>\<open>save()\<close> of a document that was loaded: the stored document of that id is replaced.\<close>

definition actualizar_doc :: "cita \<Rightarrow> cita list \<Rightarrow> cita list" where
  "actualizar_doc c cs = map (\<lambda>d. if cita_id d = cita_id c then c else d) cs"

text \<open>
  \<^verbatim>\<open>save()\<close> of a new document: an insert, which the unique index on \<^verbatim>\<open>_id\<close> rejects
  (\<open>None\<close>) when the identifier is taken.
\<close>

definition insertar_doc :: "cita \<Rightarrow> cita list \<Rightarrow> cita list option" where
  "insertar_doc c cs =
     (if list_ex (\<lambda>d. cita_id d = cita_id c) cs then None else Some (cs @ [c]))"

text \<open>\<^verbatim>\<open>new Cita({...})\<close> as the handlers call it: the schema's defaults and the trimmed notes.\<close>

definition nueva_cita ::
  "oid \<Rightarrow> oid \<Rightarrow> oid \<Rightarrow> oid \<Rightarrow> instante \<Rightarrow> instante \<Rightarrow> string option \<Rightarrow> oid option \<Rightarrow> cita" where
  "nueva_cita i p m t ini fin n orig =
     \<lparr>cita_id = i, paciente = p, medico = m, tratamiento = t,
      fechaInicio = ini, fechaFin = fin, estado = Programada,
      notas = map_option trim n, citaOriginal = orig, recordatoriosEnviados = [],
      canceladoPor = NoAplica, motivoCancelacion = None\<rparr>"

definition registrar :: "string \<Rightarrow> sistema \<Rightarrow> sistema" where
  "registrar linea s = s\<lparr>consola := consola s @ [linea]\<rparr>"

definition registrar_lineas :: "string list \<Rightarrow> sistema \<Rightarrow> sistema" where
  "registrar_lineas lineas s = s\<lparr>consola := consola s @ lineas\<rparr>"

text \<open>
  \<^verbatim>\<open>.populate('citaOriginal')\<close> on an appointment read from the collection \<open>cs\<close>: the
  appointment with the document its \<^verbatim>\<open>citaOriginal\<close> refers to (\<open>None\<close> for \<^verbatim>\<open>null\<close>).
\<close>

definition poblar_citaOriginal :: "cita list \<Rightarrow> cita \<Rightarrow> cita \<times> cita option" where
  "poblar_citaOriginal cs c =
     (c, case citaOriginal c of None \<Rightarrow> None | Some i \<Rightarrow> findById cs i)"

section \<open>The overlap query\<close>

text \<open>
  The \<^verbatim>\<open>$or\<close> of the three clauses, for a stored appointment \<open>c\<close> and the candidate window
  from \<open>ini\<close> to \<open>fin\<close>:
  \<^verbatim>\<open>
  { fechaInicio: { $gte: ini, $lt: fin } },
  { fechaFin: { $gt: ini, $lte: fin } },
  { fechaInicio: { $lte: ini }, fechaFin: { $gte: fin } }
  \<close>
\<close>

definition solapa :: "instante \<Rightarrow> instante \<Rightarrow> cita \<Rightarrow> bool" where
  "solapa ini fin c \<longleftrightarrow>
     (ini \<le> fechaInicio c \<and> fechaInicio c < fin) \<or>
     (ini < fechaFin c \<and> fechaFin c \<le> fin) \<or>
     (fechaInicio c \<le> ini \<and> fin \<le> fechaFin c)"

text \<open>\<^verbatim>\<open>estado: { $nin: ['cancelada', 'reprogramada'] }\<close>.\<close>

definition ocupa :: "cita \<Rightarrow> bool" where
  "ocupa c \<longleftrightarrow> estado c \<noteq> Cancelada \<and> estado c \<noteq> Reprogramada"

text \<open>The query of \<^verbatim>\<open>crearCita\<close>: \<^verbatim>\<open>Cita.findOne({medico, estado: ..., $or: ...})\<close>.\<close>

definition citaSolapada :: "cita list \<Rightarrow> oid \<Rightarrow> instante \<Rightarrow> instante \<Rightarrow> cita option" where
  "citaSolapada cs m ini fin = find (\<lambda>c. medico c = m \<and> ocupa c \<and> solapa ini fin c) cs"

text \<open>
  The query of \<^verbatim>\<open>actualizarCita\<close> and \<^verbatim>\<open>reprogramarCita\<close>, which adds
  \<^verbatim>\<open>_id: { $ne: citaId }\<close>.
\<close>

definition citaSolapadaOtra ::
  "cita list \<Rightarrow> oid \<Rightarrow> oid \<Rightarrow> instante \<Rightarrow> instante \<Rightarrow> cita option" where
  "citaSolapadaOtra cs citaId m ini fin =
     find (\<lambda>c. cita_id c \<noteq> citaId \<and> medico c = m \<and> ocupa c \<and> solapa ini fin c) cs"

text \<open>
  The specification's own predicate, in its words: two windows \<open>[s1,e1)\<close> and \<open>[s2,e2)\<close>
  intersect iff \<open>s1 < e2 AND s2 < e1\<close>.
\<close>

definition interseca_spec :: "instante \<Rightarrow> instante \<Rightarrow> instante \<Rightarrow> instante \<Rightarrow> bool" where
  "interseca_spec s1 e1 s2 e2 \<longleftrightarrow> s1 < e2 \<and> s2 < e1"

section \<open>Notification\<close>

text \<open>
  A \<^verbatim>\<open>try\<close> block either runs to its end or throws; both leave the state reached so far.
  \<open>Lanzado ls st\<close> also carries the lines \<open>ls\<close> that the service wrote with
  \<^verbatim>\<open>console.error\<close> before it rethrew.
\<close>

datatype 'a intento = Hecho 'a | Lanzado "string list" 'a

text \<open>The state an attempt ends in.\<close>

fun estado_final :: "'a intento \<Rightarrow> 'a" where
  "estado_final (Hecho st) = st"
| "estado_final (Lanzado ls st) = st"

text \<open>
  \<^verbatim>\<open>_enviarEmail\<close> of \<^verbatim>\<open>services/email.js\<close> writes \<^verbatim>\<open>'Error al enviar email:'\<close> when the
  transport rejects; \<^verbatim>\<open>enviarSMS\<close> and \<^verbatim>\<open>enviarRecordatorioCita\<close> of \<^verbatim>\<open>services/sms.js\<close>
  write \<^verbatim>\<open>'Error al enviar SMS:'\<close> and \<^verbatim>\<open>'Error al enviar recordatorio por SMS:'\<close>. Each
  rethrows.
\<close>

definition aviso_email :: string where
  "aviso_email = ''Error al enviar email:''"

definition aviso_sms :: string where
  "aviso_sms = ''Error al enviar SMS:''"

definition aviso_recordatorio_sms :: string where
  "aviso_recordatorio_sms = ''Error al enviar recordatorio por SMS:''"

text \<open>
  The email step that the three handlers share. The state is the document in memory and
  the collection its \<^verbatim>\<open>save\<close> writes to.
  \<^verbatim>\<open>
  if (paciente.preferencias?.recordatoriosEmail && paciente.usuario.email) {
    await emailService.enviarConfirmacionCita(email, nombre, {fechaInicio, medico, tratamiento, _id});
    cita.recordatoriosEnviados.push({ tipo: 'email', fecha: new Date(), estado: 'enviado' });
    await cita.save();
  }
  \<close>
  \<open>usr\<close> is the populated \<^verbatim>\<open>usuario\<close> (\<open>None\<close> for \<^verbatim>\<open>null\<close>, whose \<^verbatim>\<open>.email\<close> throws);
  \<open>datos\<close> says that the practitioner and the treatment handed to the service are not
  \<^verbatim>\<open>null\<close> (the service reads \<^verbatim>\<open>cita.medico.nombre\<close> and \<^verbatim>\<open>cita.tratamiento.nombre\<close>
  before it sends, so a \<^verbatim>\<open>null\<close> throws without a line on the console);
  \<open>falla_guardar\<close> says that the \<^verbatim>\<open>save\<close> rejects.
\<close>

definition paso_email ::
  "entorno \<Rightarrow> paciente_doc \<Rightarrow> user_doc option \<Rightarrow> bool \<Rightarrow> bool \<Rightarrow> cita \<times> cita list
     \<Rightarrow> (cita \<times> cita list) intento" where
  "paso_email env pac usr datos falla_guardar st =
     (if \<not> recordatoriosEmail pac then Hecho st
      else case usr of
        None \<Rightarrow> Lanzado [] st
      | Some u \<Rightarrow>
          if usr_email u = [] then Hecho st
          else if \<not> datos then Lanzado [] st
          else if email_falla env then Lanzado [aviso_email] st
          else
            let c = (fst st)\<lparr>recordatoriosEnviados := recordatoriosEnviados (fst st) @
                      [\<lparr>tipo = Email, fecha = ahora env, estado_envio = Enviado\<rparr>]\<rparr>
            in if falla_guardar then Lanzado [] (c, snd st)
               else Hecho (c, actualizar_doc c (snd st)))"

text \<open>
  The SMS step of \<^verbatim>\<open>crearCita\<close>:
  \<^verbatim>\<open>
  if (pacienteExistente.preferencias?.recordatoriosSMS && pacienteExistente.usuario.telefono) {
    await smsService.enviarRecordatorioCita(telefono, nombre, {fechaInicio, fechaFin, _id});
    nuevaCita.recordatoriosEnviados.push({ tipo: 'sms', fecha: new Date(), estado: 'enviado' });
    await nuevaCita.save();
  }
  \<close>
\<close>

definition paso_sms ::
  "entorno \<Rightarrow> paciente_doc \<Rightarrow> user_doc option \<Rightarrow> cita \<times> cita list
     \<Rightarrow> (cita \<times> cita list) intento" where
  "paso_sms env pac usr st =
     (if \<not> recordatoriosSMS pac then Hecho st
      else case usr of
        None \<Rightarrow> Lanzado [] st
      | Some u \<Rightarrow>
          if \<not> verdadero (usr_telefono u) then Hecho st
          else if sms_falla env then Lanzado [aviso_sms, aviso_recordatorio_sms] st
          else
            let c = (fst st)\<lparr>recordatoriosEnviados := recordatoriosEnviados (fst st) @
                      [\<lparr>tipo = SMS, fecha = ahora env, estado_envio = Enviado\<rparr>]\<rparr>
            in Hecho (c, actualizar_doc c (snd st)))"

text \<open>The body of the \<^verbatim>\<open>try\<close> of \<^verbatim>\<open>crearCita\<close>: the email step, then the SMS step.\<close>

definition notificar_creacion ::
  "entorno \<Rightarrow> paciente_doc \<Rightarrow> user_doc option \<Rightarrow> cita \<times> cita list
     \<Rightarrow> (cita \<times> cita list) intento" where
  "notificar_creacion env pac usr st =
     (case paso_email env pac usr True False st of
        Lanzado ls st1 \<Rightarrow> Lanzado ls st1
      | Hecho st1 \<Rightarrow> paso_sms env pac usr st1)"

text \<open>
  The body of the \<^verbatim>\<open>try\<close> of \<^verbatim>\<open>actualizarCita\<close> and \<^verbatim>\<open>reprogramarCita\<close>:
  \<^verbatim>\<open>
  const paciente = await Paciente.findById(cita.paciente).populate('usuario');
  const medico = await User.findById(cita.medico);
  const tratamiento = await Tratamiento.findById(cita.tratamiento);
  if (paciente.preferencias?.recordatoriosEmail && paciente.usuario.email) { ... }
  \<close>
  A \<^verbatim>\<open>null\<close> patient throws at \<^verbatim>\<open>paciente.preferencias\<close>.
\<close>

definition notificar_cambio ::
  "entorno \<Rightarrow> sistema \<Rightarrow> bool \<Rightarrow> cita \<times> cita list \<Rightarrow> (cita \<times> cita list) intento" where
  "notificar_cambio env s falla_guardar st =
     (case find (\<lambda>p. pac_id p = paciente (fst st)) (pacientes s) of
        None \<Rightarrow> Lanzado [] st
      | Some pac \<Rightarrow>
          paso_email env pac (find (\<lambda>u. usr_id u = pac_usuario pac) (usuarios s))
            (find (\<lambda>u. usr_id u = medico (fst st)) (usuarios s) \<noteq> None \<and>
             find (\<lambda>t. trat_id t = tratamiento (fst st)) (tratamientos s) \<noteq> None)
            falla_guardar st)"

text \<open>
  What the \<^verbatim>\<open>catch\<close> of each notification block writes with \<^verbatim>\<open>console.error\<close>:
  \<^verbatim>\<open>'Error al enviar notificaciones de cita:'\<close>,
  \<^verbatim>\<open>'Error al enviar notificaci\'on de actualizaci\'on:'\<close> and
  \<^verbatim>\<open>'Error al enviar notificaci\'on de reprogramaci\'on:'\<close>.
\<close>

definition aviso_creacion :: string where
  "aviso_creacion = ''Error al enviar notificaciones de cita:''"

definition aviso_actualizacion :: string where
  "aviso_actualizacion =
     ''Error al enviar notificaci'' @ [CHR 0xF3] @ ''n de actualizaci'' @ [CHR 0xF3] @ ''n:''"

definition aviso_reprogramacion :: string where
  "aviso_reprogramacion =
     ''Error al enviar notificaci'' @ [CHR 0xF3] @ ''n de reprogramaci'' @ [CHR 0xF3] @ ''n:''"

section \<open>crearCita\<close>

record solicitud_crear =
  sc_paciente :: oid
  sc_medico :: oid
  sc_tratamiento :: oid
  sc_fechaInicio :: instante
  sc_fechaFin :: instante
  sc_notas :: "string option"

text \<open>
  The lookups before the overlap query: the patient, the active practitioner, the active
  treatment, and the practitioner's membership of \<^verbatim>\<open>profesionalesHabilitados\<close> when that
  list is not empty.
\<close>

definition resolver_crear ::
  "sistema \<Rightarrow> solicitud_crear \<Rightarrow> error + paciente_doc" where
  "resolver_crear s req =
     (case find (\<lambda>p. pac_id p = sc_paciente req) (pacientes s) of
        None \<Rightarrow> Inl NotFound
      | Some pac \<Rightarrow>
          (case find (\<lambda>u. usr_id u = sc_medico req \<and> usr_rol u = RolMedico \<and> usr_activo u)
                  (usuarios s) of
             None \<Rightarrow> Inl NotFound
           | Some med \<Rightarrow>
               (case find (\<lambda>t. trat_id t = sc_tratamiento req \<and> trat_activo t)
                       (tratamientos s) of
                  None \<Rightarrow> Inl NotFound
                | Some trat \<Rightarrow>
                    if profesionalesHabilitados trat \<noteq> [] \<and>
                       usr_id med \<notin> set (profesionalesHabilitados trat)
                    then Inl InvalidAssignment
                    else Inr pac)))"

definition crearCita :: "entorno \<Rightarrow> sistema \<Rightarrow> solicitud_crear \<Rightarrow> resultado" where
  "crearCita env s req =
     (case resolver_crear s req of
        Inl e \<Rightarrow> (Inl e, s)
      | Inr pac \<Rightarrow>
          (case citaSolapada (citas s) (sc_medico req) (sc_fechaInicio req) (sc_fechaFin req) of
             Some _ \<Rightarrow> (Inl SchedulingConflict, s)
           | None \<Rightarrow>
               let nuevaCita = nueva_cita (nuevo_id env) (sc_paciente req) (sc_medico req)
                     (sc_tratamiento req) (sc_fechaInicio req) (sc_fechaFin req) (sc_notas req)
                     None
               in (case insertar_doc nuevaCita (citas s) of
                     None \<Rightarrow> (Inl InternalError, registrar ''Error al crear cita:'' s)
                   | Some cs1 \<Rightarrow>
                       (case notificar_creacion env pac
                               (find (\<lambda>u. usr_id u = pac_usuario pac) (usuarios s))
                               (nuevaCita, cs1) of
                          Hecho st \<Rightarrow>
                            (Inr (CitaCreada (findById (snd st) (nuevo_id env))),
                             s\<lparr>citas := snd st\<rparr>)
                        | Lanzado ls st \<Rightarrow>
                            (Inr (CitaCreada (findById (snd st) (nuevo_id env))),
                             registrar aviso_creacion
                               (registrar_lineas ls (s\<lparr>citas := snd st\<rparr>)))))))"

section \<open>actualizarCita\<close>

text \<open>
  A date of the body that is absent or \<^verbatim>\<open>''\<close> is \<open>None\<close>; \<^verbatim>\<open>notas === undefined\<close> is \<open>None\<close>.
\<close>

record solicitud_actualizar =
  sa_fechaInicio :: "instante option"
  sa_fechaFin :: "instante option"
  sa_notas :: "string option"

text \<open>
  \<^verbatim>\<open>(fechaInicio && new Date(fechaInicio).getTime() !== cita.fechaInicio.getTime()) ||
  (fechaFin && new Date(fechaFin).getTime() !== cita.fechaFin.getTime())\<close>
\<close>

definition cambia_fecha :: "cita \<Rightarrow> solicitud_actualizar \<Rightarrow> bool" where
  "cambia_fecha c req \<longleftrightarrow>
     (case sa_fechaInicio req of None \<Rightarrow> False | Some f \<Rightarrow> f \<noteq> fechaInicio c) \<or>
     (case sa_fechaFin req of None \<Rightarrow> False | Some f \<Rightarrow> f \<noteq> fechaFin c)"

definition nuevoInicio :: "cita \<Rightarrow> solicitud_actualizar \<Rightarrow> instante" where
  "nuevoInicio c req = (case sa_fechaInicio req of None \<Rightarrow> fechaInicio c | Some f \<Rightarrow> f)"

definition nuevoFin :: "cita \<Rightarrow> solicitud_actualizar \<Rightarrow> instante" where
  "nuevoFin c req = (case sa_fechaFin req of None \<Rightarrow> fechaFin c | Some f \<Rightarrow> f)"

definition actualizarCita ::
  "entorno \<Rightarrow> sistema \<Rightarrow> oid \<Rightarrow> solicitud_actualizar \<Rightarrow> resultado" where
  "actualizarCita env s citaId req =
     (case findById (citas s) citaId of
        None \<Rightarrow> (Inl NotFound, s)
      | Some cita \<Rightarrow>
          if estado cita \<in> set [Cancelada, Completada, NoAsistio] then (Inl InvalidState, s)
          else if cambia_fecha cita req \<and>
                  citaSolapadaOtra (citas s) citaId (medico cita)
                    (nuevoInicio cita req) (nuevoFin cita req) \<noteq> None
          then (Inl SchedulingConflict, s)
          else
            let c1 = (if cambia_fecha cita req
                      then cita\<lparr>fechaInicio := nuevoInicio cita req,
                                fechaFin := nuevoFin cita req\<rparr>
                      else cita);
                c2 = (case sa_notas req of
                        None \<Rightarrow> c1
                      | Some n \<Rightarrow> c1\<lparr>notas := Some (trim n)\<rparr>);
                cs1 = actualizar_doc c2 (citas s)
            in if sa_fechaInicio req \<noteq> None \<or> sa_fechaFin req \<noteq> None
               then (case notificar_cambio env s False (c2, cs1) of
                       Hecho st \<Rightarrow>
                         (Inr (CitaActualizada (findById (snd st) citaId)), s\<lparr>citas := snd st\<rparr>)
                     | Lanzado ls st \<Rightarrow>
                         (Inr (CitaActualizada (findById (snd st) citaId)),
                          registrar aviso_actualizacion
                            (registrar_lineas ls (s\<lparr>citas := snd st\<rparr>))))
               else (Inr (CitaActualizada (findById cs1 citaId)), s\<lparr>citas := cs1\<rparr>))"

section \<open>cambiarEstadoCita\<close>

record solicitud_estado =
  se_estado :: string
  se_notas :: "string option"

definition estadosFinales :: "estado list" where
  "estadosFinales = [Completada, Cancelada, NoAsistio]"

text \<open>\<^verbatim>\<open>'No se especific\'o motivo'\<close> and \<^verbatim>\<open>'Paciente no asisti\'o'\<close>.\<close>

definition motivo_no_especificado :: string where
  "motivo_no_especificado = ''No se especific'' @ [CHR 0xF3] @ '' motivo''"

definition motivo_no_asistio :: string where
  "motivo_no_asistio = ''Paciente no asisti'' @ [CHR 0xF3]"

definition cambiarEstadoCita ::
  "usuario_sesion \<Rightarrow> sistema \<Rightarrow> oid \<Rightarrow> solicitud_estado \<Rightarrow> resultado" where
  "cambiarEstadoCita usr s citaId req =
     (case estado_de_cadena (se_estado req) of
        None \<Rightarrow> (Inl ValidationError, s)
      | Some est \<Rightarrow>
          (case findById (citas s) citaId of
             None \<Rightarrow> (Inl NotFound, s)
           | Some cita \<Rightarrow>
               if estado cita \<in> set estadosFinales \<and> estado cita \<noteq> est
               then (Inl InvalidTransition, s)
               else
                 let c1 = cita\<lparr>estado := est\<rparr>;
                     c2 = (case se_notas req of
                             None \<Rightarrow> c1
                           | Some n \<Rightarrow> c1\<lparr>notas := Some (trim n)\<rparr>);
                     c3 = (if est = Cancelada
                           then c2\<lparr>canceladoPor :=
                                     (if rol usr = RolPaciente then PorPaciente else PorMedico),
                                   motivoCancelacion :=
                                     Some (trim (o_defecto (se_notas req) motivo_no_especificado))\<rparr>
                           else if est = NoAsistio
                           then c2\<lparr>canceladoPor := NoAplica,
                                   motivoCancelacion := Some (trim motivo_no_asistio)\<rparr>
                           else c2)
                 in (Inr (EstadoActualizado c3 (est = Completada)),
                     s\<lparr>citas := actualizar_doc c3 (citas s)\<rparr>)))"

section \<open>reprogramarCita\<close>

record solicitud_reprogramar =
  sr_fechaInicio :: instante
  sr_fechaFin :: instante
  sr_motivo :: "string option"

text \<open>
  Where the database can reject inside \<^verbatim>\<open>reprogramarCita\<close>: the \<^verbatim>\<open>save\<close> of the original, the
  \<^verbatim>\<open>save\<close> of the new appointment, the \<^verbatim>\<open>save\<close> of its reminder, \<^verbatim>\<open>commitTransaction\<close>, and
  the \<^verbatim>\<open>findById\<close> that reads the new appointment back for the response.
\<close>

record fallos =
  falla_guardar_original :: bool
  falla_guardar_nueva :: bool
  falla_guardar_recordatorio :: bool
  falla_commit :: bool
  falla_poblar :: bool

text \<open>
  The handler opens a session and a transaction. Every \<^verbatim>\<open>save({ session })\<close> writes to the
  transaction's view \<open>tx\<close> of the collection; \<^verbatim>\<open>commitTransaction\<close> makes the view the
  collection, and \<^verbatim>\<open>abortTransaction\<close> (in the \<^verbatim>\<open>catch\<close>) drops it. An exception thrown after
  the commit also reaches the \<^verbatim>\<open>catch\<close>, where nothing is left to abort: the driver
  refuses \<^verbatim>\<open>abortTransaction\<close> after a commit, so the request fails before the
  \<^verbatim>\<open>console.error\<close> of the \<^verbatim>\<open>catch\<close>, with the collection as committed.
\<close>

definition reprogramarCita ::
  "entorno \<Rightarrow> fallos \<Rightarrow> usuario_sesion \<Rightarrow> sistema \<Rightarrow> oid \<Rightarrow> solicitud_reprogramar
     \<Rightarrow> resultado" where
  "reprogramarCita env fl usr s citaId req =
     (case findById (citas s) citaId of
        None \<Rightarrow> (Inl NotFound, s)
      | Some cita \<Rightarrow>
          if estado cita \<in> set [Cancelada, Completada, NoAsistio, Reprogramada]
          then (Inl InvalidState, s)
          else if citaSolapadaOtra (citas s) citaId (medico cita)
                    (sr_fechaInicio req) (sr_fechaFin req) \<noteq> None
          then (Inl SchedulingConflict, s)
          else
            let original = cita\<lparr>estado := Reprogramada,
                                motivoCancelacion :=
                                  Some (trim (o_defecto (sr_motivo req) ''Cita reprogramada'')),
                                canceladoPor :=
                                  (if rol usr = RolPaciente then PorPaciente else PorMedico)\<rparr>;
                nuevaCita = nueva_cita (nuevo_id env) (paciente original) (medico original)
                              (tratamiento original) (sr_fechaInicio req) (sr_fechaFin req)
                              (notas original) (Some (cita_id original));
                abortada = (Inl InternalError, registrar ''Error al reprogramar cita:'' s)
            in if falla_guardar_original fl then abortada
               else
                 (case (if falla_guardar_nueva fl then None
                        else insertar_doc nuevaCita (actualizar_doc original (citas s))) of
                    None \<Rightarrow> abortada
                  | Some tx \<Rightarrow>
                      let n = notificar_cambio env s (falla_guardar_recordatorio fl)
                                (nuevaCita, tx);
                          tx' = snd (estado_final n);
                          s1 = (case n of
                                  Hecho st \<Rightarrow> s
                                | Lanzado ls st \<Rightarrow>
                                    registrar aviso_reprogramacion (registrar_lineas ls s))
                      in if falla_commit fl
                         then (Inl InternalError, registrar ''Error al reprogramar cita:'' s1)
                         else if falla_poblar fl
                         then (Inl InternalError, s1\<lparr>citas := tx'\<rparr>)
                         else (Inr (CitaReprogramada (cita_id original) (estado original)
                                      (map_option (poblar_citaOriginal tx')
                                         (findById tx' (nuevo_id env)))),
                               s1\<lparr>citas := tx'\<rparr>)))"

section \<open>cancelarCita\<close>

record solicitud_cancelar =
  sx_motivo :: "string option"
  sx_canceladoPor :: "string option"

text \<open>
  \<^verbatim>\<open>
  let origen = canceladoPor || 'sistema';
  if (req.user.rol === 'paciente') { origen = 'paciente'; }
  else if (req.user.rol === 'medico') { origen = 'medico'; }
  \<close>
\<close>

definition origen :: "usuario_sesion \<Rightarrow> solicitud_cancelar \<Rightarrow> string" where
  "origen usr req =
     (if rol usr = RolPaciente then ''paciente''
      else if rol usr = RolMedico then ''medico''
      else o_defecto (sx_canceladoPor req) ''sistema'')"

text \<open>
  The permission check: a patient cancels only an appointment of the patient record of
  that user, a practitioner only an own appointment.
\<close>

definition sin_permiso :: "usuario_sesion \<Rightarrow> sistema \<Rightarrow> cita \<Rightarrow> bool" where
  "sin_permiso usr s c \<longleftrightarrow>
     (if rol usr = RolPaciente
      then (case find (\<lambda>p. pac_usuario p = userId usr) (pacientes s) of
              None \<Rightarrow> True
            | Some p \<Rightarrow> pac_id p \<noteq> paciente c)
      else rol usr = RolMedico \<and> userId usr \<noteq> medico c)"

text \<open>
  A value of \<^verbatim>\<open>canceladoPor\<close> outside the schema's enum makes \<^verbatim>\<open>save\<close> reject, which the
  handler's \<^verbatim>\<open>catch\<close> answers with 500.
\<close>

definition cancelarCita ::
  "usuario_sesion \<Rightarrow> sistema \<Rightarrow> oid \<Rightarrow> solicitud_cancelar \<Rightarrow> resultado" where
  "cancelarCita usr s citaId req =
     (case findById (citas s) citaId of
        None \<Rightarrow> (Inl NotFound, s)
      | Some cita \<Rightarrow>
          if estado cita \<in> set [Completada, Cancelada, NoAsistio] then (Inl InvalidState, s)
          else if sin_permiso usr s cita then (Inl Forbidden, s)
          else
            (case origen_de_cadena (origen usr req) of
               None \<Rightarrow> (Inl InternalError, registrar ''Error al cancelar cita:'' s)
             | Some por \<Rightarrow>
                 let c = cita\<lparr>estado := Cancelada, canceladoPor := por,
                              motivoCancelacion :=
                                Some (trim (o_defecto (sx_motivo req) motivo_no_especificado))\<rparr>
                 in (Inr (CitaCancelada c), s\<lparr>citas := actualizar_doc c (citas s)\<rparr>)))"

section \<open>The routes\<close>

text \<open>The validators of \<^verbatim>\<open>express-validator\<close> on a body field: a missing field reads \<^verbatim>\<open>''\<close>.\<close>

definition notEmpty :: "string option \<Rightarrow> bool" where
  "notEmpty v = (case v of None \<Rightarrow> False | Some s \<Rightarrow> s \<noteq> [])"

definition isIn :: "string option \<Rightarrow> string list \<Rightarrow> bool" where
  "isIn v vs = (case v of None \<Rightarrow> [] \<in> set vs | Some s \<Rightarrow> s \<in> set vs)"

text \<open>
  Modelled from the spec: \<^verbatim>\<open>validate\<close> of \<^verbatim>\<open>middleware/security\<close>, which every route puts
  between its validator chain and its handler, is not among the sources. As the
  specification has it (malformed input fails with \<open>ValidationError\<close>), and as
  \<^verbatim>\<open>validar\<close> of \<^verbatim>\<open>middleware/validacion.js\<close> does with status 400, a failed validator ends
  the request before the handler runs.
\<close>

definition validate :: "bool list \<Rightarrow> sistema \<Rightarrow> resultado \<Rightarrow> resultado" where
  "validate chain s siguiente = (if list_all id chain then siguiente else (Inl ValidationError, s))"

text \<open>
  \<^verbatim>\<open>router.post('/', ...)\<close>: the chain checks \<^verbatim>\<open>isMongoId\<close> on the three references and
  \<^verbatim>\<open>isISO8601\<close> on the two dates, which the types of \<open>solicitud_crear\<close> already say.
\<close>

definition ruta_crear :: "entorno \<Rightarrow> sistema \<Rightarrow> solicitud_crear \<Rightarrow> resultado" where
  "ruta_crear env s req = validate [] s (crearCita env s req)"

text \<open>\<^verbatim>\<open>router.put('/:id/estado', ...)\<close>: \<^verbatim>\<open>body('estado').isIn([...])\<close>, \<^verbatim>\<open>body('notas').optional()\<close>.\<close>

definition ruta_estado ::
  "usuario_sesion \<Rightarrow> sistema \<Rightarrow> oid \<Rightarrow> solicitud_estado \<Rightarrow> resultado" where
  "ruta_estado usr s citaId req =
     validate [isIn (Some (se_estado req)) (map fst estadosValidos)] s
       (cambiarEstadoCita usr s citaId req)"

text \<open>
  \<^verbatim>\<open>router.post('/:id/cancelar', ...)\<close>: \<^verbatim>\<open>body('motivo').notEmpty()\<close> and
  \<^verbatim>\<open>body('canceladoPor').isIn(['paciente', 'medico', 'sistema'])\<close>.
\<close>

definition ruta_cancelar ::
  "usuario_sesion \<Rightarrow> sistema \<Rightarrow> oid \<Rightarrow> solicitud_cancelar \<Rightarrow> resultado" where
  "ruta_cancelar usr s citaId req =
     validate [notEmpty (sx_motivo req),
               isIn (sx_canceladoPor req) [''paciente'', ''medico'', ''sistema'']] s
       (cancelarCita usr s citaId req)"

section \<open>Forgetting the notification log\<close>

text \<open>An appointment without its \<^verbatim>\<open>recordatoriosEnviados\<close>, and a collection of such.\<close>

definition sin_recordatorios :: "cita \<Rightarrow> cita" where
  "sin_recordatorios c = c\<lparr>recordatoriosEnviados := []\<rparr>"

definition olvida :: "cita list \<Rightarrow> cita list" where
  "olvida cs = map sin_recordatorios cs"

text \<open>The lines that a failed notification leaves on the console.\<close>

definition avisos :: "string list" where
  "avisos = [aviso_email, aviso_sms, aviso_recordatorio_sms,
             aviso_creacion, aviso_actualizacion, aviso_reprogramacion]"

text \<open>The console without them.\<close>

definition sin_avisos :: "string list \<Rightarrow> string list" where
  "sin_avisos ls = filter (\<lambda>l. l \<notin> set avisos) ls"

text \<open>A response without the notification logs of the appointments it carries.\<close>

fun olvida_respuesta :: "respuesta \<Rightarrow> respuesta" where
  "olvida_respuesta (CitaCreada c) = CitaCreada (map_option sin_recordatorios c)"
| "olvida_respuesta (CitaActualizada c) = CitaActualizada (map_option sin_recordatorios c)"
| "olvida_respuesta (EstadoActualizado c b) = EstadoActualizado (sin_recordatorios c) b"
| "olvida_respuesta (CitaReprogramada i e n) =
     CitaReprogramada i e
       (map_option (map_prod sin_recordatorios (map_option sin_recordatorios)) n)"
| "olvida_respuesta (CitaCancelada c) = CitaCancelada (sin_recordatorios c)"

text \<open>
  The system with the notification logs and the notification lines of the console left
  aside, and what a run comes to then: the failure, or the response without the
  notification logs, and that system.
\<close>

definition visible :: "sistema \<Rightarrow> sistema" where
  "visible s = s\<lparr>citas := olvida (citas s), consola := sin_avisos (consola s)\<rparr>"

definition desenlace :: "resultado \<Rightarrow> (error + respuesta) \<times> sistema" where
  "desenlace r = (map_sum id olvida_respuesta (fst r), visible (snd r))"

text \<open>
  An appointment \<open>c'\<close> continues \<open>c\<close> when it is \<open>c\<close> up to the notification log and the log
  of \<open>c\<close> is an initial part of its log. Two collections are so related when they hold the
  same appointments up to the notification log, the log of each appointment of the first
  being an initial part of its log in the second.
\<close>

definition sigue :: "cita \<Rightarrow> cita \<Rightarrow> bool" where
  "sigue c c' \<longleftrightarrow>
     sin_recordatorios c = sin_recordatorios c' \<and>
     prefix (recordatoriosEnviados c) (recordatoriosEnviados c')"

definition registro_inicial :: "cita list \<Rightarrow> cita list \<Rightarrow> bool" where
  "registro_inicial cs cs' = list_all2 sigue cs cs'"

text \<open>
  The same for the state of a notification block, the document in memory and the
  collection; and the state in which the document in memory continues every stored
  document of its identifier.
\<close>

definition avanza :: "cita \<times> cita list \<Rightarrow> cita \<times> cita list \<Rightarrow> bool" where
  "avanza st st' \<longleftrightarrow> sigue (fst st) (fst st') \<and> registro_inicial (snd st) (snd st')"

definition al_dia :: "cita \<times> cita list \<Rightarrow> bool" where
  "al_dia st \<longleftrightarrow>
     list_all (\<lambda>d. cita_id d = cita_id (fst st) \<longrightarrow> sigue d (fst st)) (snd st)"

section \<open>Stored notes\<close>

text \<open>
  The notes of an appointment as the schema's setter leaves them: absent, or a string
  that \<^verbatim>\<open>trim\<close> does not change.
\<close>

definition notas_recortadas :: "cita \<Rightarrow> bool" where
  "notas_recortadas c \<longleftrightarrow> map_option trim (notas c) = notas c"

section \<open>Example data\<close>

text \<open>
  A practitioner, a patient with both reminders enabled, an unrestricted treatment, and
  one appointment of that practitioner from 600 to 630.
\<close>

definition medico_ej :: user_doc where
  "medico_ej = \<lparr>usr_id = 7, usr_nombre = ''Ana'', usr_email = ''ana@clinica.test'',
                 usr_telefono = None, usr_rol = RolMedico, usr_activo = True\<rparr>"

definition usuario_ej :: user_doc where
  "usuario_ej = \<lparr>usr_id = 8, usr_nombre = ''Luis'', usr_email = ''luis@correo.test'',
                  usr_telefono = Some ''+5491100000000'', usr_rol = RolPaciente,
                  usr_activo = True\<rparr>"

definition paciente_ej :: paciente_doc where
  "paciente_ej = \<lparr>pac_id = 3, pac_usuario = 8, recordatoriosSMS = True,
                   recordatoriosEmail = True\<rparr>"

definition tratamiento_ej :: tratamiento_doc where
  "tratamiento_ej = \<lparr>trat_id = 5, trat_activo = True, profesionalesHabilitados = []\<rparr>"

definition cita_ej :: cita where
  "cita_ej = \<lparr>cita_id = 1, paciente = 3, medico = 7, tratamiento = 5,
               fechaInicio = 600, fechaFin = 630, estado = Programada,
               notas = Some ''control'', citaOriginal = None, recordatoriosEnviados = [],
               canceladoPor = NoAplica, motivoCancelacion = None\<rparr>"

definition sistema_ej :: "cita list \<Rightarrow> sistema" where
  "sistema_ej cs = \<lparr>citas = cs, pacientes = [paciente_ej], usuarios = [medico_ej, usuario_ej],
                    tratamientos = [tratamiento_ej], consola = []\<rparr>"

definition entorno_ej :: entorno where
  "entorno_ej = \<lparr>ahora = 500, nuevo_id = 2, email_falla = False, sms_falla = False\<rparr>"

definition sin_fallos :: fallos where
  "sin_fallos = \<lparr>falla_guardar_original = False, falla_guardar_nueva = False,
                  falla_guardar_recordatorio = False, falla_commit = False,
                  falla_poblar = False\<rparr>"

definition secretaria_ej :: usuario_sesion where
  "secretaria_ej = \<lparr>rol = RolSecretaria, userId = 9\<rparr>"

definition sesion_paciente_ej :: usuario_sesion where
  "sesion_paciente_ej = \<lparr>rol = RolPaciente, userId = 8\<rparr>"

definition sesion_medico_ej :: usuario_sesion where
  "sesion_medico_ej = \<lparr>rol = RolMedico, userId = 7\<rparr>"

definition solicitud_crear_ej :: "instante \<Rightarrow> instante \<Rightarrow> solicitud_crear" where
  "solicitud_crear_ej ini fin =
     \<lparr>sc_paciente = 3, sc_medico = 7, sc_tratamiento = 5, sc_fechaInicio = ini,
      sc_fechaFin = fin, sc_notas = None\<rparr>"

section \<open>The overlap query and the half-open intersection\<close>

lemma solapa_interseca:
  assumes "fechaInicio c < fechaFin c" and "ini < fin"
  shows "solapa ini fin c \<longleftrightarrow> interseca_spec (fechaInicio c) (fechaFin c) ini fin"
  using assms unfolding solapa_def interseca_spec_def by linarith

lemma find_no_None: "find P xs \<noteq> None \<longleftrightarrow> list_ex P xs"
  by (induction xs) auto

lemma citaSolapada_iff:
  assumes "list_all (\<lambda>c. fechaInicio c < fechaFin c) cs" and "ini < fin"
  shows "citaSolapada cs m ini fin \<noteq> None \<longleftrightarrow>
         list_ex (\<lambda>c. medico c = m \<and> ocupa c \<and>
                   interseca_spec (fechaInicio c) (fechaFin c) ini fin) cs"
  using assms unfolding citaSolapada_def find_no_None
  by (induction cs) (auto simp: solapa_interseca)

lemma citaSolapadaOtra_iff:
  assumes "list_all (\<lambda>c. fechaInicio c < fechaFin c) cs" and "ini < fin"
  shows "citaSolapadaOtra cs i m ini fin \<noteq> None \<longleftrightarrow>
         list_ex (\<lambda>c. cita_id c \<noteq> i \<and> medico c = m \<and> ocupa c \<and>
                   interseca_spec (fechaInicio c) (fechaFin c) ini fin) cs"
  using assms unfolding citaSolapadaOtra_def find_no_None
  by (induction cs) (auto simp: solapa_interseca)

lemma crearCita_conflicto:
  "fst (crearCita env s rc) = Inl SchedulingConflict \<longleftrightarrow>
     \<not> isl (resolver_crear s rc) \<and>
     citaSolapada (citas s) (sc_medico rc) (sc_fechaInicio rc) (sc_fechaFin rc) \<noteq> None"
proof (cases "resolver_crear s rc")
  case (Inl e)
  then have "e \<noteq> SchedulingConflict"
    by (auto simp: resolver_crear_def split: option.splits if_splits)
  with Inl show ?thesis by (simp add: crearCita_def)
next
  case (Inr pac)
  then show ?thesis
    by (auto simp: crearCita_def Let_def split: option.splits intento.splits)
qed

lemma actualizarCita_conflicto:
  assumes "findById (citas s) citaId = Some cita"
  shows "fst (actualizarCita env s citaId ra) = Inl SchedulingConflict \<longleftrightarrow>
     estado cita \<notin> set [Cancelada, Completada, NoAsistio] \<and> cambia_fecha cita ra \<and>
     citaSolapadaOtra (citas s) citaId (medico cita) (nuevoInicio cita ra) (nuevoFin cita ra) \<noteq> None"
  using assms by (auto simp: actualizarCita_def Let_def split: option.splits intento.splits)

lemma reprogramarCita_conflicto:
  assumes "findById (citas s) citaId = Some cita"
  shows "fst (reprogramarCita env fl usr s citaId rr) = Inl SchedulingConflict \<longleftrightarrow>
     estado cita \<notin> set [Cancelada, Completada, NoAsistio, Reprogramada] \<and>
     citaSolapadaOtra (citas s) citaId (medico cita) (sr_fechaInicio rr) (sr_fechaFin rr) \<noteq> None"
  using assms by (auto simp: reprogramarCita_def Let_def split: option.splits intento.splits)

text \<open>The definitions of the model and of the example data, for evaluating closed terms.\<close>

lemmas modelo_defs = findById_def actualizar_doc_def insertar_doc_def nueva_cita_def registrar_def
  registrar_lineas_def poblar_citaOriginal_def
  solapa_def ocupa_def citaSolapada_def citaSolapadaOtra_def paso_email_def paso_sms_def
  notificar_creacion_def notificar_cambio_def resolver_crear_def crearCita_def cambia_fecha_def
  nuevoInicio_def nuevoFin_def actualizarCita_def estadosFinales_def cambiarEstadoCita_def
  reprogramarCita_def origen_def sin_permiso_def cancelarCita_def notEmpty_def isIn_def
  validate_def ruta_crear_def ruta_estado_def ruta_cancelar_def verdadero_def o_defecto_def
  estado_de_cadena_def estadosValidos_def origen_de_cadena_def Let_def

lemmas ej_defs = medico_ej_def usuario_ej_def paciente_ej_def tratamiento_ej_def cita_ej_def
  sistema_ej_def entorno_ej_def sin_fallos_def secretaria_ej_def solicitud_crear_ej_def
  sesion_paciente_ej_def sesion_medico_ej_def

text \<open>
  C1. Let every stored window and the candidate window have its end after its start. Then
  the conflict check of \<^verbatim>\<open>crearCita\<close> answers with the scheduling conflict exactly when
  (its lookups having succeeded) some appointment of the practitioner whose state is
  neither \<^verbatim>\<open>cancelada\<close> nor \<^verbatim>\<open>reprogramada\<close> intersects the candidate window under the
  half-open predicate \<open>s1 < e2 \<and> s2 < e1\<close>. The conflict check of \<^verbatim>\<open>actualizarCita\<close> (reached
  on an appointment that is not \<^verbatim>\<open>cancelada\<close>, \<^verbatim>\<open>completada\<close> or \<^verbatim>\<open>no_asistio\<close>, when the
  request changes a bound) and that of \<^verbatim>\<open>reprogramarCita\<close> (reached on an appointment it
  accepts) do so exactly when some such appointment of the practitioner, other than the
  appointment being moved, intersects the candidate window. Two windows that only touch at
  an endpoint satisfy neither the three-clause query nor the half-open predicate.
\<close>

theorem conflicto_otra_cita:
  assumes "list_all (\<lambda>c. fechaInicio c < fechaFin c) (citas s)"
  shows
    "(sc_fechaInicio rc < sc_fechaFin rc \<longrightarrow>
        (fst (crearCita env s rc) = Inl SchedulingConflict \<longleftrightarrow>
           \<not> isl (resolver_crear s rc) \<and>
           list_ex (\<lambda>c. medico c = sc_medico rc \<and> ocupa c \<and>
                      interseca_spec (fechaInicio c) (fechaFin c)
                        (sc_fechaInicio rc) (sc_fechaFin rc)) (citas s))) \<and>
     (findById (citas s) citaId = Some cita \<and> nuevoInicio cita ra < nuevoFin cita ra \<longrightarrow>
        (fst (actualizarCita env s citaId ra) = Inl SchedulingConflict \<longleftrightarrow>
           estado cita \<notin> set [Cancelada, Completada, NoAsistio] \<and> cambia_fecha cita ra \<and>
           list_ex (\<lambda>c. cita_id c \<noteq> citaId \<and> medico c = medico cita \<and> ocupa c \<and>
                      interseca_spec (fechaInicio c) (fechaFin c)
                        (nuevoInicio cita ra) (nuevoFin cita ra)) (citas s))) \<and>
     (findById (citas s) citaId = Some cita \<and> sr_fechaInicio rr < sr_fechaFin rr \<longrightarrow>
        (fst (reprogramarCita env fl usr s citaId rr) = Inl SchedulingConflict \<longleftrightarrow>
           estado cita \<notin> set [Cancelada, Completada, NoAsistio, Reprogramada] \<and>
           list_ex (\<lambda>c. cita_id c \<noteq> citaId \<and> medico c = medico cita \<and> ocupa c \<and>
                      interseca_spec (fechaInicio c) (fechaFin c)
                        (sr_fechaInicio rr) (sr_fechaFin rr)) (citas s))) \<and>
     (\<forall>(c::cita) ini fin. fechaInicio c < fechaFin c \<and> ini < fin \<and>
                  (fechaFin c = ini \<or> fin = fechaInicio c) \<longrightarrow>
                  \<not> solapa ini fin c \<and>
                  \<not> interseca_spec (fechaInicio c) (fechaFin c) ini fin)"
proof (intro conjI impI allI)
  assume "sc_fechaInicio rc < sc_fechaFin rc"
  then show "fst (crearCita env s rc) = Inl SchedulingConflict \<longleftrightarrow>
           \<not> isl (resolver_crear s rc) \<and>
           list_ex (\<lambda>c. medico c = sc_medico rc \<and> ocupa c \<and>
                      interseca_spec (fechaInicio c) (fechaFin c)
                        (sc_fechaInicio rc) (sc_fechaFin rc)) (citas s)"
    using citaSolapada_iff [OF assms] by (simp add: crearCita_conflicto)
next
  assume h: "findById (citas s) citaId = Some cita \<and> nuevoInicio cita ra < nuevoFin cita ra"
  then show "fst (actualizarCita env s citaId ra) = Inl SchedulingConflict \<longleftrightarrow>
           estado cita \<notin> set [Cancelada, Completada, NoAsistio] \<and> cambia_fecha cita ra \<and>
           list_ex (\<lambda>c. cita_id c \<noteq> citaId \<and> medico c = medico cita \<and> ocupa c \<and>
                      interseca_spec (fechaInicio c) (fechaFin c)
                        (nuevoInicio cita ra) (nuevoFin cita ra)) (citas s)"
    using citaSolapadaOtra_iff [OF assms] actualizarCita_conflicto [of s citaId cita] by simp
next
  assume h: "findById (citas s) citaId = Some cita \<and> sr_fechaInicio rr < sr_fechaFin rr"
  then show "fst (reprogramarCita env fl usr s citaId rr) = Inl SchedulingConflict \<longleftrightarrow>
           estado cita \<notin> set [Cancelada, Completada, NoAsistio, Reprogramada] \<and>
           list_ex (\<lambda>c. cita_id c \<noteq> citaId \<and> medico c = medico cita \<and> ocupa c \<and>
                      interseca_spec (fechaInicio c) (fechaFin c)
                        (sr_fechaInicio rr) (sr_fechaFin rr)) (citas s)"
    using citaSolapadaOtra_iff [OF assms] reprogramarCita_conflicto [of s citaId cita] by simp
next
  fix c :: cita and ini fin
  assume "fechaInicio c < fechaFin c \<and> ini < fin \<and> (fechaFin c = ini \<or> fin = fechaInicio c)"
  then show "\<not> solapa ini fin c" by (auto simp: solapa_def)
next
  fix c :: cita and ini fin
  assume "fechaInicio c < fechaFin c \<and> ini < fin \<and> (fechaFin c = ini \<or> fin = fechaInicio c)"
  then show "\<not> interseca_spec (fechaInicio c) (fechaFin c) ini fin"
    by (auto simp: interseca_spec_def)
qed

text \<open>
  C1 at the example store: a booking from 615 to 645 conflicts with the stored
  appointment, a booking from 630 to 660 touches it and does not, and moving the stored
  appointment itself to 615-645 does not.
\<close>

theorem conflicto_otra_cita_witness:
  "list_all (\<lambda>c. fechaInicio c < fechaFin c) (citas (sistema_ej [cita_ej])) \<and>
   sc_fechaInicio (solicitud_crear_ej 615 645) < sc_fechaFin (solicitud_crear_ej 615 645) \<and>
   fst (crearCita entorno_ej (sistema_ej [cita_ej]) (solicitud_crear_ej 615 645)) = Inl SchedulingConflict \<and>
   fst (crearCita entorno_ej (sistema_ej [cita_ej]) (solicitud_crear_ej 630 660)) \<noteq> Inl SchedulingConflict \<and>
   findById (citas (sistema_ej [cita_ej])) 1 = Some cita_ej \<and>
   fst (actualizarCita entorno_ej (sistema_ej [cita_ej]) 1
          \<lparr>sa_fechaInicio = Some 615, sa_fechaFin = Some 645, sa_notas = None\<rparr>) \<noteq> Inl SchedulingConflict \<and>
   fst (reprogramarCita entorno_ej sin_fallos secretaria_ej (sistema_ej [cita_ej]) 1
          \<lparr>sr_fechaInicio = 615, sr_fechaFin = 645, sr_motivo = None\<rparr>) \<noteq> Inl SchedulingConflict \<and>
   \<not> solapa 630 660 cita_ej"
proof -
  have wf: "list_all (\<lambda>c. fechaInicio c < fechaFin c) (citas (sistema_ej [cita_ej]))"
    by (simp add: ej_defs)
  have res: "\<not> isl (resolver_crear (sistema_ej [cita_ej]) (solicitud_crear_ej a b))" for a b
    by (simp add: ej_defs resolver_crear_def)
  have fnd: "findById (citas (sistema_ej [cita_ej])) 1 = Some cita_ej"
    by (simp add: ej_defs findById_def)
  note t = conflicto_otra_cita [OF wf]
  have 1: "fst (crearCita entorno_ej (sistema_ej [cita_ej]) (solicitud_crear_ej 615 645)) = Inl SchedulingConflict"
    using t [where rc = "solicitud_crear_ej 615 645" and env = entorno_ej] res
    by (simp add: ej_defs ocupa_def interseca_spec_def)
  have 2: "fst (crearCita entorno_ej (sistema_ej [cita_ej]) (solicitud_crear_ej 630 660)) \<noteq> Inl SchedulingConflict"
    using t [where rc = "solicitud_crear_ej 630 660" and env = entorno_ej] res
    by (simp add: ej_defs ocupa_def interseca_spec_def)
  have 3: "fst (actualizarCita entorno_ej (sistema_ej [cita_ej]) 1
          \<lparr>sa_fechaInicio = Some 615, sa_fechaFin = Some 645, sa_notas = None\<rparr>) \<noteq> Inl SchedulingConflict"
    using t [where citaId = 1 and cita = cita_ej and env = entorno_ej and ra = "\<lparr>sa_fechaInicio = Some 615, sa_fechaFin = Some 645, sa_notas = None\<rparr>"] fnd
    by (simp add: ej_defs ocupa_def interseca_spec_def nuevoInicio_def nuevoFin_def)
  have 4: "fst (reprogramarCita entorno_ej sin_fallos secretaria_ej (sistema_ej [cita_ej]) 1
          \<lparr>sr_fechaInicio = 615, sr_fechaFin = 645, sr_motivo = None\<rparr>) \<noteq> Inl SchedulingConflict"
    using t [where citaId = 1 and cita = cita_ej and env = entorno_ej and fl = sin_fallos and usr = secretaria_ej and rr = "\<lparr>sr_fechaInicio = 615, sr_fechaFin = 645, sr_motivo = None\<rparr>"] fnd
    by (simp add: ej_defs ocupa_def interseca_spec_def)
  have 5: "\<not> solapa 630 660 cita_ej"
    using t by (simp add: ej_defs)
  from wf 1 2 3 4 5 fnd show ?thesis by (simp add: ej_defs)
qed

section \<open>The state changes\<close>

lemma estado_de_cadena_inv: "estado_de_cadena (cadena_de_estado e) = Some e"
  by (cases e) (simp_all add: estado_de_cadena_def estadosValidos_def)

lemma findById_actualizar_doc:
  "findById (actualizar_doc c cs) i =
     (if i = cita_id c then map_option (\<lambda>_. c) (findById cs i) else findById cs i)"
  by (induction cs) (auto simp: findById_def actualizar_doc_def)

lemma findById_id: "findById cs i = Some c \<Longrightarrow> cita_id c = i"
  by (auto simp: findById_def dest: find_Some_iff[THEN iffD1])

lemma cambiarEstadoCita_rechaza:
  assumes "findById (citas s) citaId = Some cita"
    and "estado_de_cadena (se_estado req) = Some est"
    and "estado cita \<in> set estadosFinales" and "estado cita \<noteq> est"
  shows "cambiarEstadoCita usr s citaId req = (Inl InvalidTransition, s)"
  using assms by (simp add: cambiarEstadoCita_def)

lemma cambiarEstadoCita_acepta:
  assumes "findById (citas s) citaId = Some cita"
    and "estado_de_cadena (se_estado req) = Some est"
    and "estado cita \<notin> set estadosFinales \<or> estado cita = est"
  shows "\<exists>c. cambiarEstadoCita usr s citaId req =
           (Inr (EstadoActualizado c (est = Completada)),
            s\<lparr>citas := actualizar_doc c (citas s)\<rparr>) \<and>
         cita_id c = citaId \<and> estado c = est \<and>
         paciente c = paciente cita \<and> medico c = medico cita \<and>
         tratamiento c = tratamiento cita \<and> fechaInicio c = fechaInicio cita \<and>
         fechaFin c = fechaFin cita \<and> citaOriginal c = citaOriginal cita \<and>
         (est = Cancelada \<longrightarrow>
            canceladoPor c = (if rol usr = RolPaciente then PorPaciente else PorMedico) \<and>
            motivoCancelacion c = Some (trim (o_defecto (se_notas req) motivo_no_especificado)))"
proof -
  have i: "cita_id cita = citaId" using assms(1) by (rule findById_id)
  show ?thesis
  proof (cases "se_notas req")
    case None
    with assms i show ?thesis
      by (cases "est = Cancelada"; cases "est = NoAsistio")
         (simp_all add: cambiarEstadoCita_def Let_def)
  next
    case (Some a)
    with assms i show ?thesis
      by (cases "est = Cancelada"; cases "est = NoAsistio")
         (simp_all add: cambiarEstadoCita_def Let_def)
  qed
qed

text \<open>
  C2 (as amended). For an appointment in state \<open>estado cita\<close> and a different target state
  \<open>destino\<close> of the enum, \<^verbatim>\<open>cambiarEstadoCita\<close> fails with the invalid transition, leaving
  the state as it was, when the current state is \<^verbatim>\<open>completada\<close>, \<^verbatim>\<open>cancelada\<close> or
  \<^verbatim>\<open>no_asistio\<close>; from each of the other four states (\<^verbatim>\<open>programada\<close>, \<^verbatim>\<open>confirmada\<close>,
  \<^verbatim>\<open>en_curso\<close>, \<^verbatim>\<open>reprogramada\<close>) it succeeds for every target, and the stored state
  becomes the target.
\<close>

theorem cambiarEstado_solo_finales:
  assumes "findById (citas s) citaId = Some cita" and "estado cita \<noteq> destino"
  shows
    "(estado cita \<in> {Completada, Cancelada, NoAsistio} \<longrightarrow>
        cambiarEstadoCita usr s citaId \<lparr>se_estado = cadena_de_estado destino, se_notas = n\<rparr>
          = (Inl InvalidTransition, s)) \<and>
     (estado cita \<in> {Programada, Confirmada, EnCurso, Reprogramada} \<longrightarrow>
        \<not> isl (fst (cambiarEstadoCita usr s citaId
                      \<lparr>se_estado = cadena_de_estado destino, se_notas = n\<rparr>)) \<and>
        map_option estado
          (findById (citas (snd (cambiarEstadoCita usr s citaId
                      \<lparr>se_estado = cadena_de_estado destino, se_notas = n\<rparr>))) citaId)
          = Some destino)"
proof (intro conjI impI)
  let ?req = "\<lparr>se_estado = cadena_de_estado destino, se_notas = n\<rparr>"
  have d: "estado_de_cadena (se_estado ?req) = Some destino"
    by (simp add: estado_de_cadena_inv)
  {
    assume "estado cita \<in> {Completada, Cancelada, NoAsistio}"
    then have "estado cita \<in> set estadosFinales" by (simp add: estadosFinales_def)
    then show "cambiarEstadoCita usr s citaId ?req = (Inl InvalidTransition, s)"
      using cambiarEstadoCita_rechaza [OF assms(1) d] assms(2) by simp
  }
  {
    assume "estado cita \<in> {Programada, Confirmada, EnCurso, Reprogramada}"
    then have "estado cita \<notin> set estadosFinales \<or> estado cita = destino"
      by (auto simp: estadosFinales_def)
    from cambiarEstadoCita_acepta [OF assms(1) d this, of usr]
    obtain c where c: "cambiarEstadoCita usr s citaId ?req =
           (Inr (EstadoActualizado c (destino = Completada)),
            s\<lparr>citas := actualizar_doc c (citas s)\<rparr>)" "cita_id c = citaId" "estado c = destino"
      by blast
    show "\<not> isl (fst (cambiarEstadoCita usr s citaId ?req))" using c by simp
    show "map_option estado (findById (citas (snd (cambiarEstadoCita usr s citaId ?req))) citaId)
          = Some destino"
      using c assms(1) by (simp add: findById_actualizar_doc)
  }
qed

text \<open>
  C2 as stated fails: the pairs (confirmed, scheduled) and (rescheduled, scheduled) are not
  in the specification's table, and \<^verbatim>\<open>cambiarEstadoCita\<close> performs both.
\<close>

theorem cambiarEstado_contraejemplo:
  "cambiarEstadoCita secretaria_ej (sistema_ej [cita_ej\<lparr>estado := Confirmada\<rparr>]) 1
      \<lparr>se_estado = ''programada'', se_notas = None\<rparr> =
     (Inr (EstadoActualizado cita_ej False), sistema_ej [cita_ej]) \<and>
   cambiarEstadoCita secretaria_ej (sistema_ej [cita_ej\<lparr>estado := Reprogramada\<rparr>]) 1
      \<lparr>se_estado = ''programada'', se_notas = None\<rparr> =
     (Inr (EstadoActualizado cita_ej False), sistema_ej [cita_ej])"
  by (simp add: ej_defs modelo_defs)

text \<open>
  The amended C2 at the example store: scheduled to completed succeeds, completed to
  canceled is refused.
\<close>

theorem cambiarEstado_solo_finales_witness:
  "findById (citas (sistema_ej [cita_ej])) 1 = Some cita_ej \<and>
   estado cita_ej = Programada \<and>
   \<not> isl (fst (cambiarEstadoCita secretaria_ej (sistema_ej [cita_ej]) 1
            \<lparr>se_estado = cadena_de_estado Completada, se_notas = None\<rparr>)) \<and>
   map_option estado
     (findById (citas (snd (cambiarEstadoCita secretaria_ej (sistema_ej [cita_ej]) 1
            \<lparr>se_estado = cadena_de_estado Completada, se_notas = None\<rparr>))) 1) = Some Completada \<and>
   findById (citas (sistema_ej [cita_ej\<lparr>estado := Completada\<rparr>])) 1
     = Some (cita_ej\<lparr>estado := Completada\<rparr>) \<and>
   cambiarEstadoCita secretaria_ej (sistema_ej [cita_ej\<lparr>estado := Completada\<rparr>]) 1
      \<lparr>se_estado = cadena_de_estado Cancelada, se_notas = None\<rparr>
     = (Inl InvalidTransition, sistema_ej [cita_ej\<lparr>estado := Completada\<rparr>])"
proof -
  have f1: "findById (citas (sistema_ej [cita_ej])) 1 = Some cita_ej"
    by (simp add: ej_defs findById_def)
  have f2: "findById (citas (sistema_ej [cita_ej\<lparr>estado := Completada\<rparr>])) 1
     = Some (cita_ej\<lparr>estado := Completada\<rparr>)"
    by (simp add: ej_defs findById_def)
  have e1: "estado cita_ej = Programada" by (simp add: ej_defs)
  have a: "\<not> isl (fst (cambiarEstadoCita secretaria_ej (sistema_ej [cita_ej]) 1
            \<lparr>se_estado = cadena_de_estado Completada, se_notas = None\<rparr>)) \<and>
   map_option estado
     (findById (citas (snd (cambiarEstadoCita secretaria_ej (sistema_ej [cita_ej]) 1
            \<lparr>se_estado = cadena_de_estado Completada, se_notas = None\<rparr>))) 1) = Some Completada"
    using cambiarEstado_solo_finales [OF f1, where destino = Completada and usr = secretaria_ej and n = None] e1
    by simp
  have b: "cambiarEstadoCita secretaria_ej (sistema_ej [cita_ej\<lparr>estado := Completada\<rparr>]) 1
      \<lparr>se_estado = cadena_de_estado Cancelada, se_notas = None\<rparr>
     = (Inl InvalidTransition, sistema_ej [cita_ej\<lparr>estado := Completada\<rparr>])"
    using cambiarEstado_solo_finales [OF f2, where destino = Cancelada and usr = secretaria_ej and n = None]
    by simp
  from f1 f2 e1 a b show ?thesis by simp
qed

section \<open>Booking a window that ends before it starts\<close>

text \<open>
  C3 at its failing input. \<^verbatim>\<open>POST /api/citas\<close> with a window from 630 to 600 (and with
  the empty window from 600 to 600), on a store without appointments: the route's chain
  checks the format of the dates only and hands the request to \<^verbatim>\<open>crearCita\<close>, which never
  compares them, and the appointment is created and stored with its end before its start. The validator \<^verbatim>\<open>fechaFinPosterior\<close> of
  \<^verbatim>\<open>middleware/validacion.js\<close>, which rejects such a body, is in no route.
\<close>

theorem crear_fin_antes_de_inicio:
  "crearCita entorno_ej (sistema_ej []) (solicitud_crear_ej 630 600) =
     (Inr (CitaCreada (Some ((nueva_cita 2 3 7 5 630 600 None None)
             \<lparr>recordatoriosEnviados :=
                [\<lparr>tipo = Email, fecha = 500, estado_envio = Enviado\<rparr>,
                 \<lparr>tipo = SMS, fecha = 500, estado_envio = Enviado\<rparr>]\<rparr>))),
      sistema_ej [(nueva_cita 2 3 7 5 630 600 None None)
             \<lparr>recordatoriosEnviados :=
                [\<lparr>tipo = Email, fecha = 500, estado_envio = Enviado\<rparr>,
                 \<lparr>tipo = SMS, fecha = 500, estado_envio = Enviado\<rparr>]\<rparr>]) \<and>
   crearCita entorno_ej (sistema_ej []) (solicitud_crear_ej 600 600) =
     (Inr (CitaCreada (Some ((nueva_cita 2 3 7 5 600 600 None None)
             \<lparr>recordatoriosEnviados :=
                [\<lparr>tipo = Email, fecha = 500, estado_envio = Enviado\<rparr>,
                 \<lparr>tipo = SMS, fecha = 500, estado_envio = Enviado\<rparr>]\<rparr>))),
      sistema_ej [(nueva_cita 2 3 7 5 600 600 None None)
             \<lparr>recordatoriosEnviados :=
                [\<lparr>tipo = Email, fecha = 500, estado_envio = Enviado\<rparr>,
                 \<lparr>tipo = SMS, fecha = 500, estado_envio = Enviado\<rparr>]\<rparr>]) \<and>
   ruta_crear entorno_ej (sistema_ej []) (solicitud_crear_ej 630 600) =
     crearCita entorno_ej (sistema_ej []) (solicitud_crear_ej 630 600) \<and>
   ruta_crear entorno_ej (sistema_ej []) (solicitud_crear_ej 600 600) =
     crearCita entorno_ej (sistema_ej []) (solicitud_crear_ej 600 600) \<and>
   fechaFin (nueva_cita 2 3 7 5 630 600 None None) <
     fechaInicio (nueva_cita 2 3 7 5 630 600 None None)"
  by (simp add: ej_defs modelo_defs)

section \<open>Terminal states\<close>

text \<open>
  C6. On an appointment that is \<^verbatim>\<open>completada\<close>, \<^verbatim>\<open>cancelada\<close> or \<^verbatim>\<open>no_asistio\<close>, every
  \<^verbatim>\<open>actualizarCita\<close> fails with the invalid state and every \<^verbatim>\<open>cambiarEstadoCita\<close> that
  asks for a different state of the enum fails with the invalid transition; both leave
  the whole system, and so the stored appointment, as it was.
\<close>

theorem estados_finales_inmutables:
  assumes "findById (citas s) citaId = Some cita"
    and "estado cita \<in> {Completada, Cancelada, NoAsistio}"
  shows
    "actualizarCita env s citaId ra = (Inl InvalidState, s) \<and>
     (estado_de_cadena (se_estado re) = Some destino \<and> destino \<noteq> estado cita \<longrightarrow>
        cambiarEstadoCita usr s citaId re = (Inl InvalidTransition, s))"
  using assms
  by (auto simp: actualizarCita_def cambiarEstadoCita_def estadosFinales_def)

text \<open>C6 at an appointment marked \<^verbatim>\<open>no_asistio\<close>.\<close>

theorem estados_finales_inmutables_witness:
  "findById (citas (sistema_ej [cita_ej\<lparr>estado := NoAsistio\<rparr>])) 1
     = Some (cita_ej\<lparr>estado := NoAsistio\<rparr>) \<and>
   actualizarCita entorno_ej (sistema_ej [cita_ej\<lparr>estado := NoAsistio\<rparr>]) 1
      \<lparr>sa_fechaInicio = Some 700, sa_fechaFin = Some 730, sa_notas = Some ''x''\<rparr>
     = (Inl InvalidState, sistema_ej [cita_ej\<lparr>estado := NoAsistio\<rparr>]) \<and>
   cambiarEstadoCita secretaria_ej (sistema_ej [cita_ej\<lparr>estado := NoAsistio\<rparr>]) 1
      \<lparr>se_estado = ''confirmada'', se_notas = None\<rparr>
     = (Inl InvalidTransition, sistema_ej [cita_ej\<lparr>estado := NoAsistio\<rparr>])"
proof -
  have f: "findById (citas (sistema_ej [cita_ej\<lparr>estado := NoAsistio\<rparr>])) 1
     = Some (cita_ej\<lparr>estado := NoAsistio\<rparr>)"
    by (simp add: ej_defs findById_def)
  have e: "estado (cita_ej\<lparr>estado := NoAsistio\<rparr>) \<in> {Completada, Cancelada, NoAsistio}"
    by simp
  have d: "estado_de_cadena (se_estado \<lparr>se_estado = ''confirmada'', se_notas = None\<rparr>) = Some Confirmada"
    by (simp add: estado_de_cadena_def estadosValidos_def)
  from estados_finales_inmutables [OF f e, where env = entorno_ej and usr = secretaria_ej
      and re = "\<lparr>se_estado = ''confirmada'', se_notas = None\<rparr>" and destino = Confirmada
      and ra = "\<lparr>sa_fechaInicio = Some 700, sa_fechaFin = Some 730, sa_notas = Some ''x''\<rparr>"] f d
  show ?thesis by simp
qed

section \<open>What a notification step changes\<close>

lemma sin_recordatorios_campos:
  assumes "sin_recordatorios a = sin_recordatorios b"
  shows "cita_id a = cita_id b" "paciente a = paciente b" "medico a = medico b"
    "tratamiento a = tratamiento b" "fechaInicio a = fechaInicio b" "fechaFin a = fechaFin b"
    "estado a = estado b" "notas a = notas b" "citaOriginal a = citaOriginal b"
    "canceladoPor a = canceladoPor b" "motivoCancelacion a = motivoCancelacion b"
  using assms by (cases a; cases b; simp add: sin_recordatorios_def)+

lemma paso_email_efecto:
  "\<exists>c' cs'. estado_final (paso_email env pac usr datos fg (c, cs)) = (c', cs') \<and>
            sin_recordatorios c' = sin_recordatorios c \<and>
            (cs' = cs \<or> cs' = actualizar_doc c' cs)"
  by (cases usr) (auto simp: paso_email_def Let_def sin_recordatorios_def)

lemma paso_sms_efecto:
  "\<exists>c' cs'. estado_final (paso_sms env pac usr (c, cs)) = (c', cs') \<and>
            sin_recordatorios c' = sin_recordatorios c \<and>
            (cs' = cs \<or> cs' = actualizar_doc c' cs)"
  by (cases usr) (auto simp: paso_sms_def Let_def sin_recordatorios_def)

lemma notificar_cambio_efecto:
  "\<exists>c' cs'. estado_final (notificar_cambio env s fg (c, cs)) = (c', cs') \<and>
            sin_recordatorios c' = sin_recordatorios c \<and>
            (cs' = cs \<or> cs' = actualizar_doc c' cs)"
proof (cases "find (\<lambda>p. pac_id p = paciente c) (pacientes s)")
  case None
  then show ?thesis by (simp add: notificar_cambio_def)
next
  case (Some pac)
  then show ?thesis using paso_email_efecto by (simp add: notificar_cambio_def)
qed

section \<open>The frame of an update\<close>

lemma actualizarCita_exito:
  assumes "findById (citas s) citaId = Some cita"
    and "actualizarCita env s citaId ra = (Inr r, s')"
  shows "\<exists>c2 c3. 
           c2 = (cita\<lparr>fechaInicio := nuevoInicio cita ra, fechaFin := nuevoFin cita ra,
                       notas := (case sa_notas ra of None \<Rightarrow> notas cita
                                 | Some n \<Rightarrow> Some (trim n))\<rparr>) \<and>
           sin_recordatorios c3 = sin_recordatorios c2 \<and>
           (citas s' = actualizar_doc c2 (citas s) \<or>
            citas s' = actualizar_doc c3 (actualizar_doc c2 (citas s)))"
proof -
  let ?c1 = "if cambia_fecha cita ra
             then cita\<lparr>fechaInicio := nuevoInicio cita ra, fechaFin := nuevoFin cita ra\<rparr>
             else cita"
  let ?c2 = "case sa_notas ra of None \<Rightarrow> ?c1 | Some n \<Rightarrow> ?c1\<lparr>notas := Some (trim n)\<rparr>"
  have c1: "?c1 = cita\<lparr>fechaInicio := nuevoInicio cita ra, fechaFin := nuevoFin cita ra\<rparr>"
    by (auto simp: cambia_fecha_def nuevoInicio_def nuevoFin_def split: option.splits)
  have c2: "?c2 = cita\<lparr>fechaInicio := nuevoInicio cita ra, fechaFin := nuevoFin cita ra,
                       notas := (case sa_notas ra of None \<Rightarrow> notas cita
                                 | Some n \<Rightarrow> Some (trim n))\<rparr>"
    unfolding c1 by (simp split: option.splits)
  obtain c3 cs3 where n:
    "estado_final (notificar_cambio env s False (?c2, actualizar_doc ?c2 (citas s))) = (c3, cs3)"
    "sin_recordatorios c3 = sin_recordatorios ?c2"
    "cs3 = actualizar_doc ?c2 (citas s) \<or> cs3 = actualizar_doc c3 (actualizar_doc ?c2 (citas s))"
    using notificar_cambio_efecto [of env s False ?c2 "actualizar_doc ?c2 (citas s)"] by blast
  have "citas s' = actualizar_doc ?c2 (citas s) \<or>
        citas s' = actualizar_doc c3 (actualizar_doc ?c2 (citas s))"
  proof (cases "sa_fechaInicio ra \<noteq> None \<or> sa_fechaFin ra \<noteq> None")
    case True
    have "citas s' = cs3"
    proof (cases "notificar_cambio env s False (?c2, actualizar_doc ?c2 (citas s))")
      case (Hecho st)
      with n(1) have "st = (c3, cs3)" by simp
      with assms True Hecho show ?thesis
        by (auto simp: actualizarCita_def Let_def split: if_splits)
    next
      case (Lanzado ls st)
      with n(1) have "st = (c3, cs3)" by simp
      with assms True Lanzado show ?thesis
        by (auto simp: actualizarCita_def Let_def registrar_def registrar_lineas_def
            split: if_splits)
    qed
    then show ?thesis using n(3) by auto
  next
    case False
    then show ?thesis
      using assms by (auto simp: actualizarCita_def Let_def split: if_splits)
  qed
  then show ?thesis using n(2) unfolding c2 by blast
qed

text \<open>
  C9. After a successful \<^verbatim>\<open>actualizarCita\<close> the stored appointment has the patient, the
  practitioner, the treatment, the state, the original-appointment reference, the
  canceled-by value and the cancellation reason it had before the call.
\<close>

theorem actualizar_conserva:
  assumes "findById (citas s) citaId = Some cita"
    and "actualizarCita env s citaId ra = (Inr r, s')"
  shows "\<exists>c'. findById (citas s') citaId = Some c' \<and>
           paciente c' = paciente cita \<and> medico c' = medico cita \<and>
           tratamiento c' = tratamiento cita \<and> estado c' = estado cita \<and>
           citaOriginal c' = citaOriginal cita \<and> canceladoPor c' = canceladoPor cita \<and>
           motivoCancelacion c' = motivoCancelacion cita"
proof -
  have i: "cita_id cita = citaId" using assms(1) by (rule findById_id)
  from actualizarCita_exito [OF assms] obtain c2 c3 where
    c2: "c2 = (cita\<lparr>fechaInicio := nuevoInicio cita ra, fechaFin := nuevoFin cita ra,
                       notas := (case sa_notas ra of None \<Rightarrow> notas cita
                                 | Some n \<Rightarrow> Some (trim n))\<rparr>)"
    and c3: "sin_recordatorios c3 = sin_recordatorios c2"
    and s': "citas s' = actualizar_doc c2 (citas s) \<or>
            citas s' = actualizar_doc c3 (actualizar_doc c2 (citas s))"
    by blast
  have i2: "cita_id c2 = citaId" using i c2 by simp
  have i3: "cita_id c3 = citaId" using sin_recordatorios_campos(1) [OF c3] i2 by simp
  from s' show ?thesis
  proof
    assume "citas s' = actualizar_doc c2 (citas s)"
    then have "findById (citas s') citaId = Some c2"
      using assms(1) i2 by (simp add: findById_actualizar_doc)
    then show ?thesis using c2 by simp
  next
    assume "citas s' = actualizar_doc c3 (actualizar_doc c2 (citas s))"
    then have "findById (citas s') citaId = Some c3"
      using assms(1) i2 i3 by (simp add: findById_actualizar_doc)
    then show ?thesis using sin_recordatorios_campos [OF c3] c2 by simp
  qed
qed


text \<open>The same, with the strings.\<close>

lemmas modelo_defs2 = modelo_defs trim_def es_espacio_def motivo_no_especificado_def
  motivo_no_asistio_def aviso_creacion_def aviso_actualizacion_def aviso_reprogramacion_def
  aviso_email_def aviso_sms_def aviso_recordatorio_sms_def

text \<open>
  C9 at the example store: the appointment is moved to 700-730 with new notes and an
  email reminder is logged; the seven fields keep their values.
\<close>

theorem actualizar_conserva_witness:
  "findById (citas (sistema_ej [cita_ej])) 1 = Some cita_ej \<and>
   actualizarCita entorno_ej (sistema_ej [cita_ej]) 1
      \<lparr>sa_fechaInicio = Some 700, sa_fechaFin = Some 730, sa_notas = Some '' traer estudios ''\<rparr>
     = (Inr (CitaActualizada (Some (cita_ej\<lparr>fechaInicio := 700, fechaFin := 730,
               notas := Some ''traer estudios'',
               recordatoriosEnviados := [\<lparr>tipo = Email, fecha = 500, estado_envio = Enviado\<rparr>]\<rparr>))),
        sistema_ej [cita_ej\<lparr>fechaInicio := 700, fechaFin := 730,
               notas := Some ''traer estudios'',
               recordatoriosEnviados := [\<lparr>tipo = Email, fecha = 500, estado_envio = Enviado\<rparr>]\<rparr>]) \<and>
   (\<exists>c'. findById (citas (sistema_ej [cita_ej\<lparr>fechaInicio := 700, fechaFin := 730,
               notas := Some ''traer estudios'',
               recordatoriosEnviados := [\<lparr>tipo = Email, fecha = 500, estado_envio = Enviado\<rparr>]\<rparr>])) 1
             = Some c' \<and>
         paciente c' = 3 \<and> medico c' = 7 \<and> tratamiento c' = 5 \<and> estado c' = Programada \<and>
         citaOriginal c' = None \<and> canceladoPor c' = NoAplica \<and> motivoCancelacion c' = None)"
proof -
  have f: "findById (citas (sistema_ej [cita_ej])) 1 = Some cita_ej"
    by (simp add: ej_defs findById_def)
  have e: "actualizarCita entorno_ej (sistema_ej [cita_ej]) 1
      \<lparr>sa_fechaInicio = Some 700, sa_fechaFin = Some 730, sa_notas = Some '' traer estudios ''\<rparr>
     = (Inr (CitaActualizada (Some (cita_ej\<lparr>fechaInicio := 700, fechaFin := 730,
               notas := Some ''traer estudios'',
               recordatoriosEnviados := [\<lparr>tipo = Email, fecha = 500, estado_envio = Enviado\<rparr>]\<rparr>))),
        sistema_ej [cita_ej\<lparr>fechaInicio := 700, fechaFin := 730,
               notas := Some ''traer estudios'',
               recordatoriosEnviados := [\<lparr>tipo = Email, fecha = 500, estado_envio = Enviado\<rparr>]\<rparr>])"
    by (simp add: ej_defs modelo_defs2)
  from actualizar_conserva [OF f e] f e show ?thesis by (simp add: ej_defs)
qed

section \<open>Who cancels\<close>

lemma cancelarCita_forma:
  assumes "findById (citas s) citaId = Some cita"
    and "estado cita \<notin> {Completada, Cancelada, NoAsistio}"
    and "\<not> sin_permiso usr s cita"
  shows "cancelarCita usr s citaId req =
     (case origen_de_cadena (origen usr req) of
        None \<Rightarrow> (Inl InternalError, registrar ''Error al cancelar cita:'' s)
      | Some por \<Rightarrow>
          (Inr (CitaCancelada (cita\<lparr>estado := Cancelada, canceladoPor := por,
                  motivoCancelacion :=
                    Some (trim (o_defecto (sx_motivo req) motivo_no_especificado))\<rparr>)),
           s\<lparr>citas := actualizar_doc (cita\<lparr>estado := Cancelada, canceladoPor := por,
                  motivoCancelacion :=
                    Some (trim (o_defecto (sx_motivo req) motivo_no_especificado))\<rparr>) (citas s)\<rparr>))"
  using assms by (simp add: cancelarCita_def Let_def split: option.splits)

text \<open>
  C10. Take a \<^verbatim>\<open>cancelarCita\<close> that is carried out: the appointment exists, is not
  \<^verbatim>\<open>completada\<close>, \<^verbatim>\<open>cancelada\<close> or \<^verbatim>\<open>no_asistio\<close>, and the caller may cancel it. When the
  caller's role is patient the call succeeds and stores \<^verbatim>\<open>paciente\<close> as \<^verbatim>\<open>canceladoPor\<close>, when
  it is practitioner it succeeds and stores \<^verbatim>\<open>medico\<close>, whatever \<^verbatim>\<open>canceladoPor\<close> the request
  carries. For every other role the request decides: without a \<^verbatim>\<open>canceladoPor\<close> (or with
  an empty one) the call succeeds and stores \<^verbatim>\<open>sistema\<close>; with a value of the schema's enum
  it succeeds and stores that value; with any other value the \<^verbatim>\<open>save\<close> rejects and nothing
  is stored. Each success answers with the appointment as stored, which is the
  appointment found with the state \<^verbatim>\<open>cancelada\<close>, that \<^verbatim>\<open>canceladoPor\<close> and the reason.
\<close>

theorem cancelar_origen:
  fixes cita :: cita and req :: solicitud_cancelar and s :: sistema
  defines "c \<equiv> \<lambda>por. cita\<lparr>estado := Cancelada, canceladoPor := por,
                  motivoCancelacion :=
                    Some (trim (o_defecto (sx_motivo req) motivo_no_especificado))\<rparr>"
  defines "exito \<equiv> \<lambda>por. (Inr (CitaCancelada (c por)),
                          s\<lparr>citas := actualizar_doc (c por) (citas s)\<rparr>)"
  assumes "findById (citas s) citaId = Some cita"
    and "estado cita \<notin> {Completada, Cancelada, NoAsistio}"
    and "\<not> sin_permiso usr s cita"
  shows
    "(rol usr = RolPaciente \<longrightarrow> cancelarCita usr s citaId req = exito PorPaciente) \<and>
     (rol usr = RolMedico \<longrightarrow> cancelarCita usr s citaId req = exito PorMedico) \<and>
     (rol usr \<noteq> RolPaciente \<and> rol usr \<noteq> RolMedico \<longrightarrow>
        (\<not> verdadero (sx_canceladoPor req) \<longrightarrow>
           cancelarCita usr s citaId req = exito PorSistema) \<and>
        (\<forall>v. sx_canceladoPor req = Some v \<and> v \<noteq> [] \<longrightarrow>
           cancelarCita usr s citaId req =
             (case origen_de_cadena v of
                Some por \<Rightarrow> exito por
              | None \<Rightarrow> (Inl InternalError, registrar ''Error al cancelar cita:'' s)))) \<and>
     (\<forall>por. findById (citas (snd (exito por))) citaId = Some (c por) \<and>
            estado (c por) = Cancelada \<and> canceladoPor (c por) = por)"
proof -
  note f = cancelarCita_forma [OF assms(3,4,5), of req]
  have i: "cita_id cita = citaId" using assms(3) by (rule findById_id)
  have o1: "rol usr = RolPaciente \<Longrightarrow> origen_de_cadena (origen usr req) = Some PorPaciente"
    by (simp add: origen_def origen_de_cadena_def)
  have o2: "rol usr = RolMedico \<Longrightarrow> origen_de_cadena (origen usr req) = Some PorMedico"
    by (simp add: origen_def origen_de_cadena_def)
  have o3: "rol usr \<noteq> RolPaciente \<Longrightarrow> rol usr \<noteq> RolMedico \<Longrightarrow>
      \<not> verdadero (sx_canceladoPor req) \<Longrightarrow>
      origen_de_cadena (origen usr req) = Some PorSistema"
    by (cases "sx_canceladoPor req")
       (simp_all add: origen_def origen_de_cadena_def verdadero_def o_defecto_def)
  have o4: "rol usr \<noteq> RolPaciente \<Longrightarrow> rol usr \<noteq> RolMedico \<Longrightarrow>
      sx_canceladoPor req = Some v \<Longrightarrow> v \<noteq> [] \<Longrightarrow>
      origen_de_cadena (origen usr req) = origen_de_cadena v" for v
    by (simp add: origen_def o_defecto_def)
  have 1: "rol usr = RolPaciente \<Longrightarrow> cancelarCita usr s citaId req = exito PorPaciente"
    using f o1 by (simp add: exito_def c_def)
  have 2: "rol usr = RolMedico \<Longrightarrow> cancelarCita usr s citaId req = exito PorMedico"
    using f o2 by (simp add: exito_def c_def)
  have 3: "rol usr \<noteq> RolPaciente \<Longrightarrow> rol usr \<noteq> RolMedico \<Longrightarrow>
      \<not> verdadero (sx_canceladoPor req) \<Longrightarrow> cancelarCita usr s citaId req = exito PorSistema"
    using f o3 by (simp add: exito_def c_def)
  have 4: "rol usr \<noteq> RolPaciente \<Longrightarrow> rol usr \<noteq> RolMedico \<Longrightarrow>
      sx_canceladoPor req = Some v \<Longrightarrow> v \<noteq> [] \<Longrightarrow>
      cancelarCita usr s citaId req =
             (case origen_de_cadena v of
                Some por \<Rightarrow> exito por
              | None \<Rightarrow> (Inl InternalError, registrar ''Error al cancelar cita:'' s))" for v
    using f o4 [of v] by (cases "origen_de_cadena v") (simp_all add: exito_def c_def)
  have 5: "findById (citas (snd (exito por))) citaId = Some (c por) \<and>
            estado (c por) = Cancelada \<and> canceladoPor (c por) = por" for por
    using assms(3) i by (simp add: exito_def c_def findById_actualizar_doc)
  show ?thesis
  proof (intro conjI impI allI)
    fix v
    assume "rol usr \<noteq> RolPaciente \<and> rol usr \<noteq> RolMedico"
      and "sx_canceladoPor req = Some v \<and> v \<noteq> []"
    then show "cancelarCita usr s citaId req =
             (case origen_de_cadena v of
                Some por \<Rightarrow> exito por
              | None \<Rightarrow> (Inl InternalError, registrar ''Error al cancelar cita:'' s))"
      using 4 [of v] by blast
  qed (use 1 2 3 5 in blast)+
qed

text \<open>
  C10 at the example store: the patient of the appointment and its practitioner cancel
  with a request that names the other party, a secretary cancels with no
  \<^verbatim>\<open>canceladoPor\<close> and with \<^verbatim>\<open>paciente\<close>.
\<close>

theorem cancelar_origen_witness:
  "findById (citas (sistema_ej [cita_ej])) 1 = Some cita_ej \<and>
   estado cita_ej \<notin> {Completada, Cancelada, NoAsistio} \<and>
   \<not> sin_permiso sesion_paciente_ej (sistema_ej [cita_ej]) cita_ej \<and>
   \<not> sin_permiso sesion_medico_ej (sistema_ej [cita_ej]) cita_ej \<and>
   \<not> sin_permiso secretaria_ej (sistema_ej [cita_ej]) cita_ej \<and>
   cancelarCita sesion_paciente_ej (sistema_ej [cita_ej]) 1
      \<lparr>sx_motivo = Some ''viaje'', sx_canceladoPor = Some ''medico''\<rparr>
     = (Inr (CitaCancelada (cita_ej\<lparr>estado := Cancelada, canceladoPor := PorPaciente,
                               motivoCancelacion := Some ''viaje''\<rparr>)),
        sistema_ej [cita_ej\<lparr>estado := Cancelada, canceladoPor := PorPaciente,
                             motivoCancelacion := Some ''viaje''\<rparr>]) \<and>
   cancelarCita sesion_medico_ej (sistema_ej [cita_ej]) 1
      \<lparr>sx_motivo = Some ''viaje'', sx_canceladoPor = Some ''paciente''\<rparr>
     = (Inr (CitaCancelada (cita_ej\<lparr>estado := Cancelada, canceladoPor := PorMedico,
                               motivoCancelacion := Some ''viaje''\<rparr>)),
        sistema_ej [cita_ej\<lparr>estado := Cancelada, canceladoPor := PorMedico,
                             motivoCancelacion := Some ''viaje''\<rparr>]) \<and>
   cancelarCita secretaria_ej (sistema_ej [cita_ej]) 1
      \<lparr>sx_motivo = Some ''viaje'', sx_canceladoPor = None\<rparr>
     = (Inr (CitaCancelada (cita_ej\<lparr>estado := Cancelada, canceladoPor := PorSistema,
                               motivoCancelacion := Some ''viaje''\<rparr>)),
        sistema_ej [cita_ej\<lparr>estado := Cancelada, canceladoPor := PorSistema,
                             motivoCancelacion := Some ''viaje''\<rparr>]) \<and>
   cancelarCita secretaria_ej (sistema_ej [cita_ej]) 1
      \<lparr>sx_motivo = Some ''viaje'', sx_canceladoPor = Some ''paciente''\<rparr>
     = (Inr (CitaCancelada (cita_ej\<lparr>estado := Cancelada, canceladoPor := PorPaciente,
                               motivoCancelacion := Some ''viaje''\<rparr>)),
        sistema_ej [cita_ej\<lparr>estado := Cancelada, canceladoPor := PorPaciente,
                             motivoCancelacion := Some ''viaje''\<rparr>]) \<and>
   cancelarCita secretaria_ej (sistema_ej [cita_ej]) 1
      \<lparr>sx_motivo = Some ''viaje'', sx_canceladoPor = Some ''otro''\<rparr>
     = (Inl InternalError, registrar ''Error al cancelar cita:'' (sistema_ej [cita_ej]))"
proof -
  let ?S = "sistema_ej [cita_ej]"
  have f: "findById (citas ?S) 1 = Some cita_ej"
    by (simp add: ej_defs findById_def)
  have e: "estado cita_ej \<notin> {Completada, Cancelada, NoAsistio}"
    by (simp add: ej_defs)
  have pp: "\<not> sin_permiso sesion_paciente_ej ?S cita_ej"
    by (simp add: ej_defs sin_permiso_def)
  have pm: "\<not> sin_permiso sesion_medico_ej ?S cita_ej"
    by (simp add: ej_defs sin_permiso_def)
  have ps: "\<not> sin_permiso secretaria_ej ?S cita_ej"
    by (simp add: ej_defs sin_permiso_def)
  have tr: "trim (o_defecto (Some ''viaje'') motivo_no_especificado) = ''viaje''"
    by (simp add: modelo_defs2)
  have ac: "actualizar_doc (cita_ej\<lparr>estado := Cancelada, canceladoPor := por,
                             motivoCancelacion := Some ''viaje''\<rparr>) (citas ?S)
            = [cita_ej\<lparr>estado := Cancelada, canceladoPor := por,
                             motivoCancelacion := Some ''viaje''\<rparr>]" for por
    by (simp add: ej_defs actualizar_doc_def)
  have st: "?S\<lparr>citas := cs\<rparr> = sistema_ej cs" for cs
    by (simp add: sistema_ej_def)
  have 1: "cancelarCita sesion_paciente_ej ?S 1
      \<lparr>sx_motivo = Some ''viaje'', sx_canceladoPor = Some ''medico''\<rparr>
     = (Inr (CitaCancelada (cita_ej\<lparr>estado := Cancelada, canceladoPor := PorPaciente,
                               motivoCancelacion := Some ''viaje''\<rparr>)),
        sistema_ej [cita_ej\<lparr>estado := Cancelada, canceladoPor := PorPaciente,
                             motivoCancelacion := Some ''viaje''\<rparr>])"
    using cancelar_origen [OF f e pp,
        where req = "\<lparr>sx_motivo = Some ''viaje'', sx_canceladoPor = Some ''medico''\<rparr>"]
    by (simp add: tr ac st sesion_paciente_ej_def)
  have 2: "cancelarCita sesion_medico_ej ?S 1
      \<lparr>sx_motivo = Some ''viaje'', sx_canceladoPor = Some ''paciente''\<rparr>
     = (Inr (CitaCancelada (cita_ej\<lparr>estado := Cancelada, canceladoPor := PorMedico,
                               motivoCancelacion := Some ''viaje''\<rparr>)),
        sistema_ej [cita_ej\<lparr>estado := Cancelada, canceladoPor := PorMedico,
                             motivoCancelacion := Some ''viaje''\<rparr>])"
    using cancelar_origen [OF f e pm,
        where req = "\<lparr>sx_motivo = Some ''viaje'', sx_canceladoPor = Some ''paciente''\<rparr>"]
    by (simp add: tr ac st sesion_medico_ej_def)
  have 3: "cancelarCita secretaria_ej ?S 1
      \<lparr>sx_motivo = Some ''viaje'', sx_canceladoPor = None\<rparr>
     = (Inr (CitaCancelada (cita_ej\<lparr>estado := Cancelada, canceladoPor := PorSistema,
                               motivoCancelacion := Some ''viaje''\<rparr>)),
        sistema_ej [cita_ej\<lparr>estado := Cancelada, canceladoPor := PorSistema,
                             motivoCancelacion := Some ''viaje''\<rparr>])"
    using cancelar_origen [OF f e ps,
        where req = "\<lparr>sx_motivo = Some ''viaje'', sx_canceladoPor = None\<rparr>"]
    by (simp add: tr ac st secretaria_ej_def verdadero_def)
  have 4: "cancelarCita secretaria_ej ?S 1
      \<lparr>sx_motivo = Some ''viaje'', sx_canceladoPor = Some ''paciente''\<rparr>
     = (Inr (CitaCancelada (cita_ej\<lparr>estado := Cancelada, canceladoPor := PorPaciente,
                               motivoCancelacion := Some ''viaje''\<rparr>)),
        sistema_ej [cita_ej\<lparr>estado := Cancelada, canceladoPor := PorPaciente,
                             motivoCancelacion := Some ''viaje''\<rparr>])"
    using cancelar_origen [OF f e ps,
        where req = "\<lparr>sx_motivo = Some ''viaje'', sx_canceladoPor = Some ''paciente''\<rparr>"]
    by (simp add: tr ac st secretaria_ej_def origen_de_cadena_def)
  have 5: "cancelarCita secretaria_ej ?S 1
      \<lparr>sx_motivo = Some ''viaje'', sx_canceladoPor = Some ''otro''\<rparr>
     = (Inl InternalError, registrar ''Error al cancelar cita:'' ?S)"
    using cancelar_origen [OF f e ps,
        where req = "\<lparr>sx_motivo = Some ''viaje'', sx_canceladoPor = Some ''otro''\<rparr>"]
    by (simp add: secretaria_ej_def origen_de_cadena_def)
  from f e pp pm ps 1 2 3 4 5 show ?thesis by (intro conjI)
qed

section \<open>The reason of a cancellation\<close>

lemma ruta_cancelar_valida:
  "ruta_cancelar usr s citaId rx =
     (if notEmpty (sx_motivo rx) \<and>
         isIn (sx_canceladoPor rx) [''paciente'', ''medico'', ''sistema'']
      then cancelarCita usr s citaId rx else (Inl ValidationError, s))"
  by (simp add: ruta_cancelar_def validate_def)

text \<open>The route stops a request without \<^verbatim>\<open>canceladoPor\<close> before the handler.\<close>

lemma ruta_cancelar_sin_origen:
  "\<not> verdadero (sx_canceladoPor rx) \<Longrightarrow>
   ruta_cancelar usr s citaId rx = (Inl ValidationError, s)"
  by (cases "sx_canceladoPor rx") (simp_all add: ruta_cancelar_valida isIn_def verdadero_def)

lemma cancelarCita_exito:
  assumes "cancelarCita usr s citaId req = (Inr r, s')"
  shows "\<exists>cita por. findById (citas s) citaId = Some cita \<and>
           origen_de_cadena (origen usr req) = Some por \<and>
           findById (citas s') citaId = Some (cita\<lparr>estado := Cancelada, canceladoPor := por,
                 motivoCancelacion :=
                   Some (trim (o_defecto (sx_motivo req) motivo_no_especificado))\<rparr>)"
proof (cases "findById (citas s) citaId")
  case None
  with assms show ?thesis by (simp add: cancelarCita_def)
next
  case (Some cita)
  then have i: "cita_id cita = citaId" by (rule findById_id)
  from assms Some obtain por where
    por: "origen_de_cadena (origen usr req) = Some por"
    and s': "s' = s\<lparr>citas := actualizar_doc (cita\<lparr>estado := Cancelada, canceladoPor := por,
                 motivoCancelacion :=
                   Some (trim (o_defecto (sx_motivo req) motivo_no_especificado))\<rparr>) (citas s)\<rparr>"
    by (auto simp: cancelarCita_def Let_def split: if_splits option.splits)
  have "findById (citas s') citaId = Some (cita\<lparr>estado := Cancelada, canceladoPor := por,
                 motivoCancelacion :=
                   Some (trim (o_defecto (sx_motivo req) motivo_no_especificado))\<rparr>)"
    using Some i s' by (simp add: findById_actualizar_doc)
  with Some por show ?thesis by blast
qed

text \<open>
  C7 (as amended). Through \<^verbatim>\<open>POST /:id/cancelar\<close> a missing or empty \<^verbatim>\<open>motivo\<close> fails with
  the validation error and changes nothing, and a cancellation that succeeds stores a
  canceled-by value among patient, practitioner and system, with the trimmed reason of
  the request; a request with a reason and a \<^verbatim>\<open>canceladoPor\<close> of the route's three values,
  on an appointment that is not \<^verbatim>\<open>completada\<close>, \<^verbatim>\<open>cancelada\<close> or \<^verbatim>\<open>no_asistio\<close> and that the
  caller may cancel, does succeed. Through \<^verbatim>\<open>PUT /:id/estado\<close> with \<^verbatim>\<open>cancelada\<close>, an appointment that is
  scheduled, confirmed or in progress is canceled whatever the notes are: the reason
  stored is the trimmed notes, or \<^verbatim>\<open>No se especific\'o motivo\<close> when they are missing or
  empty, and the canceled-by value is patient when the caller's role is patient and
  practitioner for every other role.
\<close>

theorem motivo_y_origen_de_cancelacion:
  "(\<not> notEmpty (sx_motivo rx) \<longrightarrow> ruta_cancelar usr s citaId rx = (Inl ValidationError, s)) \<and>
   (ruta_cancelar usr s citaId rx = (Inr r, s') \<longrightarrow>
      (\<exists>c m. findById (citas s') citaId = Some c \<and> estado c = Cancelada \<and>
             canceladoPor c \<in> {PorPaciente, PorMedico, PorSistema} \<and>
             sx_motivo rx = Some m \<and> m \<noteq> [] \<and> motivoCancelacion c = Some (trim m))) \<and>
   (findById (citas s) citaId = Some cita \<and>
    estado cita \<notin> {Completada, Cancelada, NoAsistio} \<and> \<not> sin_permiso usr s cita \<and>
    sx_motivo rx = Some m \<and> m \<noteq> [] \<and>
    isIn (sx_canceladoPor rx) [''paciente'', ''medico'', ''sistema''] \<longrightarrow>
      (\<exists>c. ruta_cancelar usr s citaId rx =
              (Inr (CitaCancelada c), s\<lparr>citas := actualizar_doc c (citas s)\<rparr>) \<and>
           findById (actualizar_doc c (citas s)) citaId = Some c \<and>
           estado c = Cancelada \<and> canceladoPor c \<in> {PorPaciente, PorMedico, PorSistema} \<and>
           motivoCancelacion c = Some (trim m))) \<and>
   (findById (citas s) citaId = Some cita \<and> estado cita \<in> {Programada, Confirmada, EnCurso} \<longrightarrow>
      (\<exists>c. ruta_estado usr s citaId \<lparr>se_estado = ''cancelada'', se_notas = n\<rparr> =
              (Inr (EstadoActualizado c False), s\<lparr>citas := actualizar_doc c (citas s)\<rparr>) \<and>
           findById (actualizar_doc c (citas s)) citaId = Some c \<and>
           estado c = Cancelada \<and>
           canceladoPor c = (if rol usr = RolPaciente then PorPaciente else PorMedico) \<and>
           motivoCancelacion c = Some (trim (o_defecto n motivo_no_especificado))))"
proof (intro conjI impI)
  assume "\<not> notEmpty (sx_motivo rx)"
  then show "ruta_cancelar usr s citaId rx = (Inl ValidationError, s)"
    by (simp add: ruta_cancelar_valida)
next
  assume a: "ruta_cancelar usr s citaId rx = (Inr r, s')"
  then have v: "notEmpty (sx_motivo rx)"
    "isIn (sx_canceladoPor rx) [''paciente'', ''medico'', ''sistema'']"
    and c: "cancelarCita usr s citaId rx = (Inr r, s')"
    by (auto simp: ruta_cancelar_valida split: if_splits)
  from v(1) obtain m where m: "sx_motivo rx = Some m" "m \<noteq> []"
    by (auto simp: notEmpty_def split: option.splits)
  from cancelarCita_exito [OF c] obtain cita por where
    por: "origen_de_cadena (origen usr rx) = Some por"
    and f: "findById (citas s') citaId = Some (cita\<lparr>estado := Cancelada, canceladoPor := por,
                 motivoCancelacion :=
                   Some (trim (o_defecto (sx_motivo rx) motivo_no_especificado))\<rparr>)"
    by blast
  have "por \<in> {PorPaciente, PorMedico, PorSistema}"
    using por v(2)
    by (auto simp: origen_def origen_de_cadena_def isIn_def o_defecto_def
        split: if_splits option.splits)
  then show "\<exists>c m. findById (citas s') citaId = Some c \<and> estado c = Cancelada \<and>
             canceladoPor c \<in> {PorPaciente, PorMedico, PorSistema} \<and>
             sx_motivo rx = Some m \<and> m \<noteq> [] \<and> motivoCancelacion c = Some (trim m)"
    using f m by (simp add: o_defecto_def)
next
  assume a: "findById (citas s) citaId = Some cita \<and>
    estado cita \<notin> {Completada, Cancelada, NoAsistio} \<and> \<not> sin_permiso usr s cita \<and>
    sx_motivo rx = Some m \<and> m \<noteq> [] \<and>
    isIn (sx_canceladoPor rx) [''paciente'', ''medico'', ''sistema'']"
  then have fnd: "findById (citas s) citaId = Some cita"
    and e: "estado cita \<notin> {Completada, Cancelada, NoAsistio}"
    and p: "\<not> sin_permiso usr s cita"
    and m: "sx_motivo rx = Some m" "m \<noteq> []"
    and v: "isIn (sx_canceladoPor rx) [''paciente'', ''medico'', ''sistema'']"
    by simp_all
  have i: "cita_id cita = citaId" using fnd by (rule findById_id)
  have r: "ruta_cancelar usr s citaId rx = cancelarCita usr s citaId rx"
    using m v by (simp add: ruta_cancelar_valida notEmpty_def)
  have og: "origen usr rx = ''paciente'' \<or> origen usr rx = ''medico'' \<or>
            origen usr rx = ''sistema''"
    using v by (cases "sx_canceladoPor rx") (auto simp: origen_def isIn_def o_defecto_def)
  have "\<exists>por. origen_de_cadena (origen usr rx) = Some por \<and>
              por \<in> {PorPaciente, PorMedico, PorSistema}"
    using og by (auto simp: origen_de_cadena_def)
  then obtain por where por: "origen_de_cadena (origen usr rx) = Some por"
    "por \<in> {PorPaciente, PorMedico, PorSistema}"
    by blast
  let ?c = "cita\<lparr>estado := Cancelada, canceladoPor := por,
                  motivoCancelacion :=
                    Some (trim (o_defecto (sx_motivo rx) motivo_no_especificado))\<rparr>"
  have 1: "ruta_cancelar usr s citaId rx =
              (Inr (CitaCancelada ?c), s\<lparr>citas := actualizar_doc ?c (citas s)\<rparr>)"
    unfolding r using cancelarCita_forma [OF fnd e p, of rx] por(1) by simp
  have 2: "findById (actualizar_doc ?c (citas s)) citaId = Some ?c"
    using fnd i by (simp add: findById_actualizar_doc)
  have 3: "estado ?c = Cancelada \<and> canceladoPor ?c \<in> {PorPaciente, PorMedico, PorSistema} \<and>
           motivoCancelacion ?c = Some (trim m)"
    using por(2) m by (simp add: o_defecto_def)
  from 1 2 3 show "\<exists>c. ruta_cancelar usr s citaId rx =
              (Inr (CitaCancelada c), s\<lparr>citas := actualizar_doc c (citas s)\<rparr>) \<and>
           findById (actualizar_doc c (citas s)) citaId = Some c \<and>
           estado c = Cancelada \<and> canceladoPor c \<in> {PorPaciente, PorMedico, PorSistema} \<and>
           motivoCancelacion c = Some (trim m)"
    by blast
next
  assume a: "findById (citas s) citaId = Some cita \<and>
             estado cita \<in> {Programada, Confirmada, EnCurso}"
  let ?req = "\<lparr>se_estado = ''cancelada'', se_notas = n\<rparr>"
  have d: "estado_de_cadena (se_estado ?req) = Some Cancelada"
    by (simp add: estado_de_cadena_def estadosValidos_def)
  have nf: "estado cita \<notin> set estadosFinales \<or> estado cita = Cancelada"
    using a by (auto simp: estadosFinales_def)
  have r: "ruta_estado usr s citaId ?req = cambiarEstadoCita usr s citaId ?req"
    by (simp add: ruta_estado_def validate_def isIn_def estadosValidos_def)
  from a have fnd: "findById (citas s) citaId = Some cita" by simp
  from cambiarEstadoCita_acepta [OF fnd d nf, of usr]
  obtain c where c: "cambiarEstadoCita usr s citaId ?req =
           (Inr (EstadoActualizado c (Cancelada = Completada)),
            s\<lparr>citas := actualizar_doc c (citas s)\<rparr>)"
     "cita_id c = citaId" "estado c = Cancelada"
     "canceladoPor c = (if rol usr = RolPaciente then PorPaciente else PorMedico)"
     "motivoCancelacion c = Some (trim (o_defecto (se_notas ?req) motivo_no_especificado))"
    by auto
  have "findById (actualizar_doc c (citas s)) citaId = Some c"
    using fnd c(2) by (simp add: findById_actualizar_doc)
  then show "\<exists>c. ruta_estado usr s citaId ?req =
              (Inr (EstadoActualizado c False), s\<lparr>citas := actualizar_doc c (citas s)\<rparr>) \<and>
           findById (actualizar_doc c (citas s)) citaId = Some c \<and>
           estado c = Cancelada \<and>
           canceladoPor c = (if rol usr = RolPaciente then PorPaciente else PorMedico) \<and>
           motivoCancelacion c = Some (trim (o_defecto n motivo_no_especificado))"
    using c r by auto
qed

text \<open>
  C7 as stated fails: \<^verbatim>\<open>cambiarEstadoCita\<close> to \<^verbatim>\<open>cancelada\<close> without notes, or with empty
  notes, succeeds and stores the default reason.
\<close>

theorem cancelar_sin_motivo_contraejemplo:
  "cambiarEstadoCita secretaria_ej (sistema_ej [cita_ej]) 1
      \<lparr>se_estado = ''cancelada'', se_notas = None\<rparr>
     = (Inr (EstadoActualizado
               (cita_ej\<lparr>estado := Cancelada, canceladoPor := PorMedico,
                        motivoCancelacion := Some motivo_no_especificado\<rparr>) False),
        sistema_ej [cita_ej\<lparr>estado := Cancelada, canceladoPor := PorMedico,
                             motivoCancelacion := Some motivo_no_especificado\<rparr>]) \<and>
   cambiarEstadoCita secretaria_ej (sistema_ej [cita_ej]) 1
      \<lparr>se_estado = ''cancelada'', se_notas = Some []\<rparr>
     = (Inr (EstadoActualizado
               (cita_ej\<lparr>estado := Cancelada, notas := Some [], canceladoPor := PorMedico,
                        motivoCancelacion := Some motivo_no_especificado\<rparr>) False),
        sistema_ej [cita_ej\<lparr>estado := Cancelada, notas := Some [], canceladoPor := PorMedico,
                             motivoCancelacion := Some motivo_no_especificado\<rparr>])"
  by (simp add: ej_defs modelo_defs2)

text \<open>
  The amended C7 at the example store: no reason and an empty reason are refused by the
  cancel route, a reason is accepted (one of a space and a no-break space too: \<^verbatim>\<open>notEmpty\<close>
  does not trim, and the reason stored is then the empty string), and the state route
  cancels without notes, for a secretary as the practitioner.
\<close>

theorem motivo_y_origen_de_cancelacion_witness:
  "ruta_cancelar secretaria_ej (sistema_ej [cita_ej]) 1
      \<lparr>sx_motivo = None, sx_canceladoPor = Some ''sistema''\<rparr>
     = (Inl ValidationError, sistema_ej [cita_ej]) \<and>
   ruta_cancelar secretaria_ej (sistema_ej [cita_ej]) 1
      \<lparr>sx_motivo = Some [], sx_canceladoPor = Some ''sistema''\<rparr>
     = (Inl ValidationError, sistema_ej [cita_ej]) \<and>
   ruta_cancelar secretaria_ej (sistema_ej [cita_ej]) 1
      \<lparr>sx_motivo = Some ''viaje'', sx_canceladoPor = Some ''sistema''\<rparr>
     = (Inr (CitaCancelada (cita_ej\<lparr>estado := Cancelada, canceladoPor := PorSistema,
                               motivoCancelacion := Some ''viaje''\<rparr>)),
        sistema_ej [cita_ej\<lparr>estado := Cancelada, canceladoPor := PorSistema,
                             motivoCancelacion := Some ''viaje''\<rparr>]) \<and>
   ruta_cancelar secretaria_ej (sistema_ej [cita_ej]) 1
      \<lparr>sx_motivo = Some [CHR 0x20, CHR 0xA0], sx_canceladoPor = Some ''sistema''\<rparr>
     = (Inr (CitaCancelada (cita_ej\<lparr>estado := Cancelada, canceladoPor := PorSistema,
                               motivoCancelacion := Some []\<rparr>)),
        sistema_ej [cita_ej\<lparr>estado := Cancelada, canceladoPor := PorSistema,
                             motivoCancelacion := Some []\<rparr>]) \<and>
   findById (citas (sistema_ej [cita_ej])) 1 = Some cita_ej \<and>
   (\<exists>c. ruta_estado secretaria_ej (sistema_ej [cita_ej]) 1
           \<lparr>se_estado = ''cancelada'', se_notas = None\<rparr> =
           (Inr (EstadoActualizado c False),
            (sistema_ej [cita_ej])\<lparr>citas := actualizar_doc c (citas (sistema_ej [cita_ej]))\<rparr>) \<and>
         canceladoPor c = PorMedico \<and>
         motivoCancelacion c = Some motivo_no_especificado)"
proof -
  let ?S = "sistema_ej [cita_ej]"
  note t = motivo_y_origen_de_cancelacion [where s = ?S and usr = secretaria_ej and citaId = 1]
  have 1: "ruta_cancelar secretaria_ej ?S 1 \<lparr>sx_motivo = None, sx_canceladoPor = Some ''sistema''\<rparr>
     = (Inl ValidationError, ?S)"
    using t [where rx = "\<lparr>sx_motivo = None, sx_canceladoPor = Some ''sistema''\<rparr>"]
    by (simp add: notEmpty_def)
  have 2: "ruta_cancelar secretaria_ej ?S 1 \<lparr>sx_motivo = Some [], sx_canceladoPor = Some ''sistema''\<rparr>
     = (Inl ValidationError, ?S)"
    using t [where rx = "\<lparr>sx_motivo = Some [], sx_canceladoPor = Some ''sistema''\<rparr>"]
    by (simp add: notEmpty_def)
  have 3: "ruta_cancelar secretaria_ej ?S 1
      \<lparr>sx_motivo = Some ''viaje'', sx_canceladoPor = Some ''sistema''\<rparr>
     = (Inr (CitaCancelada (cita_ej\<lparr>estado := Cancelada, canceladoPor := PorSistema,
                               motivoCancelacion := Some ''viaje''\<rparr>)),
        sistema_ej [cita_ej\<lparr>estado := Cancelada, canceladoPor := PorSistema,
                             motivoCancelacion := Some ''viaje''\<rparr>])"
    by (simp add: ej_defs modelo_defs2)
  have espacios: "ruta_cancelar secretaria_ej ?S 1
      \<lparr>sx_motivo = Some [CHR 0x20, CHR 0xA0], sx_canceladoPor = Some ''sistema''\<rparr>
     = (Inr (CitaCancelada (cita_ej\<lparr>estado := Cancelada, canceladoPor := PorSistema,
                               motivoCancelacion := Some []\<rparr>)),
        sistema_ej [cita_ej\<lparr>estado := Cancelada, canceladoPor := PorSistema,
                             motivoCancelacion := Some []\<rparr>])"
    by (simp add: ej_defs modelo_defs2)
  have f: "findById (citas ?S) 1 = Some cita_ej"
    by (simp add: ej_defs findById_def)
  have e: "estado cita_ej \<in> {Programada, Confirmada, EnCurso}" by (simp add: ej_defs)
  have tr: "trim (o_defecto None motivo_no_especificado) = motivo_no_especificado"
    by (simp add: modelo_defs2)
  have 4: "\<exists>c. ruta_estado secretaria_ej ?S 1 \<lparr>se_estado = ''cancelada'', se_notas = None\<rparr> =
           (Inr (EstadoActualizado c False), ?S\<lparr>citas := actualizar_doc c (citas ?S)\<rparr>) \<and>
         canceladoPor c = PorMedico \<and>
         motivoCancelacion c = Some motivo_no_especificado"
    using t [where cita = cita_ej and n = None and r = "CitaCancelada cita_ej" and s' = ?S
        and rx = "\<lparr>sx_motivo = None, sx_canceladoPor = None\<rparr>"] f e
    unfolding tr by (auto simp: secretaria_ej_def)
  from 1 2 3 espacios f 4 show ?thesis by simp
qed

section \<open>Rescheduling\<close>

lemma findById_append:
  "findById (cs @ [c]) i =
     (case findById cs i of Some d \<Rightarrow> Some d
      | None \<Rightarrow> if cita_id c = i then Some c else None)"
  by (induction cs) (auto simp: findById_def)

lemma insertar_doc_Some:
  assumes "insertar_doc c cs = Some cs'"
  shows "cs' = cs @ [c]" and "findById cs (cita_id c) = None"
  using assms
  by (auto simp: insertar_doc_def findById_def find_None_iff list_ex_iff split: if_splits)

text \<open>
  The run of \<^verbatim>\<open>reprogramarCita\<close> past its guards: the original as it is retired, the
  successor as it is built, and what follows the two writes.
\<close>

lemma reprogramarCita_pasos:
  assumes f: "findById (citas s) citaId = Some cita"
    and g: "estado cita \<notin> set [Cancelada, Completada, NoAsistio, Reprogramada]"
    and q: "citaSolapadaOtra (citas s) citaId (medico cita) (sr_fechaInicio rr) (sr_fechaFin rr) = None"
    and o: "original = cita\<lparr>estado := Reprogramada,
                motivoCancelacion := Some (trim (o_defecto (sr_motivo rr) ''Cita reprogramada'')),
                canceladoPor := (if rol usr = RolPaciente then PorPaciente else PorMedico)\<rparr>"
    and n: "nuevaCita = nueva_cita (nuevo_id env) (paciente cita) (medico cita) (tratamiento cita)
                (sr_fechaInicio rr) (sr_fechaFin rr) (notas cita) (Some citaId)"
    and nt: "nt = notificar_cambio env s (falla_guardar_recordatorio fl)
                    (nuevaCita, actualizar_doc original (citas s) @ [nuevaCita])"
    and s1: "s1 = (case nt of Hecho st \<Rightarrow> s
                   | Lanzado ls st \<Rightarrow> registrar aviso_reprogramacion (registrar_lineas ls s))"
  shows "reprogramarCita env fl usr s citaId rr =
     (if falla_guardar_original fl \<or> falla_guardar_nueva fl \<or>
         findById (citas s) (nuevo_id env) \<noteq> None
      then (Inl InternalError, registrar ''Error al reprogramar cita:'' s)
      else if falla_commit fl
      then (Inl InternalError, registrar ''Error al reprogramar cita:'' s1)
      else if falla_poblar fl then (Inl InternalError, s1\<lparr>citas := snd (estado_final nt)\<rparr>)
      else (Inr (CitaReprogramada citaId Reprogramada
                  (map_option (poblar_citaOriginal (snd (estado_final nt)))
                     (findById (snd (estado_final nt)) (nuevo_id env)))),
            s1\<lparr>citas := snd (estado_final nt)\<rparr>))"
proof -
  have i: "cita_id cita = citaId" using f by (rule findById_id)
  have unf: "reprogramarCita env fl usr s citaId rr =
     (if falla_guardar_original fl
      then (Inl InternalError, registrar ''Error al reprogramar cita:'' s)
      else
        (case (if falla_guardar_nueva fl then None
               else insertar_doc nuevaCita (actualizar_doc original (citas s))) of
           None \<Rightarrow> (Inl InternalError, registrar ''Error al reprogramar cita:'' s)
         | Some tx \<Rightarrow>
             let n = notificar_cambio env s (falla_guardar_recordatorio fl) (nuevaCita, tx);
                 tx' = snd (estado_final n);
                 s1 = (case n of
                         Hecho st \<Rightarrow> s
                       | Lanzado ls st \<Rightarrow>
                           registrar aviso_reprogramacion (registrar_lineas ls s))
             in if falla_commit fl
                then (Inl InternalError, registrar ''Error al reprogramar cita:'' s1)
                else if falla_poblar fl
                then (Inl InternalError, s1\<lparr>citas := tx'\<rparr>)
                else (Inr (CitaReprogramada citaId Reprogramada
                             (map_option (poblar_citaOriginal tx') (findById tx' (nuevo_id env)))),
                      s1\<lparr>citas := tx'\<rparr>)))"
    using f g q i unfolding reprogramarCita_def o n
    by (simp add: Let_def split del: if_split cong: option.case_cong if_cong)
  have idn: "cita_id nuevaCita = nuevo_id env" by (simp add: n nueva_cita_def)
  have ins: "insertar_doc nuevaCita (actualizar_doc original (citas s)) =
       (if findById (citas s) (nuevo_id env) = None
        then Some (actualizar_doc original (citas s) @ [nuevaCita]) else None)"
  proof -
    have "list_ex (\<lambda>d. cita_id d = nuevo_id env) (actualizar_doc original (citas s)) \<longleftrightarrow>
          findById (actualizar_doc original (citas s)) (nuevo_id env) \<noteq> None"
      unfolding findById_def by (rule find_no_None [symmetric])
    also have "\<dots> \<longleftrightarrow> findById (citas s) (nuevo_id env) \<noteq> None"
      by (simp add: findById_actualizar_doc)
    finally show ?thesis by (simp add: insertar_doc_def idn)
  qed
  show ?thesis
  proof (cases "falla_guardar_original fl \<or> falla_guardar_nueva fl \<or>
          findById (citas s) (nuevo_id env) \<noteq> None")
    case True
    then show ?thesis unfolding unf ins by auto
  next
    case False
    then show ?thesis unfolding unf ins by (simp add: Let_def nt [symmetric] s1 [symmetric])
  qed
qed

lemma reprogramarCita_forma:
  assumes f: "findById (citas s) citaId = Some cita"
    and g: "estado cita \<notin> set [Cancelada, Completada, NoAsistio, Reprogramada]"
    and q: "citaSolapadaOtra (citas s) citaId (medico cita) (sr_fechaInicio rr) (sr_fechaFin rr) = None"
    and o: "original = cita\<lparr>estado := Reprogramada,
                motivoCancelacion := Some (trim (o_defecto (sr_motivo rr) ''Cita reprogramada'')),
                canceladoPor := (if rol usr = RolPaciente then PorPaciente else PorMedico)\<rparr>"
    and n: "nuevaCita = nueva_cita (nuevo_id env) (paciente cita) (medico cita) (tratamiento cita)
                (sr_fechaInicio rr) (sr_fechaFin rr) (notas cita) (Some citaId)"
  shows "(falla_guardar_original fl \<or> falla_guardar_nueva fl \<or>
          findById (citas s) (nuevo_id env) \<noteq> None) \<and>
         reprogramarCita env fl usr s citaId rr =
           (Inl InternalError, registrar ''Error al reprogramar cita:'' s)
         \<or>
         \<not> falla_guardar_original fl \<and> \<not> falla_guardar_nueva fl \<and>
         findById (citas s) (nuevo_id env) = None \<and>
         (\<exists>n3 tx s1. sin_recordatorios n3 = sin_recordatorios nuevaCita \<and>
            (tx = actualizar_doc original (citas s) @ [nuevaCita] \<or>
             tx = actualizar_doc n3 (actualizar_doc original (citas s) @ [nuevaCita])) \<and>
            citas s1 = citas s \<and>
            reprogramarCita env fl usr s citaId rr =
              (if falla_commit fl
               then (Inl InternalError, registrar ''Error al reprogramar cita:'' s1)
               else if falla_poblar fl then (Inl InternalError, s1\<lparr>citas := tx\<rparr>)
               else (Inr (CitaReprogramada citaId Reprogramada
                           (map_option (poblar_citaOriginal tx) (findById tx (nuevo_id env)))),
                     s1\<lparr>citas := tx\<rparr>)))"
proof (cases "falla_guardar_original fl \<or> falla_guardar_nueva fl \<or>
          findById (citas s) (nuevo_id env) \<noteq> None")
  case True
  then show ?thesis using reprogramarCita_pasos [OF f g q o n refl refl, of fl] by auto
next
  case False
  let ?tx = "actualizar_doc original (citas s) @ [nuevaCita]"
  let ?nt = "notificar_cambio env s (falla_guardar_recordatorio fl) (nuevaCita, ?tx)"
  let ?s1 = "case ?nt of Hecho st \<Rightarrow> s
             | Lanzado ls st \<Rightarrow> registrar aviso_reprogramacion (registrar_lineas ls s)"
  obtain n3 cs3 where e: "estado_final ?nt = (n3, cs3)"
      "sin_recordatorios n3 = sin_recordatorios nuevaCita"
      "cs3 = ?tx \<or> cs3 = actualizar_doc n3 ?tx"
    using notificar_cambio_efecto [of env s "falla_guardar_recordatorio fl" nuevaCita ?tx]
    by blast
  have c: "citas ?s1 = citas s"
    by (cases ?nt) (simp_all add: registrar_def registrar_lineas_def)
  have "reprogramarCita env fl usr s citaId rr =
              (if falla_commit fl
               then (Inl InternalError, registrar ''Error al reprogramar cita:'' ?s1)
               else if falla_poblar fl then (Inl InternalError, ?s1\<lparr>citas := cs3\<rparr>)
               else (Inr (CitaReprogramada citaId Reprogramada
                           (map_option (poblar_citaOriginal cs3) (findById cs3 (nuevo_id env)))),
                     ?s1\<lparr>citas := cs3\<rparr>))"
    using reprogramarCita_pasos [OF f g q o n refl refl, of fl] False e(1) by simp
  with False e(2,3) c show ?thesis by blast
qed

text \<open>
  The setter \<^verbatim>\<open>trim\<close> is idempotent: notes that a handler has stored are notes that
  \<^verbatim>\<open>trim\<close> leaves as they are.
\<close>

lemma dropWhile_fijo: "xs = [] \<or> \<not> P (hd xs) \<Longrightarrow> dropWhile P xs = xs"
  by (cases xs) auto

lemma recorte_final:
  assumes "xs = [] \<or> \<not> P (hd xs)"
  shows "rev (dropWhile P (rev xs)) = [] \<or> \<not> P (hd (rev (dropWhile P (rev xs))))"
proof (cases "rev (dropWhile P (rev xs)) = []")
  case True
  then show ?thesis by simp
next
  case False
  let ?ys = "rev (dropWhile P (rev xs))"
  have "rev xs = takeWhile P (rev xs) @ dropWhile P (rev xs)" by simp
  then have "rev (rev xs) = rev (takeWhile P (rev xs) @ dropWhile P (rev xs))" by simp
  then have x: "xs = ?ys @ rev (takeWhile P (rev xs))" by (simp only: rev_append rev_rev_ident)
  have "hd xs = hd ?ys" by (subst x) (simp only: hd_append2 [OF False])
  moreover have "xs \<noteq> []" using False by auto
  ultimately show ?thesis using assms by simp
qed

lemma trim_idem: "trim (trim s) = trim s"
proof -
  let ?t = "dropWhile es_espacio s"
  have t: "?t = [] \<or> \<not> es_espacio (hd ?t)"
    using hd_dropWhile [of es_espacio s] by blast
  from recorte_final [of "dropWhile es_espacio s" es_espacio, OF t] have "dropWhile es_espacio (trim s) = trim s"
    unfolding trim_def by (rule dropWhile_fijo)
  then show ?thesis
    by (simp add: trim_def)
qed

lemma reprogramar_tx:
  assumes f: "findById cs citaId = Some cita"
    and libre: "findById cs (cita_id nuevaCita) = None"
    and ido: "cita_id original = citaId"
    and n3: "sin_recordatorios n3 = sin_recordatorios nuevaCita"
    and tx: "tx = actualizar_doc original cs @ [nuevaCita] \<or>
             tx = actualizar_doc n3 (actualizar_doc original cs @ [nuevaCita])"
  shows "cita_id nuevaCita \<noteq> citaId"
    and "findById tx citaId = Some original"
    and "findById tx (cita_id nuevaCita) = Some nuevaCita \<or>
         findById tx (cita_id nuevaCita) = Some n3"
proof -
  show d: "cita_id nuevaCita \<noteq> citaId" using f libre by auto
  have i3: "cita_id n3 = cita_id nuevaCita" using sin_recordatorios_campos(1) [OF n3] .
  have a: "findById (actualizar_doc original cs) citaId = Some original"
    using f ido by (simp add: findById_actualizar_doc)
  have b: "findById (actualizar_doc original cs) (cita_id nuevaCita) = None"
    using libre ido d by (simp add: findById_actualizar_doc)
  have c1: "findById (actualizar_doc original cs @ [nuevaCita]) citaId = Some original"
    using a by (simp add: findById_append)
  have c2: "findById (actualizar_doc original cs @ [nuevaCita]) (cita_id nuevaCita) = Some nuevaCita"
    using b by (simp add: findById_append)
  from tx show "findById tx citaId = Some original"
    using c1 d i3 by (auto simp: findById_actualizar_doc)
  from tx show "findById tx (cita_id nuevaCita) = Some nuevaCita \<or>
         findById tx (cita_id nuevaCita) = Some n3"
    using c2 i3 by (auto simp: findById_actualizar_doc)
qed

text \<open>When \<^verbatim>\<open>reprogramarCita\<close> succeeds: past its guards, with a free identifier and no rejection.\<close>

lemma reprogramar_procede:
  assumes f: "findById (citas s) citaId = Some cita"
    and g: "estado cita \<notin> set [Cancelada, Completada, NoAsistio, Reprogramada]"
    and q: "citaSolapadaOtra (citas s) citaId (medico cita) (sr_fechaInicio rr) (sr_fechaFin rr) = None"
    and libre: "findById (citas s) (nuevo_id env) = None"
    and nf: "\<not> falla_guardar_original fl" "\<not> falla_guardar_nueva fl" "\<not> falla_commit fl"
            "\<not> falla_poblar fl"
  shows "\<exists>r s'. reprogramarCita env fl usr s citaId rr = (Inr r, s')"
  using reprogramarCita_pasos [OF f g q refl refl refl refl, of env fl usr] libre nf by simp

text \<open>
  C5. After a successful \<^verbatim>\<open>reprogramarCita\<close> on the stored appointment \<open>cita\<close> (whose notes
  are trimmed, as the schema stores them): the stored original is \<open>cita\<close> with state
  \<^verbatim>\<open>reprogramada\<close>, \<^verbatim>\<open>canceladoPor\<close> patient when the caller's role is patient and practitioner
  otherwise, and the trimmed reason of the request (or \<^verbatim>\<open>Cita reprogramada\<close>); a new
  appointment is stored under a different identifier, in state \<^verbatim>\<open>programada\<close>, with the
  patient, practitioner, treatment and notes of the original, the new window, and
  \<^verbatim>\<open>citaOriginal\<close> the original's identifier; and the response carries both records: the
  original's identifier with its new state, and the new appointment as stored, with the
  original as stored in its \<^verbatim>\<open>citaOriginal\<close>.
\<close>

theorem reprogramar_exito:
  assumes f: "findById (citas s) citaId = Some cita"
    and r: "reprogramarCita env fl usr s citaId rr = (Inr r, s')"
    and t: "notas_recortadas cita"
  shows "\<exists>original nueva.
     original = cita\<lparr>estado := Reprogramada,
                  motivoCancelacion := Some (trim (o_defecto (sr_motivo rr) ''Cita reprogramada'')),
                  canceladoPor := (if rol usr = RolPaciente then PorPaciente else PorMedico)\<rparr> \<and>
     findById (citas s') citaId = Some original \<and>
     nuevo_id env \<noteq> citaId \<and>
     findById (citas s') (nuevo_id env) = Some nueva \<and>
     estado nueva = Programada \<and> paciente nueva = paciente cita \<and>
     medico nueva = medico cita \<and> tratamiento nueva = tratamiento cita \<and>
     notas nueva = notas cita \<and> fechaInicio nueva = sr_fechaInicio rr \<and>
     fechaFin nueva = sr_fechaFin rr \<and> citaOriginal nueva = Some citaId \<and>
     r = CitaReprogramada citaId Reprogramada (Some (nueva, Some original))"
proof -
  define original where "original = cita\<lparr>estado := Reprogramada,
                motivoCancelacion := Some (trim (o_defecto (sr_motivo rr) ''Cita reprogramada'')),
                canceladoPor := (if rol usr = RolPaciente then PorPaciente else PorMedico)\<rparr>"
  define nuevaCita where "nuevaCita = nueva_cita (nuevo_id env) (paciente cita) (medico cita)
                (tratamiento cita) (sr_fechaInicio rr) (sr_fechaFin rr) (notas cita) (Some citaId)"
  have i: "cita_id cita = citaId" using f by (rule findById_id)
  have g: "estado cita \<notin> set [Cancelada, Completada, NoAsistio, Reprogramada]"
    using f r by (auto simp: reprogramarCita_def split: if_splits)
  have q: "citaSolapadaOtra (citas s) citaId (medico cita) (sr_fechaInicio rr) (sr_fechaFin rr) = None"
    using f r g by (auto simp: reprogramarCita_def split: if_splits)
  from reprogramarCita_forma [OF f g q original_def nuevaCita_def, of fl] r
  obtain n3 tx s1 where libre: "findById (citas s) (nuevo_id env) = None"
    and n3: "sin_recordatorios n3 = sin_recordatorios nuevaCita"
    and tx: "tx = actualizar_doc original (citas s) @ [nuevaCita] \<or>
             tx = actualizar_doc n3 (actualizar_doc original (citas s) @ [nuevaCita])"
    and res: "(Inr r, s') =
              (if falla_commit fl
               then (Inl InternalError, registrar ''Error al reprogramar cita:'' s1)
               else if falla_poblar fl then (Inl InternalError, s1\<lparr>citas := tx\<rparr>)
               else (Inr (CitaReprogramada citaId Reprogramada
                           (map_option (poblar_citaOriginal tx) (findById tx (nuevo_id env)))),
                     s1\<lparr>citas := tx\<rparr>))"
    by auto
  from res have s': "citas s' = tx"
    and rr: "r = CitaReprogramada citaId Reprogramada
                   (map_option (poblar_citaOriginal tx) (findById tx (nuevo_id env)))"
    by (auto split: if_splits)
  have idn: "cita_id nuevaCita = nuevo_id env" by (simp add: nuevaCita_def nueva_cita_def)
  have ido: "cita_id original = citaId" by (simp add: original_def i)
  note p = reprogramar_tx [OF f _ ido n3 tx, unfolded idn, OF libre]
  have campos: "estado nuevaCita = Programada" "paciente nuevaCita = paciente cita"
    "medico nuevaCita = medico cita" "tratamiento nuevaCita = tratamiento cita"
    "notas nuevaCita = notas cita" "fechaInicio nuevaCita = sr_fechaInicio rr"
    "fechaFin nuevaCita = sr_fechaFin rr" "citaOriginal nuevaCita = Some citaId"
    using t by (simp_all add: nuevaCita_def nueva_cita_def notas_recortadas_def)
  obtain nueva where nueva: "findById tx (nuevo_id env) = Some nueva"
    and sn: "sin_recordatorios nueva = sin_recordatorios nuevaCita"
    using p(3) n3 by auto
  note cn = campos [folded sin_recordatorios_campos [OF sn]]
  have pob: "poblar_citaOriginal tx nueva = (nueva, Some original)"
    using cn(8) p(2) by (simp add: poblar_citaOriginal_def)
  have "r = CitaReprogramada citaId Reprogramada (Some (nueva, Some original))"
    using rr nueva pob by simp
  then show ?thesis
    using p(1,2) s' nueva cn unfolding original_def by blast
qed

text \<open>C5 at the example store, moving the appointment to 700-730.\<close>

theorem reprogramar_exito_witness:
  "findById (citas (sistema_ej [cita_ej])) 1 = Some cita_ej \<and>
   notas_recortadas cita_ej \<and>
   reprogramarCita entorno_ej sin_fallos secretaria_ej (sistema_ej [cita_ej]) 1
      \<lparr>sr_fechaInicio = 700, sr_fechaFin = 730, sr_motivo = Some ''pedido del paciente''\<rparr>
     = (Inr (CitaReprogramada 1 Reprogramada
               (Some ((nueva_cita 2 3 7 5 700 730 (Some ''control'') (Some 1))
                        \<lparr>recordatoriosEnviados :=
                            [\<lparr>tipo = Email, fecha = 500, estado_envio = Enviado\<rparr>]\<rparr>,
                      Some (cita_ej\<lparr>estado := Reprogramada,
                                     motivoCancelacion := Some ''pedido del paciente'',
                                     canceladoPor := PorMedico\<rparr>)))),
        sistema_ej [cita_ej\<lparr>estado := Reprogramada,
                             motivoCancelacion := Some ''pedido del paciente'',
                             canceladoPor := PorMedico\<rparr>,
                    (nueva_cita 2 3 7 5 700 730 (Some ''control'') (Some 1))
                      \<lparr>recordatoriosEnviados :=
                          [\<lparr>tipo = Email, fecha = 500, estado_envio = Enviado\<rparr>]\<rparr>]) \<and>
   (\<exists>nueva.
      findById (citas (sistema_ej [cita_ej\<lparr>estado := Reprogramada,
                             motivoCancelacion := Some ''pedido del paciente'',
                             canceladoPor := PorMedico\<rparr>,
                    (nueva_cita 2 3 7 5 700 730 (Some ''control'') (Some 1))
                      \<lparr>recordatoriosEnviados :=
                          [\<lparr>tipo = Email, fecha = 500, estado_envio = Enviado\<rparr>]\<rparr>])) 2
        = Some nueva \<and>
      estado nueva = Programada \<and> paciente nueva = 3 \<and> medico nueva = 7 \<and>
      tratamiento nueva = 5 \<and> notas nueva = Some ''control'' \<and> fechaInicio nueva = 700 \<and>
      fechaFin nueva = 730 \<and> citaOriginal nueva = Some 1)"
proof -
  have f: "findById (citas (sistema_ej [cita_ej])) 1 = Some cita_ej"
    by (simp add: ej_defs findById_def)
  have t: "notas_recortadas cita_ej"
    by (simp add: ej_defs modelo_defs2 notas_recortadas_def)
  have e: "reprogramarCita entorno_ej sin_fallos secretaria_ej (sistema_ej [cita_ej]) 1
      \<lparr>sr_fechaInicio = 700, sr_fechaFin = 730, sr_motivo = Some ''pedido del paciente''\<rparr>
     = (Inr (CitaReprogramada 1 Reprogramada
               (Some ((nueva_cita 2 3 7 5 700 730 (Some ''control'') (Some 1))
                        \<lparr>recordatoriosEnviados :=
                            [\<lparr>tipo = Email, fecha = 500, estado_envio = Enviado\<rparr>]\<rparr>,
                      Some (cita_ej\<lparr>estado := Reprogramada,
                                     motivoCancelacion := Some ''pedido del paciente'',
                                     canceladoPor := PorMedico\<rparr>)))),
        sistema_ej [cita_ej\<lparr>estado := Reprogramada,
                             motivoCancelacion := Some ''pedido del paciente'',
                             canceladoPor := PorMedico\<rparr>,
                    (nueva_cita 2 3 7 5 700 730 (Some ''control'') (Some 1))
                      \<lparr>recordatoriosEnviados :=
                          [\<lparr>tipo = Email, fecha = 500, estado_envio = Enviado\<rparr>]\<rparr>])"
    by (simp add: ej_defs modelo_defs2)
  from reprogramar_exito [OF f e t] f t e show ?thesis
    by (simp add: ej_defs)
qed

text \<open>
  C4 at its failing input. \<^verbatim>\<open>POST /:id/reprogramar\<close> moves the appointment 1 to 700-730, and
  the \<^verbatim>\<open>findById\<close> that reads the new appointment back after \<^verbatim>\<open>commitTransaction\<close> rejects:
  the call fails and the collection holds both writes, the original \<^verbatim>\<open>reprogramada\<close> and
  its successor, where C4 has the store unchanged after a failure. For the same request,
  a rejected \<^verbatim>\<open>save\<close> of the new appointment and a rejected commit leave the collection as
  it was: the \<^verbatim>\<open>catch\<close> aborts the transaction, which after the commit comes too late.
\<close>

theorem reprogramar_fallo_tras_commit:
  "reprogramarCita entorno_ej (sin_fallos\<lparr>falla_poblar := True\<rparr>) secretaria_ej
      (sistema_ej [cita_ej]) 1
      \<lparr>sr_fechaInicio = 700, sr_fechaFin = 730, sr_motivo = None\<rparr>
     = (Inl InternalError,
        sistema_ej [cita_ej\<lparr>estado := Reprogramada,
                             motivoCancelacion := Some ''Cita reprogramada'',
                             canceladoPor := PorMedico\<rparr>,
                    (nueva_cita 2 3 7 5 700 730 (Some ''control'') (Some 1))
                      \<lparr>recordatoriosEnviados :=
                          [\<lparr>tipo = Email, fecha = 500, estado_envio = Enviado\<rparr>]\<rparr>]) \<and>
   citas (sistema_ej [cita_ej\<lparr>estado := Reprogramada,
                             motivoCancelacion := Some ''Cita reprogramada'',
                             canceladoPor := PorMedico\<rparr>,
                    (nueva_cita 2 3 7 5 700 730 (Some ''control'') (Some 1))
                      \<lparr>recordatoriosEnviados :=
                          [\<lparr>tipo = Email, fecha = 500, estado_envio = Enviado\<rparr>]\<rparr>])
     \<noteq> citas (sistema_ej [cita_ej]) \<and>
   reprogramarCita entorno_ej (sin_fallos\<lparr>falla_guardar_nueva := True\<rparr>) secretaria_ej
      (sistema_ej [cita_ej]) 1 \<lparr>sr_fechaInicio = 700, sr_fechaFin = 730, sr_motivo = None\<rparr>
     = (Inl InternalError,
        (sistema_ej [cita_ej])\<lparr>consola := [''Error al reprogramar cita:'']\<rparr>) \<and>
   reprogramarCita entorno_ej (sin_fallos\<lparr>falla_commit := True\<rparr>) secretaria_ej
      (sistema_ej [cita_ej]) 1 \<lparr>sr_fechaInicio = 700, sr_fechaFin = 730, sr_motivo = None\<rparr>
     = (Inl InternalError,
        (sistema_ej [cita_ej])\<lparr>consola := [''Error al reprogramar cita:'']\<rparr>)"
  by (simp add: ej_defs modelo_defs2)

text \<open>
  What the transaction does give. Whatever rejects inside \<^verbatim>\<open>reprogramarCita\<close>, the
  collection afterwards is either the collection before the call or holds both writes:
  the original in state \<^verbatim>\<open>reprogramada\<close> and its successor, \<^verbatim>\<open>programada\<close> and pointing back
  to it. When the call fails and the read that follows the commit did not reject, the
  collection is unchanged; so it is whenever a \<^verbatim>\<open>save\<close> of the two appointments or the
  commit rejects.
\<close>

lemma reprogramar_atomica:
  "(citas (snd (reprogramarCita env fl usr s citaId rr)) = citas s \<or>
    (\<exists>original nueva.
       findById (citas (snd (reprogramarCita env fl usr s citaId rr))) citaId = Some original \<and>
       estado original = Reprogramada \<and>
       nuevo_id env \<noteq> citaId \<and>
       findById (citas (snd (reprogramarCita env fl usr s citaId rr))) (nuevo_id env)
         = Some nueva \<and>
       estado nueva = Programada \<and> citaOriginal nueva = Some citaId)) \<and>
   (isl (fst (reprogramarCita env fl usr s citaId rr)) \<and> \<not> falla_poblar fl \<longrightarrow>
      citas (snd (reprogramarCita env fl usr s citaId rr)) = citas s) \<and>
   (falla_guardar_original fl \<or> falla_guardar_nueva fl \<or> falla_commit fl \<longrightarrow>
      citas (snd (reprogramarCita env fl usr s citaId rr)) = citas s)"
proof (cases "findById (citas s) citaId")
  case None
  then show ?thesis by (simp add: reprogramarCita_def)
next
  case (Some cita)
  note f = this
  have i: "cita_id cita = citaId" using f by (rule findById_id)
  show ?thesis
  proof (cases "estado cita \<in> set [Cancelada, Completada, NoAsistio, Reprogramada] \<or>
                citaSolapadaOtra (citas s) citaId (medico cita)
                  (sr_fechaInicio rr) (sr_fechaFin rr) \<noteq> None")
    case True
    then show ?thesis using f by (auto simp: reprogramarCita_def)
  next
    case False
    then have g: "estado cita \<notin> set [Cancelada, Completada, NoAsistio, Reprogramada]"
      and q: "citaSolapadaOtra (citas s) citaId (medico cita)
                (sr_fechaInicio rr) (sr_fechaFin rr) = None"
      by auto
    define original where "original = cita\<lparr>estado := Reprogramada,
                motivoCancelacion := Some (trim (o_defecto (sr_motivo rr) ''Cita reprogramada'')),
                canceladoPor := (if rol usr = RolPaciente then PorPaciente else PorMedico)\<rparr>"
    define nuevaCita where "nuevaCita = nueva_cita (nuevo_id env) (paciente cita) (medico cita)
                (tratamiento cita) (sr_fechaInicio rr) (sr_fechaFin rr) (notas cita) (Some citaId)"
    have idn: "cita_id nuevaCita = nuevo_id env" by (simp add: nuevaCita_def nueva_cita_def)
    have ido: "cita_id original = citaId" by (simp add: original_def i)
    have eo: "estado original = Reprogramada" by (simp add: original_def)
    have en: "estado nuevaCita = Programada" "citaOriginal nuevaCita = Some citaId"
      by (simp_all add: nuevaCita_def nueva_cita_def)
    from reprogramarCita_forma [OF f g q original_def nuevaCita_def, of fl]
    show ?thesis
    proof
      assume "(falla_guardar_original fl \<or> falla_guardar_nueva fl \<or>
          findById (citas s) (nuevo_id env) \<noteq> None) \<and>
         reprogramarCita env fl usr s citaId rr =
           (Inl InternalError, registrar ''Error al reprogramar cita:'' s)"
      then show ?thesis by (simp add: registrar_def)
    next
      assume "\<not> falla_guardar_original fl \<and> \<not> falla_guardar_nueva fl \<and>
         findById (citas s) (nuevo_id env) = None \<and>
         (\<exists>n3 tx s1. sin_recordatorios n3 = sin_recordatorios nuevaCita \<and>
            (tx = actualizar_doc original (citas s) @ [nuevaCita] \<or>
             tx = actualizar_doc n3 (actualizar_doc original (citas s) @ [nuevaCita])) \<and>
            citas s1 = citas s \<and>
            reprogramarCita env fl usr s citaId rr =
              (if falla_commit fl
               then (Inl InternalError, registrar ''Error al reprogramar cita:'' s1)
               else if falla_poblar fl then (Inl InternalError, s1\<lparr>citas := tx\<rparr>)
               else (Inr (CitaReprogramada citaId Reprogramada
                           (map_option (poblar_citaOriginal tx) (findById tx (nuevo_id env)))),
                     s1\<lparr>citas := tx\<rparr>)))"
      then obtain n3 tx s1 where nf: "\<not> falla_guardar_original fl" "\<not> falla_guardar_nueva fl"
        and libre: "findById (citas s) (nuevo_id env) = None"
        and n3: "sin_recordatorios n3 = sin_recordatorios nuevaCita"
        and tx: "tx = actualizar_doc original (citas s) @ [nuevaCita] \<or>
             tx = actualizar_doc n3 (actualizar_doc original (citas s) @ [nuevaCita])"
        and s1: "citas s1 = citas s"
        and res: "reprogramarCita env fl usr s citaId rr =
              (if falla_commit fl
               then (Inl InternalError, registrar ''Error al reprogramar cita:'' s1)
               else if falla_poblar fl then (Inl InternalError, s1\<lparr>citas := tx\<rparr>)
               else (Inr (CitaReprogramada citaId Reprogramada
                           (map_option (poblar_citaOriginal tx) (findById tx (nuevo_id env)))),
                     s1\<lparr>citas := tx\<rparr>))"
        by blast
      note p = reprogramar_tx [OF f _ ido n3 tx, unfolded idn, OF libre]
      have ambos: "\<exists>original nueva. findById tx citaId = Some original \<and>
          estado original = Reprogramada \<and> nuevo_id env \<noteq> citaId \<and>
          findById tx (nuevo_id env) = Some nueva \<and>
          estado nueva = Programada \<and> citaOriginal nueva = Some citaId"
        using p eo en sin_recordatorios_campos(7,9) [OF n3] by auto
      show ?thesis
      proof (cases "falla_commit fl")
        case True
        then show ?thesis using res s1 nf by (simp add: registrar_def)
      next
        case False
        then have c: "citas (snd (reprogramarCita env fl usr s citaId rr)) = tx"
          using res by simp
        have "isl (fst (reprogramarCita env fl usr s citaId rr)) \<longleftrightarrow> falla_poblar fl"
          using res False by simp
        then show ?thesis using c ambos nf False by simp
      qed
    qed
  qed
qed

section \<open>Notification failures\<close>

text \<open>What a notification block does to its state: the logs only grow.\<close>

lemma sigue_refl: "sigue c c"
  by (simp add: sigue_def)

lemma sigue_trans: "sigue a b \<Longrightarrow> sigue b c \<Longrightarrow> sigue a c"
  by (auto simp: sigue_def)

lemma sigue_id: "sigue c c' \<Longrightarrow> cita_id c = cita_id c'"
  unfolding sigue_def using sin_recordatorios_campos(1) by blast

lemma sigue_envio:
  "sigue c (c\<lparr>recordatoriosEnviados := recordatoriosEnviados c @ xs\<rparr>)"
  by (simp add: sigue_def sin_recordatorios_def)

lemma registro_inicial_refl: "registro_inicial cs cs"
  by (simp add: registro_inicial_def list_all2_refl sigue_refl)

lemma registro_inicial_trans:
  "registro_inicial a b \<Longrightarrow> registro_inicial b c \<Longrightarrow> registro_inicial a c"
  unfolding registro_inicial_def
  using list_all2_trans [of sigue sigue sigue] sigue_trans by blast

lemma registro_inicial_olvida: "registro_inicial cs cs' \<Longrightarrow> olvida cs = olvida cs'"
  unfolding registro_inicial_def
  by (induction rule: list_all2_induct) (simp_all add: olvida_def sigue_def)

lemma avanza_refl: "avanza st st"
  by (simp add: avanza_def sigue_refl registro_inicial_refl)

lemma avanza_trans: "avanza a b \<Longrightarrow> avanza b c \<Longrightarrow> avanza a c"
  unfolding avanza_def using sigue_trans registro_inicial_trans by blast

lemma al_dia_actualizar:
  assumes "al_dia (c, cs)" and "sigue c c'"
  shows "registro_inicial cs (actualizar_doc c' cs)"
    and "al_dia (c', actualizar_doc c' cs)"
    and "al_dia (c', cs)"
proof -
  have i: "cita_id c' = cita_id c" using sigue_id [OF assms(2)] by simp
  have t: "sigue d c \<Longrightarrow> sigue d c'" for d using assms(2) by (rule sigue_trans [rotated])
  show "registro_inicial cs (actualizar_doc c' cs)"
    using assms(1) unfolding al_dia_def registro_inicial_def actualizar_doc_def
    by (induction cs) (auto simp: i t sigue_refl)
  show "al_dia (c', actualizar_doc c' cs)"
    unfolding al_dia_def actualizar_doc_def
    by (induction cs) (auto simp: sigue_refl)
  show "al_dia (c', cs)"
    using assms(1) unfolding al_dia_def
    by (induction cs) (auto simp: i t)
qed

lemma paso_email_avanza:
  assumes "al_dia st"
  shows "avanza st (estado_final (paso_email env pac usr datos fg st))"
    and "al_dia (estado_final (paso_email env pac usr datos fg st))"
proof -
  obtain c cs where st: "st = (c, cs)" by (cases st)
  let ?c = "c\<lparr>recordatoriosEnviados := recordatoriosEnviados c @
                      [\<lparr>tipo = Email, fecha = ahora env, estado_envio = Enviado\<rparr>]\<rparr>"
  note a = al_dia_actualizar [OF assms [unfolded st] sigue_envio]
  have e: "estado_final (paso_email env pac usr datos fg st) = st \<or>
           estado_final (paso_email env pac usr datos fg st) = (?c, cs) \<or>
           estado_final (paso_email env pac usr datos fg st) = (?c, actualizar_doc ?c cs)"
    by (cases usr) (auto simp: paso_email_def Let_def st)
  have 1: "avanza st st" "al_dia st" using assms by (simp_all add: avanza_refl)
  have 2: "avanza st (?c, cs)" "al_dia (?c, cs)"
    using a(3) by (simp_all add: st avanza_def sigue_envio registro_inicial_refl)
  have 3: "avanza st (?c, actualizar_doc ?c cs)" "al_dia (?c, actualizar_doc ?c cs)"
    using a(1,2) by (simp_all add: st avanza_def sigue_envio)
  show "avanza st (estado_final (paso_email env pac usr datos fg st))"
    using e 1(1) 2(1) 3(1) by presburger
  show "al_dia (estado_final (paso_email env pac usr datos fg st))"
    using e 1(2) 2(2) 3(2) by presburger
qed

lemma paso_sms_avanza:
  assumes "al_dia st"
  shows "avanza st (estado_final (paso_sms env pac usr st))"
    and "al_dia (estado_final (paso_sms env pac usr st))"
proof -
  obtain c cs where st: "st = (c, cs)" by (cases st)
  let ?c = "c\<lparr>recordatoriosEnviados := recordatoriosEnviados c @
                      [\<lparr>tipo = SMS, fecha = ahora env, estado_envio = Enviado\<rparr>]\<rparr>"
  note a = al_dia_actualizar [OF assms [unfolded st] sigue_envio]
  have e: "estado_final (paso_sms env pac usr st) = st \<or>
           estado_final (paso_sms env pac usr st) = (?c, actualizar_doc ?c cs)"
    by (cases usr) (auto simp: paso_sms_def Let_def st)
  have 1: "avanza st st" "al_dia st" using assms by (simp_all add: avanza_refl)
  have 3: "avanza st (?c, actualizar_doc ?c cs)" "al_dia (?c, actualizar_doc ?c cs)"
    using a(1,2) by (simp_all add: st avanza_def sigue_envio)
  show "avanza st (estado_final (paso_sms env pac usr st))"
    using e 1(1) 3(1) by presburger
  show "al_dia (estado_final (paso_sms env pac usr st))"
    using e 1(2) 3(2) by presburger
qed

lemma notificar_creacion_avanza:
  assumes "al_dia st"
  shows "avanza st (estado_final (notificar_creacion env pac usr st))"
proof (cases "paso_email env pac usr True False st")
  case (Hecho st1)
  from paso_email_avanza [OF assms, of env pac usr True False]
  have a: "avanza st st1" "al_dia st1" by (simp_all add: Hecho)
  from paso_sms_avanza(1) [OF a(2), of env pac usr] a(1)
  show ?thesis by (simp add: notificar_creacion_def Hecho avanza_trans)
next
  case (Lanzado ls st1)
  from paso_email_avanza(1) [OF assms, of env pac usr True False]
  show ?thesis by (simp add: notificar_creacion_def Lanzado)
qed

lemma notificar_cambio_avanza:
  assumes "al_dia st"
  shows "avanza st (estado_final (notificar_cambio env s fg st))"
proof (cases "find (\<lambda>p. pac_id p = paciente (fst st)) (pacientes s)")
  case None
  then show ?thesis by (simp add: notificar_cambio_def avanza_refl)
next
  case (Some pac)
  then show ?thesis using paso_email_avanza(1) [OF assms] by (simp add: notificar_cambio_def)
qed

text \<open>
  A rejecting service against a working one: the step is the same, or it throws from the
  state it started in, with the lines of the service on the console.
\<close>

lemma paso_email_falla:
  "paso_email (env\<lparr>email_falla := a, sms_falla := b\<rparr>) pac usr datos fg st =
     paso_email (env\<lparr>email_falla := False, sms_falla := False\<rparr>) pac usr datos fg st \<or>
   paso_email (env\<lparr>email_falla := a, sms_falla := b\<rparr>) pac usr datos fg st =
     Lanzado [aviso_email] st"
  by (cases usr) (simp_all add: paso_email_def)

lemma paso_sms_falla:
  "paso_sms (env\<lparr>email_falla := a, sms_falla := b\<rparr>) pac usr st =
     paso_sms (env\<lparr>email_falla := False, sms_falla := False\<rparr>) pac usr st \<or>
   paso_sms (env\<lparr>email_falla := a, sms_falla := b\<rparr>) pac usr st =
     Lanzado [aviso_sms, aviso_recordatorio_sms] st"
  by (cases usr) (simp_all add: paso_sms_def)

lemma notificar_creacion_inicial:
  assumes "al_dia st"
  shows "avanza (estado_final (notificar_creacion (env\<lparr>email_falla := a, sms_falla := b\<rparr>)
                                 pac usr st))
                (estado_final (notificar_creacion (env\<lparr>email_falla := False, sms_falla := False\<rparr>)
                                 pac usr st))"
proof -
  let ?f = "env\<lparr>email_falla := a, sms_falla := b\<rparr>"
  let ?k = "env\<lparr>email_falla := False, sms_falla := False\<rparr>"
  from paso_email_falla [where env = env and a = a and b = b and pac = pac and usr = usr
      and datos = True and fg = False and st = st]
  show ?thesis
  proof
    assume e: "paso_email ?f pac usr True False st = paso_email ?k pac usr True False st"
    show ?thesis
    proof (cases "paso_email ?k pac usr True False st")
      case (Lanzado ls st1)
      then show ?thesis using e by (simp add: notificar_creacion_def avanza_refl)
    next
      case (Hecho st1)
      from paso_email_avanza(2) [OF assms, of ?k pac usr True False]
      have a1: "al_dia st1" by (simp add: Hecho)
      from paso_sms_falla [where env = env and a = a and b = b and pac = pac and usr = usr
          and st = st1]
      show ?thesis
      proof
        assume "paso_sms ?f pac usr st1 = paso_sms ?k pac usr st1"
        then show ?thesis using e Hecho by (simp add: notificar_creacion_def avanza_refl)
      next
        assume "paso_sms ?f pac usr st1 = Lanzado [aviso_sms, aviso_recordatorio_sms] st1"
        then show ?thesis using e Hecho paso_sms_avanza(1) [OF a1, of ?k pac usr]
          by (simp add: notificar_creacion_def)
      qed
    qed
  next
    assume "paso_email ?f pac usr True False st = Lanzado [aviso_email] st"
    then show ?thesis using notificar_creacion_avanza [OF assms, of ?k pac usr]
      by (simp add: notificar_creacion_def)
  qed
qed

lemma notificar_cambio_inicial:
  assumes "al_dia st"
  shows "avanza (estado_final (notificar_cambio (env\<lparr>email_falla := a, sms_falla := b\<rparr>) s fg st))
                (estado_final (notificar_cambio (env\<lparr>email_falla := False, sms_falla := False\<rparr>)
                                 s fg st))"
proof (cases "find (\<lambda>p. pac_id p = paciente (fst st)) (pacientes s)")
  case None
  then show ?thesis by (simp add: notificar_cambio_def avanza_refl)
next
  case (Some pac)
  let ?u = "find (\<lambda>u. usr_id u = pac_usuario pac) (usuarios s)"
  let ?d = "find (\<lambda>u. usr_id u = medico (fst st)) (usuarios s) \<noteq> None \<and>
            find (\<lambda>t. trat_id t = tratamiento (fst st)) (tratamientos s) \<noteq> None"
  from paso_email_falla [where env = env and a = a and b = b and pac = pac and usr = ?u
      and datos = ?d and fg = fg and st = st]
  show ?thesis
  proof
    assume "paso_email (env\<lparr>email_falla := a, sms_falla := b\<rparr>) pac ?u ?d fg st =
            paso_email (env\<lparr>email_falla := False, sms_falla := False\<rparr>) pac ?u ?d fg st"
    then show ?thesis using Some by (simp add: notificar_cambio_def avanza_refl)
  next
    assume "paso_email (env\<lparr>email_falla := a, sms_falla := b\<rparr>) pac ?u ?d fg st =
            Lanzado [aviso_email] st"
    then show ?thesis
      using Some paso_email_avanza(1) [OF assms,
          of "env\<lparr>email_falla := False, sms_falla := False\<rparr>" pac ?u ?d fg]
      by (simp add: notificar_cambio_def)
  qed
qed

text \<open>The lines a notification block throws with are lines of the services.\<close>

lemma notificar_creacion_lineas:
  "notificar_creacion env pac usr st = Lanzado ls st' \<Longrightarrow> set ls \<subseteq> set avisos"
  by (cases usr)
     (auto simp: notificar_creacion_def paso_email_def paso_sms_def Let_def avisos_def
       split: if_splits intento.splits)

lemma notificar_cambio_lineas:
  "notificar_cambio env s fg st = Lanzado ls st' \<Longrightarrow> set ls \<subseteq> set avisos"
  by (cases "find (\<lambda>u. usr_id u = pac_usuario (the (find (\<lambda>p. pac_id p = paciente (fst st)) (pacientes s)))) (usuarios s)")
     (auto simp: notificar_cambio_def paso_email_def Let_def avisos_def
       split: if_splits option.splits)

lemma sin_avisos_lineas:
  assumes "set ls \<subseteq> set avisos" and "l \<in> set avisos"
  shows "sin_avisos (xs @ ls @ [l]) = sin_avisos xs"
proof -
  have "filter (\<lambda>l. l \<notin> set avisos) ls = []" using assms(1) by (auto simp: filter_empty_conv)
  then show ?thesis using assms(2) by (simp add: sin_avisos_def)
qed

lemma visible_lineas:
  assumes "set ls \<subseteq> set avisos" and "l \<in> set avisos"
  shows "visible (registrar l (registrar_lineas ls s)) = visible s"
  using sin_avisos_lineas [OF assms]
  by (simp add: visible_def registrar_def registrar_lineas_def)

lemma avisos_handlers:
  "aviso_creacion \<in> set avisos" "aviso_actualizacion \<in> set avisos"
  "aviso_reprogramacion \<in> set avisos"
  by (simp_all add: avisos_def)

lemma visible_citas:
  "olvida cs = olvida cs' \<Longrightarrow> visible (s\<lparr>citas := cs\<rparr>) = visible (s\<lparr>citas := cs'\<rparr>)"
  by (simp add: visible_def)

lemma findById_olvida: "findById (olvida cs) i = map_option sin_recordatorios (findById cs i)"
  by (induction cs) (auto simp: findById_def olvida_def sin_recordatorios_def)

lemma poblar_olvida:
  "map_prod sin_recordatorios (map_option sin_recordatorios) (poblar_citaOriginal cs c) =
   poblar_citaOriginal (olvida cs) (sin_recordatorios c)"
  by (cases "citaOriginal c")
     (simp_all add: poblar_citaOriginal_def findById_olvida sin_recordatorios_def)

lemma al_dia_nueva:
  assumes "findById cs (cita_id c) = None"
  shows "al_dia (c, cs @ [c])"
  using assms by (auto simp: al_dia_def findById_def find_None_iff list_all_iff sigue_refl)

lemma al_dia_guardada: "al_dia (c, actualizar_doc c cs)"
  unfolding al_dia_def actualizar_doc_def by (induction cs) (auto simp: sigue_refl)

lemma sin_avisos_append: "sin_avisos (xs @ ys) = sin_avisos xs @ sin_avisos ys"
  by (simp add: sin_avisos_def)

lemma sin_avisos_nada: "set ls \<subseteq> set avisos \<Longrightarrow> sin_avisos ls = []"
  by (auto simp: sin_avisos_def filter_empty_conv)

text \<open>
  The system after a notification block that ended as \<open>nt\<close>, whose \<^verbatim>\<open>catch\<close> writes the line
  \<open>l\<close>: up to the notification lines it is the system before.
\<close>

lemma visible_intento:
  assumes "\<And>ls st. nt = Lanzado ls st \<Longrightarrow> set ls \<subseteq> set avisos" and "l \<in> set avisos"
  shows "visible ((case nt of Hecho st \<Rightarrow> s
                   | Lanzado ls st \<Rightarrow> registrar l (registrar_lineas ls s))\<lparr>citas := cs\<rparr>)
         = visible (s\<lparr>citas := cs\<rparr>)"
    and "visible (registrar x (case nt of Hecho st \<Rightarrow> s
                   | Lanzado ls st \<Rightarrow> registrar l (registrar_lineas ls s)))
         = visible (registrar x s)"
    and "citas (case nt of Hecho st \<Rightarrow> s
                   | Lanzado ls st \<Rightarrow> registrar l (registrar_lineas ls s)) = citas s"
proof -
  have l: "sin_avisos (l # ys) = sin_avisos ys" for ys
    using assms(2) by (simp add: sin_avisos_def)
  show "visible ((case nt of Hecho st \<Rightarrow> s
                   | Lanzado ls st \<Rightarrow> registrar l (registrar_lineas ls s))\<lparr>citas := cs\<rparr>)
         = visible (s\<lparr>citas := cs\<rparr>)"
    using assms(1)
    by (cases nt)
       (simp_all add: visible_def registrar_def registrar_lineas_def sin_avisos_append
          sin_avisos_nada l)
  show "visible (registrar x (case nt of Hecho st \<Rightarrow> s
                   | Lanzado ls st \<Rightarrow> registrar l (registrar_lineas ls s)))
         = visible (registrar x s)"
    using assms(1)
    by (cases nt)
       (simp_all add: visible_def registrar_def registrar_lineas_def sin_avisos_append
          sin_avisos_nada l)
  show "citas (case nt of Hecho st \<Rightarrow> s
                   | Lanzado ls st \<Rightarrow> registrar l (registrar_lineas ls s)) = citas s"
    by (cases nt) (simp_all add: registrar_def registrar_lineas_def)
qed

text \<open>The run of \<^verbatim>\<open>crearCita\<close> once the new appointment is stored.\<close>

lemma crearCita_pasos:
  assumes r: "resolver_crear s rc = Inr pac"
    and q: "citaSolapada (citas s) (sc_medico rc) (sc_fechaInicio rc) (sc_fechaFin rc) = None"
    and ins: "insertar_doc (nueva_cita (nuevo_id env) (sc_paciente rc) (sc_medico rc)
                (sc_tratamiento rc) (sc_fechaInicio rc) (sc_fechaFin rc) (sc_notas rc) None)
                (citas s) = Some cs1"
    and nt: "nt = notificar_creacion env pac (find (\<lambda>u. usr_id u = pac_usuario pac) (usuarios s))
                (nueva_cita (nuevo_id env) (sc_paciente rc) (sc_medico rc)
                   (sc_tratamiento rc) (sc_fechaInicio rc) (sc_fechaFin rc) (sc_notas rc) None,
                 cs1)"
  shows "crearCita env s rc =
     (Inr (CitaCreada (findById (snd (estado_final nt)) (nuevo_id env))),
      (case nt of Hecho st \<Rightarrow> s
       | Lanzado ls st \<Rightarrow> registrar aviso_creacion (registrar_lineas ls s))
         \<lparr>citas := snd (estado_final nt)\<rparr>)"
  using r q ins unfolding crearCita_def nt
  by (simp add: Let_def registrar_def registrar_lineas_def split: intento.splits)

lemma crearCita_desenlace:
  "desenlace (crearCita env s rc) =
     (case resolver_crear s rc of
        Inl e \<Rightarrow> (Inl e, visible s)
      | Inr pac \<Rightarrow>
          (case citaSolapada (citas s) (sc_medico rc) (sc_fechaInicio rc) (sc_fechaFin rc) of
             Some _ \<Rightarrow> (Inl SchedulingConflict, visible s)
           | None \<Rightarrow>
               (case insertar_doc (nueva_cita (nuevo_id env) (sc_paciente rc) (sc_medico rc)
                       (sc_tratamiento rc) (sc_fechaInicio rc) (sc_fechaFin rc) (sc_notas rc) None)
                       (citas s) of
                  None \<Rightarrow> (Inl InternalError, visible (registrar ''Error al crear cita:'' s))
                | Some cs1 \<Rightarrow>
                    (Inr (CitaCreada (findById (olvida cs1) (nuevo_id env))),
                     visible (s\<lparr>citas := cs1\<rparr>)))))"
proof (cases "resolver_crear s rc")
  case (Inl e)
  then show ?thesis by (simp add: crearCita_def desenlace_def)
next
  case (Inr pac)
  note r = this
  show ?thesis
  proof (cases "citaSolapada (citas s) (sc_medico rc) (sc_fechaInicio rc) (sc_fechaFin rc)")
    case (Some c)
    then show ?thesis using r by (simp add: crearCita_def desenlace_def)
  next
    case None
    note q = this
    let ?n = "nueva_cita (nuevo_id env) (sc_paciente rc) (sc_medico rc)
                       (sc_tratamiento rc) (sc_fechaInicio rc) (sc_fechaFin rc) (sc_notas rc) None"
    show ?thesis
    proof (cases "insertar_doc ?n (citas s)")
      case None
      then show ?thesis using r q
        by (simp add: crearCita_def desenlace_def Let_def)
    next
      case (Some cs1)
      let ?nt = "notificar_creacion env pac (find (\<lambda>u. usr_id u = pac_usuario pac) (usuarios s))
                   (?n, cs1)"
      have ad: "al_dia (?n, cs1)"
        using insertar_doc_Some [OF Some] al_dia_nueva by simp
      have "registro_inicial cs1 (snd (estado_final ?nt))"
        using notificar_creacion_avanza [OF ad, where env = env and pac = pac
            and usr = "find (\<lambda>u. usr_id u = pac_usuario pac) (usuarios s)"]
        by (simp add: avanza_def)
      from registro_inicial_olvida [OF this]
      have o: "olvida (snd (estado_final ?nt)) = olvida cs1" by simp
      have v: "visible ((case ?nt of Hecho st \<Rightarrow> s
                   | Lanzado ls st \<Rightarrow> registrar aviso_creacion (registrar_lineas ls s))
                   \<lparr>citas := snd (estado_final ?nt)\<rparr>) = visible (s\<lparr>citas := cs1\<rparr>)"
        using visible_intento(1) [OF notificar_creacion_lineas avisos_handlers(1)]
          visible_citas [OF o] by simp
      show ?thesis
        unfolding crearCita_pasos [OF r q Some refl] desenlace_def
        using r q Some v by (simp add: findById_olvida o [symmetric])
    qed
  qed
qed

lemma crearCita_inicial:
  "registro_inicial (citas (snd (crearCita (env\<lparr>email_falla := a, sms_falla := b\<rparr>) s rc)))
     (citas (snd (crearCita (env\<lparr>email_falla := False, sms_falla := False\<rparr>) s rc)))"
proof (cases "resolver_crear s rc")
  case (Inl e)
  then show ?thesis by (simp add: crearCita_def registro_inicial_refl)
next
  case (Inr pac)
  note r = this
  show ?thesis
  proof (cases "citaSolapada (citas s) (sc_medico rc) (sc_fechaInicio rc) (sc_fechaFin rc)")
    case (Some c)
    then show ?thesis using r by (simp add: crearCita_def registro_inicial_refl)
  next
    case None
    note q = this
    let ?n = "nueva_cita (nuevo_id env) (sc_paciente rc) (sc_medico rc)
                       (sc_tratamiento rc) (sc_fechaInicio rc) (sc_fechaFin rc) (sc_notas rc) None"
    show ?thesis
    proof (cases "insertar_doc ?n (citas s)")
      case None
      then show ?thesis using r q
        by (simp add: crearCita_def Let_def registrar_def registro_inicial_refl)
    next
      case (Some cs1)
      have ad: "al_dia (?n, cs1)"
        using insertar_doc_Some [OF Some] al_dia_nueva by simp
      have c: "citas (snd (crearCita (env\<lparr>email_falla := x, sms_falla := y\<rparr>) s rc)) =
          snd (estado_final (notificar_creacion (env\<lparr>email_falla := x, sms_falla := y\<rparr>) pac
                 (find (\<lambda>u. usr_id u = pac_usuario pac) (usuarios s)) (?n, cs1)))" for x y
        using crearCita_pasos [OF r q, where env = "env\<lparr>email_falla := x, sms_falla := y\<rparr>",
            OF _ refl] Some
        by simp
      show ?thesis
        unfolding c
        using notificar_creacion_inicial [OF ad, where env = env and a = a and b = b
            and pac = pac and usr = "find (\<lambda>u. usr_id u = pac_usuario pac) (usuarios s)"]
        by (simp add: avanza_def)
    qed
  qed
qed

text \<open>The run of \<^verbatim>\<open>actualizarCita\<close> past its guards.\<close>

lemma actualizarCita_pasos:
  assumes f: "findById (citas s) citaId = Some cita"
    and g: "estado cita \<notin> set [Cancelada, Completada, NoAsistio]"
    and q: "\<not> (cambia_fecha cita ra \<and>
               citaSolapadaOtra (citas s) citaId (medico cita)
                 (nuevoInicio cita ra) (nuevoFin cita ra) \<noteq> None)"
    and c2: "c2 = cita\<lparr>fechaInicio := nuevoInicio cita ra, fechaFin := nuevoFin cita ra,
                       notas := (case sa_notas ra of None \<Rightarrow> notas cita
                                 | Some n \<Rightarrow> Some (trim n))\<rparr>"
    and nt: "nt = notificar_cambio env s False (c2, actualizar_doc c2 (citas s))"
  shows "actualizarCita env s citaId ra =
      (if sa_fechaInicio ra \<noteq> None \<or> sa_fechaFin ra \<noteq> None
       then (Inr (CitaActualizada (findById (snd (estado_final nt)) citaId)),
             (case nt of Hecho st \<Rightarrow> s
              | Lanzado ls st \<Rightarrow> registrar aviso_actualizacion (registrar_lineas ls s))
                \<lparr>citas := snd (estado_final nt)\<rparr>)
       else (Inr (CitaActualizada (findById (actualizar_doc c2 (citas s)) citaId)),
             s\<lparr>citas := actualizar_doc c2 (citas s)\<rparr>))"
proof -
  let ?c1 = "if cambia_fecha cita ra
             then cita\<lparr>fechaInicio := nuevoInicio cita ra, fechaFin := nuevoFin cita ra\<rparr>
             else cita"
  let ?c2 = "case sa_notas ra of None \<Rightarrow> ?c1 | Some n \<Rightarrow> ?c1\<lparr>notas := Some (trim n)\<rparr>"
  have c1: "?c1 = cita\<lparr>fechaInicio := nuevoInicio cita ra, fechaFin := nuevoFin cita ra\<rparr>"
    by (auto simp: cambia_fecha_def nuevoInicio_def nuevoFin_def split: option.splits)
  have e2: "?c2 = c2"
    unfolding c1 c2 by (simp split: option.splits)
  have unf: "actualizarCita env s citaId ra =
      (if sa_fechaInicio ra \<noteq> None \<or> sa_fechaFin ra \<noteq> None
       then (case notificar_cambio env s False (?c2, actualizar_doc ?c2 (citas s)) of
               Hecho st \<Rightarrow>
                 (Inr (CitaActualizada (findById (snd st) citaId)), s\<lparr>citas := snd st\<rparr>)
             | Lanzado ls st \<Rightarrow>
                 (Inr (CitaActualizada (findById (snd st) citaId)),
                  registrar aviso_actualizacion (registrar_lineas ls (s\<lparr>citas := snd st\<rparr>))))
       else (Inr (CitaActualizada (findById (actualizar_doc ?c2 (citas s)) citaId)),
             s\<lparr>citas := actualizar_doc ?c2 (citas s)\<rparr>))"
    using f g q unfolding actualizarCita_def Let_def
    by (cases "cambia_fecha cita ra"; simp split del: if_split cong: if_cong)
  show ?thesis
    unfolding unf e2 nt
    by (cases "notificar_cambio env s False (c2, actualizar_doc c2 (citas s))")
       (simp_all add: registrar_def registrar_lineas_def)
qed

lemma actualizarCita_desenlace:
  "desenlace (actualizarCita env s citaId ra) =
     (case findById (citas s) citaId of
        None \<Rightarrow> (Inl NotFound, visible s)
      | Some cita \<Rightarrow>
          if estado cita \<in> set [Cancelada, Completada, NoAsistio]
          then (Inl InvalidState, visible s)
          else if cambia_fecha cita ra \<and>
                  citaSolapadaOtra (citas s) citaId (medico cita)
                    (nuevoInicio cita ra) (nuevoFin cita ra) \<noteq> None
          then (Inl SchedulingConflict, visible s)
          else (Inr (CitaActualizada (findById (olvida (actualizar_doc
                  (cita\<lparr>fechaInicio := nuevoInicio cita ra, fechaFin := nuevoFin cita ra,
                        notas := (case sa_notas ra of None \<Rightarrow> notas cita
                                  | Some n \<Rightarrow> Some (trim n))\<rparr>) (citas s))) citaId)),
                visible (s\<lparr>citas := actualizar_doc
                  (cita\<lparr>fechaInicio := nuevoInicio cita ra, fechaFin := nuevoFin cita ra,
                        notas := (case sa_notas ra of None \<Rightarrow> notas cita
                                  | Some n \<Rightarrow> Some (trim n))\<rparr>) (citas s)\<rparr>)))"
proof (cases "findById (citas s) citaId")
  case None
  then show ?thesis by (simp add: actualizarCita_def desenlace_def)
next
  case (Some cita)
  note f = this
  show ?thesis
  proof (cases "estado cita \<in> set [Cancelada, Completada, NoAsistio] \<or>
                (cambia_fecha cita ra \<and>
                  citaSolapadaOtra (citas s) citaId (medico cita)
                    (nuevoInicio cita ra) (nuevoFin cita ra) \<noteq> None)")
    case True
    then show ?thesis using f by (auto simp: actualizarCita_def desenlace_def)
  next
    case False
    then have g: "estado cita \<notin> set [Cancelada, Completada, NoAsistio]"
      and q: "\<not> (cambia_fecha cita ra \<and>
               citaSolapadaOtra (citas s) citaId (medico cita)
                 (nuevoInicio cita ra) (nuevoFin cita ra) \<noteq> None)"
      by auto
    define c2 where "c2 = cita\<lparr>fechaInicio := nuevoInicio cita ra, fechaFin := nuevoFin cita ra,
                        notas := (case sa_notas ra of None \<Rightarrow> notas cita
                                  | Some n \<Rightarrow> Some (trim n))\<rparr>"
    let ?nt = "notificar_cambio env s False (c2, actualizar_doc c2 (citas s))"
    have "registro_inicial (actualizar_doc c2 (citas s)) (snd (estado_final ?nt))"
      using notificar_cambio_avanza [OF al_dia_guardada [of c2 "citas s"],
          where env = env and s = s and fg = False]
      by (simp add: avanza_def)
    from registro_inicial_olvida [OF this]
    have o: "olvida (snd (estado_final ?nt)) = olvida (actualizar_doc c2 (citas s))" by simp
    have v: "visible ((case ?nt of Hecho st \<Rightarrow> s
                   | Lanzado ls st \<Rightarrow> registrar aviso_actualizacion (registrar_lineas ls s))
                   \<lparr>citas := snd (estado_final ?nt)\<rparr>)
             = visible (s\<lparr>citas := actualizar_doc c2 (citas s)\<rparr>)"
      using visible_intento(1) [OF notificar_cambio_lineas avisos_handlers(2)]
        visible_citas [OF o] by simp
    have "desenlace (actualizarCita env s citaId ra) =
        (Inr (CitaActualizada (findById (olvida (actualizar_doc c2 (citas s))) citaId)),
         visible (s\<lparr>citas := actualizar_doc c2 (citas s)\<rparr>))"
      unfolding actualizarCita_pasos [OF f g q c2_def refl] desenlace_def
      using v by (simp add: findById_olvida [symmetric] o)
    then show ?thesis using f g q unfolding c2_def by simp
  qed
qed

lemma actualizarCita_inicial:
  "registro_inicial
     (citas (snd (actualizarCita (env\<lparr>email_falla := a, sms_falla := b\<rparr>) s citaId ra)))
     (citas (snd (actualizarCita (env\<lparr>email_falla := False, sms_falla := False\<rparr>) s citaId ra)))"
proof (cases "findById (citas s) citaId")
  case None
  then show ?thesis by (simp add: actualizarCita_def registro_inicial_refl)
next
  case (Some cita)
  note f = this
  show ?thesis
  proof (cases "estado cita \<in> set [Cancelada, Completada, NoAsistio] \<or>
                (cambia_fecha cita ra \<and>
                  citaSolapadaOtra (citas s) citaId (medico cita)
                    (nuevoInicio cita ra) (nuevoFin cita ra) \<noteq> None)")
    case True
    then show ?thesis using f by (auto simp: actualizarCita_def registro_inicial_refl)
  next
    case False
    then have g: "estado cita \<notin> set [Cancelada, Completada, NoAsistio]"
      and q: "\<not> (cambia_fecha cita ra \<and>
               citaSolapadaOtra (citas s) citaId (medico cita)
                 (nuevoInicio cita ra) (nuevoFin cita ra) \<noteq> None)"
      by auto
    define c2 where "c2 = cita\<lparr>fechaInicio := nuevoInicio cita ra, fechaFin := nuevoFin cita ra,
                        notas := (case sa_notas ra of None \<Rightarrow> notas cita
                                  | Some n \<Rightarrow> Some (trim n))\<rparr>"
    have c: "citas (snd (actualizarCita (env\<lparr>email_falla := x, sms_falla := y\<rparr>) s citaId ra)) =
        (if sa_fechaInicio ra \<noteq> None \<or> sa_fechaFin ra \<noteq> None
         then snd (estado_final (notificar_cambio (env\<lparr>email_falla := x, sms_falla := y\<rparr>) s False
                      (c2, actualizar_doc c2 (citas s))))
         else actualizar_doc c2 (citas s))" for x y
      unfolding actualizarCita_pasos [OF f g q c2_def refl] by simp
    show ?thesis
      unfolding c
      using notificar_cambio_inicial [OF al_dia_guardada [of c2 "citas s"],
          where env = env and a = a and b = b and s = s and fg = False]
      by (simp add: avanza_def registro_inicial_refl)
  qed
qed

lemma reprogramarCita_desenlace:
  "desenlace (reprogramarCita env fl usr s citaId rr) =
     (case findById (citas s) citaId of
        None \<Rightarrow> (Inl NotFound, visible s)
      | Some cita \<Rightarrow>
          if estado cita \<in> set [Cancelada, Completada, NoAsistio, Reprogramada]
          then (Inl InvalidState, visible s)
          else if citaSolapadaOtra (citas s) citaId (medico cita)
                    (sr_fechaInicio rr) (sr_fechaFin rr) \<noteq> None
          then (Inl SchedulingConflict, visible s)
          else if falla_guardar_original fl \<or> falla_guardar_nueva fl \<or>
                  findById (citas s) (nuevo_id env) \<noteq> None \<or> falla_commit fl
          then (Inl InternalError, visible (registrar ''Error al reprogramar cita:'' s))
          else (if falla_poblar fl then Inl InternalError
                else Inr (CitaReprogramada citaId Reprogramada
                  (map_option
                     (poblar_citaOriginal (olvida (actualizar_doc
                        (cita\<lparr>estado := Reprogramada,
                           motivoCancelacion :=
                             Some (trim (o_defecto (sr_motivo rr) ''Cita reprogramada'')),
                           canceladoPor :=
                             (if rol usr = RolPaciente then PorPaciente else PorMedico)\<rparr>)
                        (citas s) @
                        [nueva_cita (nuevo_id env) (paciente cita) (medico cita)
                           (tratamiento cita) (sr_fechaInicio rr) (sr_fechaFin rr) (notas cita)
                           (Some citaId)])))
                     (findById (olvida (actualizar_doc
                        (cita\<lparr>estado := Reprogramada,
                           motivoCancelacion :=
                             Some (trim (o_defecto (sr_motivo rr) ''Cita reprogramada'')),
                           canceladoPor :=
                             (if rol usr = RolPaciente then PorPaciente else PorMedico)\<rparr>)
                        (citas s) @
                        [nueva_cita (nuevo_id env) (paciente cita) (medico cita)
                           (tratamiento cita) (sr_fechaInicio rr) (sr_fechaFin rr) (notas cita)
                           (Some citaId)])) (nuevo_id env)))),
                visible (s\<lparr>citas := actualizar_doc
                   (cita\<lparr>estado := Reprogramada,
                      motivoCancelacion :=
                        Some (trim (o_defecto (sr_motivo rr) ''Cita reprogramada'')),
                      canceladoPor :=
                        (if rol usr = RolPaciente then PorPaciente else PorMedico)\<rparr>) (citas s) @
                   [nueva_cita (nuevo_id env) (paciente cita) (medico cita) (tratamiento cita)
                      (sr_fechaInicio rr) (sr_fechaFin rr) (notas cita) (Some citaId)]\<rparr>)))"
proof (cases "findById (citas s) citaId")
  case None
  then show ?thesis by (simp add: reprogramarCita_def desenlace_def)
next
  case (Some cita)
  note f = this
  have i: "cita_id cita = citaId" using f by (rule findById_id)
  show ?thesis
  proof (cases "estado cita \<in> set [Cancelada, Completada, NoAsistio, Reprogramada] \<or>
                citaSolapadaOtra (citas s) citaId (medico cita)
                  (sr_fechaInicio rr) (sr_fechaFin rr) \<noteq> None")
    case True
    then show ?thesis using f by (auto simp: reprogramarCita_def desenlace_def)
  next
    case False
    then have g: "estado cita \<notin> set [Cancelada, Completada, NoAsistio, Reprogramada]"
      and q: "citaSolapadaOtra (citas s) citaId (medico cita)
                (sr_fechaInicio rr) (sr_fechaFin rr) = None"
      by auto
    define original where "original = cita\<lparr>estado := Reprogramada,
                motivoCancelacion := Some (trim (o_defecto (sr_motivo rr) ''Cita reprogramada'')),
                canceladoPor := (if rol usr = RolPaciente then PorPaciente else PorMedico)\<rparr>"
    define nuevaCita where "nuevaCita = nueva_cita (nuevo_id env) (paciente cita) (medico cita)
                (tratamiento cita) (sr_fechaInicio rr) (sr_fechaFin rr) (notas cita) (Some citaId)"
    define tx where "tx = actualizar_doc original (citas s) @ [nuevaCita]"
    define nt where "nt = notificar_cambio env s (falla_guardar_recordatorio fl) (nuevaCita, tx)"
    define s1 where "s1 = (case nt of Hecho st \<Rightarrow> s
                   | Lanzado ls st \<Rightarrow> registrar aviso_reprogramacion (registrar_lineas ls s))"
    have idn: "cita_id nuevaCita = nuevo_id env" by (simp add: nuevaCita_def nueva_cita_def)
    have ido: "cita_id original = citaId" by (simp add: original_def i)
    note p = reprogramarCita_pasos [OF f g q original_def nuevaCita_def
        nt_def [unfolded tx_def] s1_def, folded tx_def]
    have li: "\<And>ls st. nt = Lanzado ls st \<Longrightarrow> set ls \<subseteq> set avisos"
      unfolding nt_def by (rule notificar_cambio_lineas)
    have vi: "visible (s1\<lparr>citas := cs\<rparr>) = visible (s\<lparr>citas := cs\<rparr>)"
      "visible (registrar x s1) = visible (registrar x s)" for cs x
      unfolding s1_def
      by (rule visible_intento(1), erule li, rule avisos_handlers(3))
         (rule visible_intento(2), erule li, rule avisos_handlers(3))
    have goal: "desenlace (reprogramarCita env fl usr s citaId rr) =
       (if falla_guardar_original fl \<or> falla_guardar_nueva fl \<or>
                  findById (citas s) (nuevo_id env) \<noteq> None \<or> falla_commit fl
          then (Inl InternalError, visible (registrar ''Error al reprogramar cita:'' s))
          else (if falla_poblar fl then Inl InternalError
                else Inr (CitaReprogramada citaId Reprogramada
                  (map_option (poblar_citaOriginal (olvida tx))
                     (findById (olvida tx) (nuevo_id env)))),
                visible (s\<lparr>citas := tx\<rparr>)))"
    proof (cases "falla_guardar_original fl \<or> falla_guardar_nueva fl \<or>
                  findById (citas s) (nuevo_id env) \<noteq> None")
      case True
      then show ?thesis unfolding p desenlace_def by auto
    next
      case False
      then have libre: "findById (citas s) (nuevo_id env) = None" by simp
      have d: "nuevo_id env \<noteq> citaId" using f libre by auto
      have "findById (actualizar_doc original (citas s)) (cita_id nuevaCita) = None"
        using libre d by (simp add: findById_actualizar_doc idn ido)
      then have ad: "al_dia (nuevaCita, tx)" unfolding tx_def by (rule al_dia_nueva)
      have "registro_inicial tx (snd (estado_final nt))"
        using notificar_cambio_avanza [OF ad, where env = env and s = s
            and fg = "falla_guardar_recordatorio fl"]
        by (simp add: avanza_def nt_def)
      from registro_inicial_olvida [OF this]
      have o: "olvida (snd (estado_final nt)) = olvida tx" by simp
      have v: "visible (s1\<lparr>citas := snd (estado_final nt)\<rparr>) = visible (s\<lparr>citas := tx\<rparr>)"
        using vi(1) visible_citas [OF o] by simp
      have m: "map_option (map_prod sin_recordatorios (map_option sin_recordatorios))
                 (map_option (poblar_citaOriginal (snd (estado_final nt)))
                    (findById (snd (estado_final nt)) (nuevo_id env))) =
               map_option (poblar_citaOriginal (olvida tx)) (findById (olvida tx) (nuevo_id env))"
        by (simp add: option.map_comp comp_def poblar_olvida findById_olvida o [symmetric])
      show ?thesis
        unfolding p desenlace_def using False v vi(2) m by simp
    qed
    show ?thesis using f g q goal unfolding original_def nuevaCita_def tx_def by simp
  qed
qed

lemma reprogramarCita_inicial:
  "registro_inicial
     (citas (snd (reprogramarCita (env\<lparr>email_falla := a, sms_falla := b\<rparr>) fl usr s citaId rr)))
     (citas (snd (reprogramarCita (env\<lparr>email_falla := False, sms_falla := False\<rparr>) fl usr s
                    citaId rr)))"
proof (cases "findById (citas s) citaId")
  case None
  then show ?thesis by (simp add: reprogramarCita_def registro_inicial_refl)
next
  case (Some cita)
  note f = this
  have i: "cita_id cita = citaId" using f by (rule findById_id)
  show ?thesis
  proof (cases "estado cita \<in> set [Cancelada, Completada, NoAsistio, Reprogramada] \<or>
                citaSolapadaOtra (citas s) citaId (medico cita)
                  (sr_fechaInicio rr) (sr_fechaFin rr) \<noteq> None")
    case True
    then show ?thesis using f by (auto simp: reprogramarCita_def registro_inicial_refl)
  next
    case False
    then have g: "estado cita \<notin> set [Cancelada, Completada, NoAsistio, Reprogramada]"
      and q: "citaSolapadaOtra (citas s) citaId (medico cita)
                (sr_fechaInicio rr) (sr_fechaFin rr) = None"
      by auto
    define original where "original = cita\<lparr>estado := Reprogramada,
                motivoCancelacion := Some (trim (o_defecto (sr_motivo rr) ''Cita reprogramada'')),
                canceladoPor := (if rol usr = RolPaciente then PorPaciente else PorMedico)\<rparr>"
    define nuevaCita where "nuevaCita = nueva_cita (nuevo_id env) (paciente cita) (medico cita)
                (tratamiento cita) (sr_fechaInicio rr) (sr_fechaFin rr) (notas cita) (Some citaId)"
    define tx where "tx = actualizar_doc original (citas s) @ [nuevaCita]"
    have idn: "cita_id nuevaCita = nuevo_id env" by (simp add: nuevaCita_def nueva_cita_def)
    have ido: "cita_id original = citaId" by (simp add: original_def i)
    have c: "citas (snd (reprogramarCita (env\<lparr>email_falla := x, sms_falla := y\<rparr>) fl usr s
                          citaId rr)) =
        (if falla_guardar_original fl \<or> falla_guardar_nueva fl \<or>
            findById (citas s) (nuevo_id env) \<noteq> None \<or> falla_commit fl
         then citas s
         else snd (estado_final (notificar_cambio (env\<lparr>email_falla := x, sms_falla := y\<rparr>) s
                     (falla_guardar_recordatorio fl) (nuevaCita, tx))))" for x y
    proof -
      let ?e = "env\<lparr>email_falla := x, sms_falla := y\<rparr>"
      let ?nt = "notificar_cambio ?e s (falla_guardar_recordatorio fl) (nuevaCita, tx)"
      have n: "nuevaCita = nueva_cita (nuevo_id ?e) (paciente cita) (medico cita)
                (tratamiento cita) (sr_fechaInicio rr) (sr_fechaFin rr) (notas cita) (Some citaId)"
        by (simp add: nuevaCita_def)
      have c1: "citas (case ?nt of Hecho st \<Rightarrow> s
                   | Lanzado ls st \<Rightarrow> registrar aviso_reprogramacion (registrar_lineas ls s))
                = citas s"
        by (cases ?nt) (simp_all add: registrar_def registrar_lineas_def)
      show ?thesis
        unfolding reprogramarCita_pasos [OF f g q original_def n refl refl, of fl, folded tx_def]
        using c1 by (simp add: registrar_def)
    qed
    show ?thesis
    proof (cases "falla_guardar_original fl \<or> falla_guardar_nueva fl \<or>
            findById (citas s) (nuevo_id env) \<noteq> None \<or> falla_commit fl")
      case True
      then show ?thesis unfolding c by (simp add: registro_inicial_refl)
    next
      case False
      then have libre: "findById (citas s) (nuevo_id env) = None" by simp
      have d: "nuevo_id env \<noteq> citaId" using f libre by auto
      have "findById (actualizar_doc original (citas s)) (cita_id nuevaCita) = None"
        using libre d by (simp add: findById_actualizar_doc idn ido)
      then have ad: "al_dia (nuevaCita, tx)" unfolding tx_def by (rule al_dia_nueva)
      show ?thesis
        unfolding c
        using False notificar_cambio_inicial [OF ad, where env = env and a = a and b = b
            and s = s and fg = "falla_guardar_recordatorio fl"]
        by (simp add: avanza_def)
    qed
  qed
qed

text \<open>
  C8. Whether the email service and the SMS service reject or not, \<^verbatim>\<open>crearCita\<close>,
  \<^verbatim>\<open>actualizarCita\<close> and \<^verbatim>\<open>reprogramarCita\<close> come to the same end: the same failure, or success
  with the same response, and the same system, once the notification logs of the
  appointments and the notification lines of the console are left aside. The stored
  appointments are those stored with working services, field by field; their notification
  log, which records the dispatches, is an initial part of the log written with working
  services, so that it has an entry only for a dispatch that was made.
\<close>

theorem notificacion_no_cambia_desenlace:
  "desenlace (crearCita (env\<lparr>email_falla := a, sms_falla := b\<rparr>) s rc) =
     desenlace (crearCita env s rc) \<and>
   desenlace (actualizarCita (env\<lparr>email_falla := a, sms_falla := b\<rparr>) s citaId ra) =
     desenlace (actualizarCita env s citaId ra) \<and>
   desenlace (reprogramarCita (env\<lparr>email_falla := a, sms_falla := b\<rparr>) fl usr s citaId rr) =
     desenlace (reprogramarCita env fl usr s citaId rr) \<and>
   registro_inicial
     (citas (snd (crearCita (env\<lparr>email_falla := a, sms_falla := b\<rparr>) s rc)))
     (citas (snd (crearCita (env\<lparr>email_falla := False, sms_falla := False\<rparr>) s rc))) \<and>
   registro_inicial
     (citas (snd (actualizarCita (env\<lparr>email_falla := a, sms_falla := b\<rparr>) s citaId ra)))
     (citas (snd (actualizarCita (env\<lparr>email_falla := False, sms_falla := False\<rparr>) s citaId ra))) \<and>
   registro_inicial
     (citas (snd (reprogramarCita (env\<lparr>email_falla := a, sms_falla := b\<rparr>) fl usr s citaId rr)))
     (citas (snd (reprogramarCita (env\<lparr>email_falla := False, sms_falla := False\<rparr>) fl usr s
                    citaId rr)))"
proof -
  have e: "nuevo_id (env\<lparr>email_falla := a, sms_falla := b\<rparr>) = nuevo_id env" by simp
  have 1: "desenlace (crearCita (env\<lparr>email_falla := a, sms_falla := b\<rparr>) s rc) =
     desenlace (crearCita env s rc)"
    by (simp only: crearCita_desenlace e)
  have 2: "desenlace (actualizarCita (env\<lparr>email_falla := a, sms_falla := b\<rparr>) s citaId ra) =
     desenlace (actualizarCita env s citaId ra)"
    by (simp only: actualizarCita_desenlace)
  have 3: "desenlace (reprogramarCita (env\<lparr>email_falla := a, sms_falla := b\<rparr>) fl usr s citaId rr) =
     desenlace (reprogramarCita env fl usr s citaId rr)"
    by (simp only: reprogramarCita_desenlace e)
  from 1 2 3 crearCita_inicial actualizarCita_inicial reprogramarCita_inicial
  show ?thesis by (intro conjI)
qed

text \<open>
  C8 at the example data. With both services rejecting, a booking succeeds, the console
  gets the line of the email service and that of the handler's \<^verbatim>\<open>catch\<close>, and the
  appointment is stored as with working services but for the two entries of its
  notification log; with the email service rejecting, an update and a reschedule succeed
  and store the appointments they store otherwise.
\<close>

theorem notificacion_no_cambia_desenlace_witness:
  "crearCita (entorno_ej\<lparr>email_falla := True, sms_falla := True\<rparr>)
      (sistema_ej []) (solicitud_crear_ej 600 630) =
     (Inr (CitaCreada (Some (nueva_cita 2 3 7 5 600 630 None None))),
      (sistema_ej [nueva_cita 2 3 7 5 600 630 None None])
        \<lparr>consola := [aviso_email, aviso_creacion]\<rparr>) \<and>
   desenlace (crearCita (entorno_ej\<lparr>email_falla := True, sms_falla := True\<rparr>)
                (sistema_ej []) (solicitud_crear_ej 600 630)) =
     (Inr (CitaCreada (Some (nueva_cita 2 3 7 5 600 630 None None))),
      sistema_ej [nueva_cita 2 3 7 5 600 630 None None]) \<and>
   desenlace (actualizarCita (entorno_ej\<lparr>email_falla := True, sms_falla := False\<rparr>)
                (sistema_ej [cita_ej]) 1
                \<lparr>sa_fechaInicio = Some 700, sa_fechaFin = Some 730, sa_notas = None\<rparr>) =
     (Inr (CitaActualizada (Some (cita_ej\<lparr>fechaInicio := 700, fechaFin := 730\<rparr>))),
      sistema_ej [cita_ej\<lparr>fechaInicio := 700, fechaFin := 730\<rparr>]) \<and>
   desenlace (reprogramarCita (entorno_ej\<lparr>email_falla := True, sms_falla := False\<rparr>) sin_fallos
                secretaria_ej (sistema_ej [cita_ej]) 1
                \<lparr>sr_fechaInicio = 700, sr_fechaFin = 730, sr_motivo = None\<rparr>) =
     (Inr (CitaReprogramada 1 Reprogramada
             (Some (nueva_cita 2 3 7 5 700 730 (Some ''control'') (Some 1),
                    Some (cita_ej\<lparr>estado := Reprogramada,
                                   motivoCancelacion := Some ''Cita reprogramada'',
                                   canceladoPor := PorMedico\<rparr>)))),
      sistema_ej [cita_ej\<lparr>estado := Reprogramada,
                           motivoCancelacion := Some ''Cita reprogramada'',
                           canceladoPor := PorMedico\<rparr>,
                  nueva_cita 2 3 7 5 700 730 (Some ''control'') (Some 1)]) \<and>
   registro_inicial [nueva_cita 2 3 7 5 600 630 None None]
     [(nueva_cita 2 3 7 5 600 630 None None)
        \<lparr>recordatoriosEnviados :=
           [\<lparr>tipo = Email, fecha = 500, estado_envio = Enviado\<rparr>,
            \<lparr>tipo = SMS, fecha = 500, estado_envio = Enviado\<rparr>]\<rparr>]"
proof -
  have ok: "entorno_ej\<lparr>email_falla := False, sms_falla := False\<rparr> = entorno_ej"
    by (simp add: entorno_ej_def)
  have f: "crearCita (entorno_ej\<lparr>email_falla := True, sms_falla := True\<rparr>)
      (sistema_ej []) (solicitud_crear_ej 600 630) =
     (Inr (CitaCreada (Some (nueva_cita 2 3 7 5 600 630 None None))),
      (sistema_ej [nueva_cita 2 3 7 5 600 630 None None])
        \<lparr>consola := [aviso_email, aviso_creacion]\<rparr>)"
    by (simp add: ej_defs modelo_defs)
  have k: "crearCita entorno_ej (sistema_ej []) (solicitud_crear_ej 600 630) =
     (Inr (CitaCreada (Some ((nueva_cita 2 3 7 5 600 630 None None)
             \<lparr>recordatoriosEnviados :=
                [\<lparr>tipo = Email, fecha = 500, estado_envio = Enviado\<rparr>,
                 \<lparr>tipo = SMS, fecha = 500, estado_envio = Enviado\<rparr>]\<rparr>))),
      sistema_ej [(nueva_cita 2 3 7 5 600 630 None None)
             \<lparr>recordatoriosEnviados :=
                [\<lparr>tipo = Email, fecha = 500, estado_envio = Enviado\<rparr>,
                 \<lparr>tipo = SMS, fecha = 500, estado_envio = Enviado\<rparr>]\<rparr>])"
    by (simp add: ej_defs modelo_defs)
  have a: "desenlace (crearCita entorno_ej (sistema_ej []) (solicitud_crear_ej 600 630)) =
     (Inr (CitaCreada (Some (nueva_cita 2 3 7 5 600 630 None None))),
      sistema_ej [nueva_cita 2 3 7 5 600 630 None None])"
    unfolding k
    by (simp add: ej_defs modelo_defs2 desenlace_def visible_def olvida_def
        sin_recordatorios_def sin_avisos_def)
  have b: "desenlace (actualizarCita entorno_ej (sistema_ej [cita_ej]) 1
                \<lparr>sa_fechaInicio = Some 700, sa_fechaFin = Some 730, sa_notas = None\<rparr>) =
     (Inr (CitaActualizada (Some (cita_ej\<lparr>fechaInicio := 700, fechaFin := 730\<rparr>))),
      sistema_ej [cita_ej\<lparr>fechaInicio := 700, fechaFin := 730\<rparr>])"
    by (simp add: ej_defs modelo_defs2 desenlace_def visible_def olvida_def
        sin_recordatorios_def sin_avisos_def)
  have c: "desenlace (reprogramarCita entorno_ej sin_fallos
                secretaria_ej (sistema_ej [cita_ej]) 1
                \<lparr>sr_fechaInicio = 700, sr_fechaFin = 730, sr_motivo = None\<rparr>) =
     (Inr (CitaReprogramada 1 Reprogramada
             (Some (nueva_cita 2 3 7 5 700 730 (Some ''control'') (Some 1),
                    Some (cita_ej\<lparr>estado := Reprogramada,
                                   motivoCancelacion := Some ''Cita reprogramada'',
                                   canceladoPor := PorMedico\<rparr>)))),
      sistema_ej [cita_ej\<lparr>estado := Reprogramada,
                           motivoCancelacion := Some ''Cita reprogramada'',
                           canceladoPor := PorMedico\<rparr>,
                  nueva_cita 2 3 7 5 700 730 (Some ''control'') (Some 1)])"
    by (simp add: ej_defs modelo_defs2 desenlace_def visible_def olvida_def
        sin_recordatorios_def sin_avisos_def)
  from notificacion_no_cambia_desenlace [where env = entorno_ej and a = True and b = True
      and s = "sistema_ej []" and rc = "solicitud_crear_ej 600 630"]
  have a': "desenlace (crearCita (entorno_ej\<lparr>email_falla := True, sms_falla := True\<rparr>)
                (sistema_ej []) (solicitud_crear_ej 600 630)) =
     desenlace (crearCita entorno_ej (sistema_ej []) (solicitud_crear_ej 600 630))"
    and r: "registro_inicial
     (citas (snd (crearCita (entorno_ej\<lparr>email_falla := True, sms_falla := True\<rparr>)
                    (sistema_ej []) (solicitud_crear_ej 600 630))))
     (citas (snd (crearCita (entorno_ej\<lparr>email_falla := False, sms_falla := False\<rparr>)
                    (sistema_ej []) (solicitud_crear_ej 600 630))))"
    by blast+
  from notificacion_no_cambia_desenlace [where env = entorno_ej and a = True and b = False
      and s = "sistema_ej [cita_ej]" and citaId = 1 and fl = sin_fallos and usr = secretaria_ej
      and ra = "\<lparr>sa_fechaInicio = Some 700, sa_fechaFin = Some 730, sa_notas = None\<rparr>"
      and rr = "\<lparr>sr_fechaInicio = 700, sr_fechaFin = 730, sr_motivo = None\<rparr>"]
  have b': "desenlace (actualizarCita (entorno_ej\<lparr>email_falla := True, sms_falla := False\<rparr>)
                (sistema_ej [cita_ej]) 1
                \<lparr>sa_fechaInicio = Some 700, sa_fechaFin = Some 730, sa_notas = None\<rparr>) =
      desenlace (actualizarCita entorno_ej (sistema_ej [cita_ej]) 1
                \<lparr>sa_fechaInicio = Some 700, sa_fechaFin = Some 730, sa_notas = None\<rparr>)"
    and c': "desenlace (reprogramarCita (entorno_ej\<lparr>email_falla := True, sms_falla := False\<rparr>)
                sin_fallos secretaria_ej (sistema_ej [cita_ej]) 1
                \<lparr>sr_fechaInicio = 700, sr_fechaFin = 730, sr_motivo = None\<rparr>) =
      desenlace (reprogramarCita entorno_ej sin_fallos
                secretaria_ej (sistema_ej [cita_ej]) 1
                \<lparr>sr_fechaInicio = 700, sr_fechaFin = 730, sr_motivo = None\<rparr>)"
    by blast+
  have r': "registro_inicial [nueva_cita 2 3 7 5 600 630 None None]
     [(nueva_cita 2 3 7 5 600 630 None None)
        \<lparr>recordatoriosEnviados :=
           [\<lparr>tipo = Email, fecha = 500, estado_envio = Enviado\<rparr>,
            \<lparr>tipo = SMS, fecha = 500, estado_envio = Enviado\<rparr>]\<rparr>]"
    using r unfolding ok f k by (simp add: sistema_ej_def)
  from f trans [OF a' a] trans [OF b' b] trans [OF c' c] r' show ?thesis by (intro conjI)
qed

section \<open>The stored notes stay trimmed\<close>

lemma findById_set: "findById cs i = Some c \<Longrightarrow> c \<in> set cs"
  by (auto simp: findById_def find_Some_iff)

lemma recortadas_sin_recordatorios:
  "notas_recortadas (sin_recordatorios c) = notas_recortadas c"
  by (simp add: notas_recortadas_def sin_recordatorios_def)

lemma recortadas_olvida: "list_all notas_recortadas (olvida cs) = list_all notas_recortadas cs"
  by (induction cs) (simp_all add: olvida_def recortadas_sin_recordatorios)

lemma recortadas_desenlace:
  "list_all notas_recortadas (citas (snd (desenlace r))) =
   list_all notas_recortadas (citas (snd r))"
  by (simp add: desenlace_def visible_def recortadas_olvida)

lemma recortadas_actualizar_doc:
  "notas_recortadas c \<Longrightarrow> list_all notas_recortadas cs \<Longrightarrow>
   list_all notas_recortadas (actualizar_doc c cs)"
  by (induction cs) (auto simp: actualizar_doc_def)

lemma recortadas_insertar_doc:
  "insertar_doc c cs = Some cs' \<Longrightarrow> notas_recortadas c \<Longrightarrow> list_all notas_recortadas cs \<Longrightarrow>
   list_all notas_recortadas cs'"
  by (auto simp: insertar_doc_def split: if_splits)

lemma recortadas_nueva_cita: "notas_recortadas (nueva_cita i p m t a b n orig)"
  by (cases n) (simp_all add: notas_recortadas_def nueva_cita_def trim_idem)

text \<open>
  Every handler keeps the stored notes trimmed: what the theorem on rescheduling assumes
  of the original's notes holds of every appointment the handlers have written.
\<close>

lemma notas_recortadas_crear:
  assumes "list_all notas_recortadas (citas s)"
  shows "list_all notas_recortadas (citas (snd (crearCita env s rc)))"
proof -
  have "list_all notas_recortadas (citas (snd (desenlace (crearCita env s rc))))"
    unfolding crearCita_desenlace using assms
    by (auto simp: visible_def registrar_def recortadas_olvida recortadas_nueva_cita
        dest: recortadas_insertar_doc split: sum.splits option.splits)
  then show ?thesis by (simp only: recortadas_desenlace)
qed

lemma notas_recortadas_actualizar:
  assumes "list_all notas_recortadas (citas s)"
  shows "list_all notas_recortadas (citas (snd (actualizarCita env s citaId ra)))"
proof -
  have c: "notas_recortadas (cita\<lparr>fechaInicio := a, fechaFin := b,
             notas := (case sa_notas ra of None \<Rightarrow> notas cita | Some n \<Rightarrow> Some (trim n))\<rparr>)"
    if "findById (citas s) citaId = Some cita" for cita a b
  proof -
    have "notas_recortadas cita" using assms findById_set [OF that] by (simp add: list_all_iff)
    then show ?thesis by (simp add: notas_recortadas_def trim_idem split: option.splits)
  qed
  have "list_all notas_recortadas (citas (snd (desenlace (actualizarCita env s citaId ra))))"
    unfolding actualizarCita_desenlace using assms c
    by (auto simp: visible_def recortadas_olvida recortadas_actualizar_doc
        split: option.splits)
  then show ?thesis by (simp only: recortadas_desenlace)
qed

lemma notas_recortadas_reprogramar:
  assumes "list_all notas_recortadas (citas s)"
  shows "list_all notas_recortadas (citas (snd (reprogramarCita env fl usr s citaId rr)))"
proof -
  have c: "notas_recortadas (cita\<lparr>estado := e, motivoCancelacion := m, canceladoPor := p\<rparr>)"
    if "findById (citas s) citaId = Some cita" for cita e m p
  proof -
    have "notas_recortadas cita" using assms findById_set [OF that] by (simp add: list_all_iff)
    then show ?thesis by (simp add: notas_recortadas_def)
  qed
  have "list_all notas_recortadas (citas (snd (desenlace (reprogramarCita env fl usr s citaId rr))))"
    unfolding reprogramarCita_desenlace using assms c
    by (auto simp: visible_def registrar_def recortadas_olvida recortadas_actualizar_doc
        recortadas_nueva_cita split: option.splits)
  then show ?thesis by (simp only: recortadas_desenlace)
qed

lemma notas_recortadas_cambiarEstado:
  assumes "list_all notas_recortadas (citas s)"
  shows "list_all notas_recortadas (citas (snd (cambiarEstadoCita usr s citaId re)))"
proof (cases "findById (citas s) citaId")
  case None
  then show ?thesis using assms by (simp add: cambiarEstadoCita_def split: option.splits)
next
  case (Some cita)
  have n: "notas_recortadas cita" using assms findById_set [OF Some] by (simp add: list_all_iff)
  have c: "notas_recortadas (c\<lparr>estado := e\<rparr>) = notas_recortadas c"
    "notas_recortadas (c\<lparr>canceladoPor := p, motivoCancelacion := m\<rparr>) = notas_recortadas c"
    "notas_recortadas (c\<lparr>notas := Some (trim x)\<rparr>)" for c e p m x
    by (simp_all add: notas_recortadas_def trim_idem)
  show ?thesis using assms Some n
    by (auto simp: cambiarEstadoCita_def Let_def c intro!: recortadas_actualizar_doc
        split: option.splits)
qed

lemma notas_recortadas_cancelar:
  assumes "list_all notas_recortadas (citas s)"
  shows "list_all notas_recortadas (citas (snd (cancelarCita usr s citaId rx)))"
proof (cases "findById (citas s) citaId")
  case None
  then show ?thesis using assms by (simp add: cancelarCita_def)
next
  case (Some cita)
  have n: "notas_recortadas cita" using assms findById_set [OF Some] by (simp add: list_all_iff)
  have c: "notas_recortadas (cita\<lparr>estado := e, canceladoPor := p, motivoCancelacion := m\<rparr>)"
    for e p m using n by (simp add: notas_recortadas_def)
  show ?thesis using assms Some c
    by (auto simp: cancelarCita_def Let_def registrar_def intro!: recortadas_actualizar_doc
        split: option.splits)
qed

end
